theory Spec2Isabelle
  imports Main "HOL-Library.AList"
begin

section \<open>Strings as the parsers use them\<close>

text \<open>
  Source texts, identifiers and expressions are JavaScript strings; they are modelled
  as \<open>string\<close>, one \<open>char\<close> per code unit. The helpers below are the string methods
  the parsers call, with their behaviour at the borders written out: \<open>substring\<close>
  clamps both indices to the length and swaps them when they are out of order,
  \<open>indexOf\<close> answers \<open>None\<close> where JavaScript answers \<open>-1\<close>, and \<open>charAt\<close>
  answers \<open>None\<close> where an index read gives \<open>undefined\<close>.
\<close>

definition is_word :: "char \<Rightarrow> bool" where
  "is_word c = (let n = of_char c :: nat in
     (48 \<le> n \<and> n \<le> 57) \<or> (65 \<le> n \<and> n \<le> 90) \<or> (97 \<le> n \<and> n \<le> 122) \<or> n = 95)"

definition is_space :: "char \<Rightarrow> bool" where
  "is_space c = (let n = of_char c :: nat in (9 \<le> n \<and> n \<le> 13) \<or> n = 32 \<or> n = 160)"

definition trim :: "string \<Rightarrow> string" where
  "trim s = rev (dropWhile is_space (rev (dropWhile is_space s)))"

definition startsWith :: "string \<Rightarrow> string \<Rightarrow> bool" where
  "startsWith s p = (take (length p) s = p)"

definition endsWith :: "string \<Rightarrow> string \<Rightarrow> bool" where
  "endsWith s p = (length p \<le> length s \<and> drop (length s - length p) s = p)"

definition substring :: "string \<Rightarrow> nat \<Rightarrow> nat \<Rightarrow> string" where
  "substring s a b =
     (let a' = min a (length s); b' = min b (length s);
          lo = min a' b'; hi = max a' b'
      in take (hi - lo) (drop lo s))"

definition charAt :: "string \<Rightarrow> nat \<Rightarrow> char option" where
  "charAt s i = (if i < length s then Some (s ! i) else None)"

fun find_sub :: "string \<Rightarrow> string \<Rightarrow> nat option" where
  "find_sub p [] = (if p = [] then Some 0 else None)"
| "find_sub p (c # cs) =
     (if take (length p) (c # cs) = p then Some 0
      else map_option Suc (find_sub p cs))"

definition indexOf :: "string \<Rightarrow> string \<Rightarrow> nat \<Rightarrow> nat option" where
  "indexOf s p from =
     (let k = min from (length s) in map_option (\<lambda>i. i + k) (find_sub p (drop k s)))"

fun split_on :: "char \<Rightarrow> string \<Rightarrow> string \<Rightarrow> string list" where
  "split_on d cur [] = [rev cur]"
| "split_on d cur (c # cs) =
     (if c = d then rev cur # split_on d [] cs else split_on d (c # cur) cs)"

definition split :: "string \<Rightarrow> char \<Rightarrow> string list" where
  "split s d = split_on d [] s"

section \<open>The workflow graph (types/workflow.ts)\<close>

datatype DataSourceType =
  Workflow_input | Activity_output | Event_data | Literal | Constructed

record DataSource =
  sourceType :: DataSourceType
  sourcePath :: string
  targetProperty :: "string option"
  sourceActivityId :: "string option"

datatype WorkflowNodeType =
  Start | End | Activity | SubOrchestration | Timer | Event | Decision
  | Parallel | ParallelBranch | Join | Retry | WorkflowInput

text \<open>
  A node's \<open>metadata\<close> is an open dictionary in the source; the assembler reads two of
  its entries, \<open>lineNumber\<close> and \<open>isParallelTask\<close>, which are fields here (an absent
  \<open>isParallelTask\<close> is falsy, hence \<open>False\<close>). An absent \<open>dataSources\<close> and an empty
  one are treated alike wherever the source reads the field, so it is a plain list.
\<close>

record WorkflowNode =
  node_id :: string
  node_type :: WorkflowNodeType
  name :: string
  label :: string
  lineNumber :: "nat option"
  isParallelTask :: bool
  node_input :: "string option"
  node_output :: "string option"
  dataSources :: "DataSource list"

datatype EdgeType =
  Default_edge | Control_edge | Data_workflow_input | Data_activity_output | Data_event
  | Conditional_edge | Error_edge | Timeout_edge | Parallel_edge

record WorkflowEdge =
  edge_id :: string
  source :: string
  target :: string
  edge_label :: "string option"
  edge_type :: EdgeType
  dataFlow :: "string option"
  dataSourceType :: "DataSourceType option"

section \<open>Base parser (baseParser.ts)\<close>

definition createNode ::
  "string \<Rightarrow> WorkflowNodeType \<Rightarrow> string \<Rightarrow> string \<Rightarrow> nat option \<Rightarrow> bool \<Rightarrow> WorkflowNode" where
  "createNode i t n l ln par =
     \<lparr>node_id = i, node_type = t, name = n, label = (if l = [] then n else l),
      lineNumber = ln, isParallelTask = par, node_input = None, node_output = None, dataSources = []\<rparr>"

definition startNode :: WorkflowNode where
  "startNode = createNode ''start'' Start ''Start'' ''Start'' None False"

definition endNode :: WorkflowNode where
  "endNode = createNode ''end'' End ''End'' ''End'' None False"

definition addStartEndNodes :: "WorkflowNode list \<Rightarrow> WorkflowNode list" where
  "addStartEndNodes nodes = startNode # nodes @ [endNode]"

section \<open>Graph assembly (buildControlFlowEdges, buildEdgesWithDataFlow)\<close>

text \<open>
  The three language parsers carry the same assembler, statement for statement. The
  parallel-group map is a JavaScript \<open>Map\<close>, modelled as an association list read with
  \<open>map_of\<close> and written with \<open>AList.update\<close> (a repeated \<open>set\<close> overwrites the value
  and keeps the key's place).
\<close>

definition lineOf :: "WorkflowNode \<Rightarrow> nat" where
  "lineOf n = (case lineNumber n of None \<Rightarrow> 0 | Some l \<Rightarrow> l)"

definition sortedNodes :: "WorkflowNode list \<Rightarrow> WorkflowNode list" where
  "sortedNodes nodes = sort_key lineOf nodes"

definition parallelTaskNodeIds :: "WorkflowNode list \<Rightarrow> string list" where
  "parallelTaskNodeIds srt = map node_id (filter isParallelTask srt)"

definition joinNodeIds :: "WorkflowNode list \<Rightarrow> string list" where
  "joinNodeIds srt =
     map node_id (filter (\<lambda>n. node_type n = Parallel \<and> startsWith (node_id n) ''parallel-join'') srt)"

definition controlEdge :: "string \<Rightarrow> string \<Rightarrow> EdgeType \<Rightarrow> WorkflowEdge" where
  "controlEdge s t ty =
     \<lparr>edge_id = s @ ''-'' @ t, source = s, target = t, edge_label = None,
      edge_type = ty, dataFlow = None, dataSourceType = None\<rparr>"

record walk_state =
  lastSequentialNode :: "WorkflowNode option"
  processedParallelGroups :: "string list"
  edges :: "WorkflowEdge list"

definition sequentialStep :: "WorkflowNode \<Rightarrow> walk_state \<Rightarrow> walk_state" where
  "sequentialStep node st =
     st\<lparr>lastSequentialNode := Some node,
        edges := edges st @
          (case lastSequentialNode st of
             None \<Rightarrow> []
           | Some l \<Rightarrow> if node_id l \<noteq> node_id node
                       then [controlEdge (node_id l) (node_id node) Default_edge] else [])\<rparr>"

definition parallelGroup :: "(string \<times> string) list \<Rightarrow> WorkflowNode list \<Rightarrow> string \<Rightarrow> WorkflowNode list" where
  "parallelGroup gm srt j = filter (\<lambda>p. map_of gm (node_id p) = Some j) srt"

definition groupStep ::
  "(string \<times> string) list \<Rightarrow> WorkflowNode list \<Rightarrow> string \<Rightarrow> walk_state \<Rightarrow> walk_state" where
  "groupStep gm srt j st =
     (let grp = parallelGroup gm srt j;
          fanOut = (case lastSequentialNode st of
                      None \<Rightarrow> []
                    | Some l \<Rightarrow> map (\<lambda>p. controlEdge (node_id l) (node_id p) Parallel_edge) grp)
      in case find (\<lambda>n. node_id n = j) srt of
           None \<Rightarrow>
             st\<lparr>processedParallelGroups := j # processedParallelGroups st,
                edges := edges st @ fanOut\<rparr>
         | Some joinNode \<Rightarrow>
             st\<lparr>lastSequentialNode := Some joinNode,
                processedParallelGroups := j # processedParallelGroups st,
                edges := edges st @ fanOut
                  @ map (\<lambda>p. controlEdge (node_id p) (node_id joinNode) Parallel_edge) grp\<rparr>)"

definition visit ::
  "(string \<times> string) list \<Rightarrow> WorkflowNode list \<Rightarrow> WorkflowNode \<Rightarrow> walk_state \<Rightarrow> walk_state" where
  "visit gm srt node st =
     (if node_type node = Start then st\<lparr>lastSequentialNode := Some node\<rparr>
      else if node_type node = End then st
      else if node_id node \<in> set (parallelTaskNodeIds srt) then
        (case map_of gm (node_id node) of
           None \<Rightarrow> sequentialStep node st
         | Some j \<Rightarrow>
             if j = [] then sequentialStep node st
             else if j \<in> set (processedParallelGroups st) then st
             else groupStep gm srt j st)
      else if node_id node \<in> set (joinNodeIds srt) then
        (case lastSequentialNode st of
           None \<Rightarrow> st\<lparr>lastSequentialNode := Some node\<rparr>
         | Some l \<Rightarrow> if node_id l \<noteq> node_id node
                     then st\<lparr>lastSequentialNode := Some node\<rparr> else st)
      else sequentialStep node st)"

fun walk ::
  "(string \<times> string) list \<Rightarrow> WorkflowNode list \<Rightarrow> WorkflowNode list \<Rightarrow> walk_state \<Rightarrow> walk_state" where
  "walk gm srt [] st = st"
| "walk gm srt (node # rest) st = walk gm srt rest (visit gm srt node st)"

definition connectEnd :: "WorkflowNode list \<Rightarrow> walk_state \<Rightarrow> WorkflowEdge list" where
  "connectEnd srt st =
     (case (lastSequentialNode st, find (\<lambda>n. node_type n = End) srt) of
        (Some l, Some e) \<Rightarrow>
          if node_id l \<noteq> node_id e
          then edges st @ [controlEdge (node_id l) (node_id e) Default_edge] else edges st
      | _ \<Rightarrow> edges st)"

definition initial_walk :: walk_state where
  "initial_walk = \<lparr>lastSequentialNode = None, processedParallelGroups = [], edges = []\<rparr>"

definition buildControlFlowEdges :: "(string \<times> string) list \<Rightarrow> WorkflowNode list \<Rightarrow> WorkflowEdge list" where
  "buildControlFlowEdges gm nodes =
     (let srt = sortedNodes nodes
      in connectEnd srt (walk gm srt srt initial_walk))"

text \<open>
  \<open>getShortPath\<close>: the last dot-separated part; failing that, the word inside a
  trailing bracket access (the regular expression \<^verbatim>\<open>\[['"]?(\w+)['"]?\]$\<close>, which has one
  way to match at each position: an optional quote, the longest run of word characters,
  an optional quote, the closing bracket, the end of the text); failing that, the path
  cut to twelve characters.
\<close>

definition skipQuote :: "string \<Rightarrow> string" where
  "skipQuote r = (case r of [] \<Rightarrow> [] | c # cs \<Rightarrow> if c = CHR 0x27 \<or> c = CHR 0x22 then cs else r)"

definition bracketTail :: "string \<Rightarrow> string option" where
  "bracketTail r =
     (let r1 = skipQuote r; w = takeWhile is_word r1;
          r2 = skipQuote (dropWhile is_word r1)
      in if w \<noteq> [] \<and> r2 = '']'' then Some w else None)"

fun bracketMatch :: "string \<Rightarrow> string option" where
  "bracketMatch [] = None"
| "bracketMatch (c # cs) =
     (if c = CHR ''[''
      then (case bracketTail cs of Some w \<Rightarrow> Some w | None \<Rightarrow> bracketMatch cs)
      else bracketMatch cs)"

definition getShortPath :: "string \<Rightarrow> string" where
  "getShortPath path =
     (let parts = split path CHR ''.''
      in if length parts > 1 then last parts
         else case bracketMatch path of
                Some w \<Rightarrow> w
              | None \<Rightarrow> if length path > 15 then substring path 0 12 @ ''...'' else path)"

definition edgeLabel :: "DataSource \<Rightarrow> string" where
  "edgeLabel src =
     (case targetProperty src of
        None \<Rightarrow> getShortPath (sourcePath src)
      | Some t \<Rightarrow> if t \<noteq> [] then t else getShortPath (sourcePath src))"

definition producerOf :: "DataSource \<Rightarrow> string option" where
  "producerOf src =
     (case sourceActivityId src of
        None \<Rightarrow> None
      | Some a \<Rightarrow> if sourceType src = Activity_output \<and> a \<noteq> [] then Some a else None)"

definition dataFlowEdge :: "WorkflowNode \<Rightarrow> DataSource \<Rightarrow> WorkflowEdge list" where
  "dataFlowEdge node src =
     (if sourceType src = Workflow_input then
        [\<lparr>edge_id = ''df-start-'' @ node_id node @ ''-'' @ sourcePath src,
          source = ''start'', target = node_id node, edge_label = Some (edgeLabel src),
          edge_type = Data_workflow_input, dataFlow = Some (sourcePath src),
          dataSourceType = Some Workflow_input\<rparr>]
      else case producerOf src of
        Some a \<Rightarrow>
          [\<lparr>edge_id = ''df-'' @ a @ ''-'' @ node_id node @ ''-'' @ sourcePath src,
            source = a, target = node_id node, edge_label = Some (edgeLabel src),
            edge_type = Data_activity_output, dataFlow = Some (sourcePath src),
            dataSourceType = Some Activity_output\<rparr>]
      | None \<Rightarrow>
          if sourceType src = Event_data then
            [\<lparr>edge_id = ''df-event-'' @ node_id node,
              source = node_id node, target = node_id node, edge_label = None,
              edge_type = Data_event, dataFlow = Some (sourcePath src),
              dataSourceType = Some Event_data\<rparr>]
          else [])"

definition dataFlowEdges :: "WorkflowNode list \<Rightarrow> WorkflowEdge list" where
  "dataFlowEdges nodes = concat (map (\<lambda>node. concat (map (dataFlowEdge node) (dataSources node))) nodes)"

definition buildEdgesWithDataFlow :: "(string \<times> string) list \<Rightarrow> WorkflowNode list \<Rightarrow> WorkflowEdge list" where
  "buildEdgesWithDataFlow gm nodes = buildControlFlowEdges gm nodes @ dataFlowEdges nodes"

text \<open>
  The tail of every \<open>parse\<close>: the recognised step nodes get the synthetic start and end
  nodes around them, then the edges are built over that node list.
\<close>

definition assemble ::
  "(string \<times> string) list \<Rightarrow> WorkflowNode list \<Rightarrow> WorkflowNode list \<times> WorkflowEdge list" where
  "assemble gm steps =
     (let nodes = addStartEndNodes steps in (nodes, buildEdgesWithDataFlow gm nodes))"

section \<open>Parser registry (parsers/index.ts)\<close>

datatype SupportedLanguage = Csharp | Python | Javascript | Typescript

datatype parser =
  CSharpWorkflowParser | PythonWorkflowParser | JavaScriptWorkflowParser SupportedLanguage

fun canParse :: "parser \<Rightarrow> string \<Rightarrow> bool" where
  "canParse CSharpWorkflowParser filePath = endsWith filePath ''.cs''"
| "canParse PythonWorkflowParser filePath = endsWith filePath ''.py''"
| "canParse (JavaScriptWorkflowParser l) filePath =
     (endsWith filePath ''.js'' \<or> endsWith filePath ''.ts''
      \<or> endsWith filePath ''.mjs'' \<or> endsWith filePath ''.mts'')"

fun language :: "parser \<Rightarrow> SupportedLanguage" where
  "language CSharpWorkflowParser = Csharp"
| "language PythonWorkflowParser = Python"
| "language (JavaScriptWorkflowParser l) = l"

definition parsers :: "parser list" where
  "parsers = [CSharpWorkflowParser, PythonWorkflowParser,
              JavaScriptWorkflowParser Javascript, JavaScriptWorkflowParser Typescript]"

definition getParser :: "string \<Rightarrow> parser option" where
  "getParser filePath = find (\<lambda>p. canParse p filePath) parsers"

definition getSupportedExtensions :: "string list" where
  "getSupportedExtensions = [''.cs'', ''.py'', ''.js'', ''.ts'', ''.mjs'', ''.mts'']"

definition getLanguage :: "string \<Rightarrow> SupportedLanguage option" where
  "getLanguage filePath =
     (if endsWith filePath ''.cs'' then Some Csharp
      else if endsWith filePath ''.py'' then Some Python
      else if endsWith filePath ''.ts'' \<or> endsWith filePath ''.mts'' then Some Typescript
      else if endsWith filePath ''.js'' \<or> endsWith filePath ''.mjs'' then Some Javascript
      else None)"

definition claimants :: "string \<Rightarrow> parser list" where
  "claimants filePath = filter (\<lambda>p. canParse p filePath) parsers"

section \<open>Delimiter scanner of the Python parser\<close>

text \<open>
  \<open>findMatchingBracket\<close> is a \<open>while\<close> loop over an index \<open>i\<close>, a nesting depth \<open>depth\<close>
  and the open string delimiter \<open>inString\<close> (\<open>null\<close>, a quote character, or a triple
  quote). \<open>scanStep\<close> is the body of the loop and \<open>scanBrackets\<close> the loop, which
  returns the state it ends with; \<open>findMatchingBracket\<close> returns the final index minus
  one. Only the opening character and its own closer change the depth.
\<close>

definition backslash :: char where
  "backslash = CHR 0x5C"

definition dquote :: char where
  "dquote = CHR 0x22"

definition squote :: char where
  "squote = CHR 0x27"

definition prevCharAt :: "string \<Rightarrow> nat \<Rightarrow> char option" where
  "prevCharAt s i = (if i = 0 then None else charAt s (i - 1))"

definition isTripleQuote :: "string \<Rightarrow> bool" where
  "isTripleQuote t = (t = [dquote, dquote, dquote] \<or> t = [squote, squote, squote])"

definition closerOf :: "char option \<Rightarrow> char" where
  "closerOf openChar =
     (if openChar = Some CHR ''{'' then CHR ''}''
      else if openChar = Some CHR ''['' then CHR '']'' else CHR '')'')"

record scan_state =
  scan_i :: nat
  scan_depth :: nat
  inString :: "string option"

definition scanStep :: "string \<Rightarrow> char option \<Rightarrow> char \<Rightarrow> scan_state \<Rightarrow> scan_state" where
  "scanStep s openChar closeChar st =
     (let i = scan_i st; char = s ! i in
      if (char = dquote \<or> char = squote) \<and> prevCharAt s i \<noteq> Some backslash then
        (case inString st of
           None \<Rightarrow>
             if isTripleQuote (substring s i (i + 3))
             then st\<lparr>scan_i := i + 3, inString := Some (substring s i (i + 3))\<rparr>
             else st\<lparr>scan_i := i + 1, inString := Some [char]\<rparr>
         | Some q \<Rightarrow>
             if q = [char] \<or> (length q = 3 \<and> substring s i (i + 3) = q)
             then st\<lparr>scan_i := (if length q = 3 then i + 3 else i + 1), inString := None\<rparr>
             else st\<lparr>scan_i := i + 1\<rparr>)
      else
        (case inString st of
           None \<Rightarrow>
             if Some char = openChar then st\<lparr>scan_i := i + 1, scan_depth := scan_depth st + 1\<rparr>
             else if char = closeChar then st\<lparr>scan_i := i + 1, scan_depth := scan_depth st - 1\<rparr>
             else st\<lparr>scan_i := i + 1\<rparr>
         | Some q \<Rightarrow> st\<lparr>scan_i := i + 1\<rparr>))"

lemma scanStep_advances: "scan_i st < scan_i (scanStep s openChar closeChar st)"
  by (simp add: scanStep_def Let_def split: option.split)

function scanBrackets :: "string \<Rightarrow> char option \<Rightarrow> char \<Rightarrow> scan_state \<Rightarrow> scan_state" where
  "scanBrackets s openChar closeChar st =
     (if scan_i st < length s \<and> 0 < scan_depth st
      then scanBrackets s openChar closeChar (scanStep s openChar closeChar st)
      else st)"
  by pat_completeness auto
termination
proof (relation "measure (\<lambda>(s, oc, cc, st). length s - scan_i st)")
  show "wf (measure (\<lambda>(s, oc, cc, st). length s - scan_i st))"
    by simp
next
  fix s :: string and openChar closeChar and st :: scan_state
  assume "scan_i st < length s \<and> 0 < scan_depth st"
  with scanStep_advances [of st s openChar closeChar]
  show "((s, openChar, closeChar, scanStep s openChar closeChar st), (s, openChar, closeChar, st))
        \<in> measure (\<lambda>(s, oc, cc, st). length s - scan_i st)"
    by auto
qed

declare scanBrackets.simps [simp del]

definition scanFrom :: "string \<Rightarrow> nat \<Rightarrow> scan_state" where
  "scanFrom s openIndex =
     scanBrackets s (charAt s openIndex) (closerOf (charAt s openIndex))
       \<lparr>scan_i = openIndex + 1, scan_depth = 1, inString = None\<rparr>"

definition findMatchingBracket :: "string \<Rightarrow> nat \<Rightarrow> nat" where
  "findMatchingBracket s openIndex = scan_i (scanFrom s openIndex) - 1"

text \<open>
  \<open>extractInputExpression\<close> of the Python parser. The regular expression
  \<^verbatim>\<open>,\s*input\s*=\s*\<close> has one way to match at each comma (every \<open>\s*\<close> is followed by a
  character that is not white space), so \<open>inputMarker\<close> returns the position of the first
  comma at which it matches, with the length of the match.
\<close>

definition inputMarkerAt :: "string \<Rightarrow> nat option" where
  "inputMarkerAt r =
     (let r1 = dropWhile is_space r
      in if startsWith r1 ''input''
         then (case dropWhile is_space (drop 5 r1) of
                 [] \<Rightarrow> None
               | c # r3 \<Rightarrow> if c = CHR ''='' then Some (length (dropWhile is_space r3)) else None)
         else None)"

fun inputMarker :: "string \<Rightarrow> (nat \<times> nat) option" where
  "inputMarker [] = None"
| "inputMarker (c # r) =
     (case (if c = CHR '','' then inputMarkerAt r else None) of
        Some rest \<Rightarrow> Some (0, Suc (length r) - rest)
      | None \<Rightarrow> map_option (\<lambda>(k, l). (Suc k, l)) (inputMarker r))"

definition isOpenBracket :: "char option \<Rightarrow> bool" where
  "isOpenBracket c = (c = Some CHR ''{'' \<or> c = Some CHR ''['' \<or> c = Some CHR ''('')"

definition inputStartOf :: "string \<Rightarrow> nat \<Rightarrow> nat option" where
  "inputStartOf s matchIndex =
     (case indexOf s ''call_activity'' matchIndex of
        None \<Rightarrow> None
      | Some callStart \<Rightarrow>
          (case indexOf s ''('' callStart of
             None \<Rightarrow> None
           | Some parenStart \<Rightarrow>
               (case inputMarker (drop parenStart s) of
                  None \<Rightarrow> None
                | Some (k, l) \<Rightarrow> Some (parenStart + k + l))))"

definition extractInputExpression :: "string \<Rightarrow> nat \<Rightarrow> string option" where
  "extractInputExpression s matchIndex =
     (case inputStartOf s matchIndex of
        None \<Rightarrow> None
      | Some inputStart \<Rightarrow>
          if isOpenBracket (charAt s inputStart)
          then Some (trim (substring s inputStart (findMatchingBracket s inputStart + 1)))
          else (case indexOf s '')'' inputStart of
                  None \<Rightarrow> None
                | Some endIndex \<Rightarrow> Some (trim (substring s inputStart endIndex))))"

section \<open>Data-source classification of the Python parser\<close>

text \<open>
  The parser object keeps five fields between calls. The three maps are JavaScript
  \<open>Map\<close>s, whose iteration order is the order of first insertion; they are association
  lists, written with \<open>AList.update\<close>.
\<close>

type_synonym strmap = "(string \<times> string) list"

record parser_object =
  outputVariableMap :: strmap
  workflowInputParam :: string
  inputProperties :: "string list"
  parallelTaskMap :: strmap
  parallelGroupMap :: strmap

definition new_instance :: parser_object where
  "new_instance =
     \<lparr>outputVariableMap = [], workflowInputParam = ''input'', inputProperties = [],
      parallelTaskMap = [], parallelGroupMap = []\<rparr>"

definition rootedAt :: "string \<Rightarrow> string \<Rightarrow> bool" where
  "rootedAt expr v = (expr = v \<or> startsWith expr (v @ ''.'') \<or> startsWith expr (v @ ''[''))"

text \<open>
  The test \<^verbatim>\<open>/^\w+(\.\w+|\[['"]?\w+['"]?\])*$/\<close>: a run of word characters, then
  accesses up to the end of the expression. Each access starts with its own character
  and every run of word characters is followed by a character that is not one, so the
  expression matches in at most one way.
\<close>

fun accessTail :: "nat \<Rightarrow> string \<Rightarrow> bool" where
  "accessTail (Suc k) (c # r) = accessTail k r"
| "accessTail (Suc k) [] = False"
| "accessTail 0 [] = True"
| "accessTail 0 (c # r) =
     (if c = CHR ''.'' then
        (let w = takeWhile is_word r in w \<noteq> [] \<and> accessTail (length w) r)
      else if c = CHR ''['' then
        (let r1 = skipQuote r; w = takeWhile is_word r1; r2 = skipQuote (dropWhile is_word r1)
         in w \<noteq> [] \<and> (case r2 of [] \<Rightarrow> False
                         | d # r3 \<Rightarrow> d = CHR '']'' \<and> accessTail (length r - length r3) r))
      else False)"

definition isVariableReference :: "string \<Rightarrow> bool" where
  "isVariableReference expr =
     (takeWhile is_word expr \<noteq> [] \<and> accessTail 0 (dropWhile is_word expr))"

definition isQuoted :: "string \<Rightarrow> bool" where
  "isQuoted expr =
     ((startsWith expr [dquote] \<and> endsWith expr [dquote])
      \<or> (startsWith expr [squote] \<and> endsWith expr [squote]))"

definition classifyExpression :: "parser_object \<Rightarrow> string \<Rightarrow> string option \<Rightarrow> DataSource" where
  "classifyExpression inst expr tp =
     (if rootedAt expr (workflowInputParam inst) then
        \<lparr>sourceType = Workflow_input, sourcePath = expr, targetProperty = tp, sourceActivityId = None\<rparr>
      else case find (\<lambda>(varName, activityId). rootedAt expr varName) (outputVariableMap inst) of
        Some (varName, activityId) \<Rightarrow>
          \<lparr>sourceType = Activity_output, sourcePath = expr, targetProperty = tp,
           sourceActivityId = Some activityId\<rparr>
      | None \<Rightarrow>
          if isQuoted expr then
            \<lparr>sourceType = Literal, sourcePath = expr, targetProperty = tp, sourceActivityId = None\<rparr>
          else if isVariableReference expr then
            \<lparr>sourceType = Workflow_input, sourcePath = expr, targetProperty = tp, sourceActivityId = None\<rparr>
          else
            \<lparr>sourceType = Literal, sourcePath = expr, targetProperty = tp, sourceActivityId = None\<rparr>)"

definition parseKeyValue :: "string \<Rightarrow> (string \<times> string) option" where
  "parseKeyValue str =
     (case indexOf str '':'' 0 of
        None \<Rightarrow> None
      | Some colonIdx \<Rightarrow>
          Some (filter (\<lambda>c. c \<noteq> dquote \<and> c \<noteq> squote) (trim (take colonIdx str)),
                trim (drop (colonIdx + 1) str)))"

definition isOpener :: "char \<Rightarrow> bool" where
  "isOpener c = (c = CHR ''{'' \<or> c = CHR ''['' \<or> c = CHR ''('')"

definition isCloser :: "char \<Rightarrow> bool" where
  "isCloser c = (c = CHR ''}'' \<or> c = CHR '']'' \<or> c = CHR '')'')"

definition pushEntry :: "string \<Rightarrow> (string \<times> string) list \<Rightarrow> (string \<times> string) list" where
  "pushEntry current entries =
     (case parseKeyValue (trim current) of None \<Rightarrow> entries | Some e \<Rightarrow> entries @ [e])"

fun dictEntriesLoop :: "string \<Rightarrow> int \<Rightarrow> string \<Rightarrow> (string \<times> string) list \<Rightarrow> (string \<times> string) list" where
  "dictEntriesLoop [] depth current entries =
     (if trim current \<noteq> [] then pushEntry current entries else entries)"
| "dictEntriesLoop (c # cs) depth current entries =
     (let d1 = (if isOpener c then depth + 1 else depth);
          d2 = (if isCloser c then d1 - 1 else d1)
      in if c = CHR '','' \<and> d2 = 0
         then dictEntriesLoop cs d2 [] (pushEntry current entries)
         else dictEntriesLoop cs d2 (current @ [c]) entries)"

definition parseDictEntries :: "string \<Rightarrow> (string \<times> string) list" where
  "parseDictEntries dictContent = dictEntriesLoop dictContent 0 [] []"

definition analyzeDataSource :: "parser_object \<Rightarrow> string option \<Rightarrow> DataSource list" where
  "analyzeDataSource inst inputExpr =
     (case inputExpr of
        None \<Rightarrow> []
      | Some e \<Rightarrow>
          if e = [] then []
          else if startsWith e ''{'' \<and> endsWith e ''}'' then
            (let sources = map (\<lambda>(k, v). classifyExpression inst v (Some k))
                               (parseDictEntries (butlast (tl e)))
             in if list_ex (\<lambda>s. sourceType s = Workflow_input) sources
                   \<and> list_ex (\<lambda>s. sourceType s = Activity_output) sources
                then map (\<lambda>s. s\<lparr>sourceType := (if length sources > 1 then sourceType s else Constructed)\<rparr>) sources
                else sources)
          else [classifyExpression inst e None])"

text \<open>
  \<open>analyzeConditionSources\<close> builds its patterns from the input parameter name and from
  each registered variable name, all of which are runs of word characters, so they stand
  for themselves in the pattern. \<open>refAt\<close> is one attempt to match at the head of the
  text: the name, a dot or an opening square bracket, and the longest non-empty run of
  \<^verbatim>\<open>[\w"'\[\].]\<close>; with \<open>bare\<close>, failing that, the name not followed by a word
  character. \<open>refsIn\<close> collects the matches from left to right, each search starting
  where the last match ended.
\<close>

definition isPathChar :: "char \<Rightarrow> bool" where
  "isPathChar c = (is_word c \<or> c = dquote \<or> c = squote \<or> c = CHR ''['' \<or> c = CHR '']'' \<or> c = CHR ''.'')"

definition refAt :: "bool \<Rightarrow> string \<Rightarrow> string \<Rightarrow> string option" where
  "refAt bare v t =
     (if v \<noteq> [] \<and> startsWith t v then
        (case drop (length v) t of
           [] \<Rightarrow> if bare then Some v else None
         | c # r \<Rightarrow>
             if (c = CHR ''.'' \<or> c = CHR ''['') \<and> takeWhile isPathChar r \<noteq> []
             then Some (v @ [c] @ takeWhile isPathChar r)
             else if bare \<and> \<not> is_word c then Some v else None)
      else None)"

fun refsIn :: "bool \<Rightarrow> string \<Rightarrow> nat \<Rightarrow> string \<Rightarrow> string list" where
  "refsIn bare v k [] = []"
| "refsIn bare v (Suc k) (c # t) = refsIn bare v k t"
| "refsIn bare v 0 (c # t) =
     (case refAt bare v (c # t) of
        None \<Rightarrow> refsIn bare v 0 t
      | Some m \<Rightarrow> m # refsIn bare v (length m - 1) t)"

definition analyzeConditionSources :: "parser_object \<Rightarrow> string \<Rightarrow> DataSource list" where
  "analyzeConditionSources inst condition =
     map (\<lambda>m. \<lparr>sourceType = Workflow_input, sourcePath = m, targetProperty = None,
               sourceActivityId = None\<rparr>)
         (refsIn False (workflowInputParam inst) 0 condition)
     @ concat (map (\<lambda>(varName, activityId).
                 map (\<lambda>m. \<lparr>sourceType = Activity_output, sourcePath = m, targetProperty = None,
                           sourceActivityId = map_of (outputVariableMap inst) varName\<rparr>)
                     (refsIn True varName 0 condition))
               (outputVariableMap inst))"

section \<open>Step recognition of the Python parser\<close>

text \<open>
  Every step pattern is a regular expression run over the scoped source text by the
  JavaScript engine. What the engine returns for a pattern, the list of its matches with
  their start index and captured groups, is an input of the model (one record per
  match); everything the parser does with a match is modelled. Node ids are the
  template strings of the source, a prefix and the decimal counter.
\<close>

fun showNat :: "nat \<Rightarrow> string" where
  "showNat n =
     (if n < 10 then [char_of (48 + n)]
      else showNat (n div 10) @ [char_of (48 + n mod 10)])"

declare showNat.simps [simp del]

definition getLineNumber :: "string \<Rightarrow> nat \<Rightarrow> nat" where
  "getLineNumber sourceCode index = length (split (substring sourceCode 0 index) CHR 0x0A)"

definition activityId :: "nat \<Rightarrow> string" where
  "activityId index = ''activity-'' @ showNat index"

definition orUndefined :: "string option \<Rightarrow> string option" where
  "orUndefined v = (case v of None \<Rightarrow> None | Some s \<Rightarrow> if s = [] then None else Some s)"

definition registerOutput :: "string option \<Rightarrow> string \<Rightarrow> parser_object \<Rightarrow> parser_object" where
  "registerOutput outputVar nodeId inst =
     (case outputVar of
        None \<Rightarrow> inst
      | Some v \<Rightarrow> inst\<lparr>outputVariableMap := AList.update v nodeId (outputVariableMap inst)\<rparr>)"

record task_match =
  t_index :: nat
  t_var :: string
  t_name :: string

record act_match =
  a_index :: nat
  a_var :: "string option"
  a_name :: string

record extraction =
  x_inst :: parser_object
  x_nodes :: "WorkflowNode list"
  x_index :: nat

definition taskStep :: "string \<Rightarrow> nat \<Rightarrow> task_match \<Rightarrow> extraction \<Rightarrow> extraction" where
  "taskStep src lineOffset m ex =
     (let inputExpr = extractInputExpression src (t_index m);
          nodeId = activityId (x_index ex);
          i1 = (x_inst ex)\<lparr>parallelTaskMap := AList.update (t_var m) nodeId (parallelTaskMap (x_inst ex))\<rparr>;
          ds = analyzeDataSource i1 inputExpr;
          node = (createNode nodeId Activity (t_name m) (t_name m)
                    (Some (getLineNumber src (t_index m) + lineOffset)) True)
                 \<lparr>node_output := Some (t_var m), node_input := inputExpr, dataSources := ds\<rparr>
      in \<lparr>x_inst = i1, x_nodes = x_nodes ex @ [node], x_index = x_index ex + 1\<rparr>)"

text \<open>
  The loop over the awaited matches skips a match when a node with the same name on the
  same line exists already (\<open>checkExisting\<close>); the loop over the string matches has no
  such check.
\<close>

definition alreadyCaptured :: "bool \<Rightarrow> string \<Rightarrow> nat \<Rightarrow> act_match \<Rightarrow> extraction \<Rightarrow> bool" where
  "alreadyCaptured checkExisting src lineOffset m ex =
     (checkExisting \<and> list_ex (\<lambda>n. name n = a_name m
          \<and> lineNumber n = Some (getLineNumber src (a_index m) + lineOffset)) (x_nodes ex))"

definition activityStep :: "bool \<Rightarrow> string \<Rightarrow> nat \<Rightarrow> act_match \<Rightarrow> extraction \<Rightarrow> extraction" where
  "activityStep checkExisting src lineOffset m ex =
     (let outputVar = orUndefined (a_var m);
          inputExpr = extractInputExpression src (a_index m);
          lineNum = getLineNumber src (a_index m) + lineOffset
      in if alreadyCaptured checkExisting src lineOffset m ex
         then ex
         else
           (let nodeId = activityId (x_index ex);
                i1 = registerOutput outputVar nodeId (x_inst ex);
                ds = analyzeDataSource i1 inputExpr;
                node = (createNode nodeId Activity (a_name m) (a_name m) (Some lineNum) False)
                       \<lparr>node_output := outputVar, node_input := inputExpr, dataSources := ds\<rparr>
            in \<lparr>x_inst = i1, x_nodes = x_nodes ex @ [node], x_index = x_index ex + 1\<rparr>))"

definition parseActivities ::
  "string \<Rightarrow> nat \<Rightarrow> task_match list \<Rightarrow> act_match list \<Rightarrow> act_match list \<Rightarrow> parser_object
   \<Rightarrow> WorkflowNode list \<times> parser_object" where
  "parseActivities src lineOffset tasks awaited strings i0 =
     (let e0 = \<lparr>x_inst = i0, x_nodes = [], x_index = 0\<rparr>;
          e1 = fold (taskStep src lineOffset) tasks e0;
          e2 = fold (activityStep True src lineOffset) awaited e1;
          e3 = fold (activityStep False src lineOffset) strings e2
      in (x_nodes e3, x_inst e3))"

record child_match =
  c_index :: nat
  c_var :: "string option"
  c_name :: string
  c_input :: "string option"

definition childStep :: "string \<Rightarrow> nat \<Rightarrow> child_match \<Rightarrow> extraction \<Rightarrow> extraction" where
  "childStep src lineOffset m ex =
     (let outputVar = orUndefined (c_var m);
          workflowName = filter (\<lambda>c. c \<noteq> dquote \<and> c \<noteq> squote) (c_name m);
          inputExpr = map_option trim (c_input m);
          nodeId = ''child-'' @ showNat (x_index ex);
          i1 = registerOutput outputVar nodeId (x_inst ex);
          ds = analyzeDataSource i1 inputExpr;
          node = (createNode nodeId SubOrchestration workflowName (''Child: '' @ workflowName)
                    (Some (getLineNumber src (c_index m) + lineOffset)) False)
                 \<lparr>node_output := outputVar, node_input := inputExpr, dataSources := ds\<rparr>
      in \<lparr>x_inst = i1, x_nodes = x_nodes ex @ [node], x_index = x_index ex + 1\<rparr>)"

record timer_match =
  tm_index :: nat
  tm_var :: "string option"
  tm_duration :: string

definition timerStep :: "string \<Rightarrow> nat \<Rightarrow> timer_match \<Rightarrow> extraction \<Rightarrow> extraction" where
  "timerStep src lineOffset m ex =
     (let outputVar = orUndefined (tm_var m);
          duration = trim (tm_duration m);
          nodeId = ''timer-'' @ showNat (x_index ex);
          i1 = registerOutput outputVar nodeId (x_inst ex);
          node = (createNode nodeId Timer ''Timer''
                    (if duration \<noteq> [] then ''Wait: '' @ substring duration 0 20 else ''Wait Timer'')
                    (Some (getLineNumber src (tm_index m) + lineOffset)) False)
                 \<lparr>node_output := outputVar\<rparr>
      in \<lparr>x_inst = i1, x_nodes = x_nodes ex @ [node], x_index = x_index ex + 1\<rparr>)"

record event_match =
  e_index :: nat
  e_var :: "string option"
  e_name :: string

definition eventStep :: "string \<Rightarrow> nat \<Rightarrow> event_match \<Rightarrow> extraction \<Rightarrow> extraction" where
  "eventStep src lineOffset m ex =
     (let outputVar = orUndefined (e_var m);
          nodeId = ''event-'' @ showNat (x_index ex);
          i1 = registerOutput outputVar nodeId (x_inst ex);
          node = (createNode nodeId Event (e_name m) (''Event: '' @ e_name m)
                    (Some (getLineNumber src (e_index m) + lineOffset)) False)
                 \<lparr>node_output := outputVar,
                  dataSources := [\<lparr>sourceType = Event_data, sourcePath = e_name m,
                                   targetProperty = None, sourceActivityId = None\<rparr>]\<rparr>
      in \<lparr>x_inst = i1, x_nodes = x_nodes ex @ [node], x_index = x_index ex + 1\<rparr>)"

record decision_match =
  d_index :: nat
  d_condition :: string

definition decisionStep :: "string \<Rightarrow> nat \<Rightarrow> decision_match \<Rightarrow> extraction \<Rightarrow> extraction" where
  "decisionStep src lineOffset m ex =
     (let condition = trim (d_condition m);
          ds = analyzeConditionSources (x_inst ex) condition;
          node = (createNode (''decision-'' @ showNat (x_index ex)) Decision
                    (''Decision '' @ showNat (x_index ex + 1))
                    (if length condition > 30 then substring condition 0 30 @ ''...'' else condition)
                    (Some (getLineNumber src (d_index m) + lineOffset)) False)
                 \<lparr>dataSources := ds\<rparr>
      in ex\<lparr>x_nodes := x_nodes ex @ [node], x_index := x_index ex + 1\<rparr>)"

definition retryStep :: "string \<Rightarrow> nat \<Rightarrow> nat \<Rightarrow> extraction \<Rightarrow> extraction" where
  "retryStep src lineOffset index ex =
     ex\<lparr>x_nodes := x_nodes ex @
           [createNode (''retry-'' @ showNat (x_index ex)) Retry ''Retry Policy'' ''Retry''
              (Some (getLineNumber src index + lineOffset)) False],
        x_index := x_index ex + 1\<rparr>"

text \<open>
  A \<open>when_all\<close> match carries its start index, the text of the first group (the
  variables on the left of the assignment, absent when there is none) and the task
  variable names the second pattern finds in the list between the square brackets.
  The label of a join node starts with the symbol U+2AF4, written here as the three
  bytes of its UTF-8 form.
\<close>

record whenall_match =
  w_index :: nat
  w_outputs :: "string option"
  w_tasks :: "string list"

definition mapTask :: "string \<Rightarrow> string \<Rightarrow> parser_object \<Rightarrow> parser_object" where
  "mapTask nodeId taskVar i =
     (case map_of (parallelTaskMap i) taskVar of
        None \<Rightarrow> i
      | Some activityNodeId \<Rightarrow>
          if activityNodeId = [] then i
          else i\<lparr>parallelGroupMap := AList.update activityNodeId nodeId (parallelGroupMap i)\<rparr>)"

definition whenAllStep :: "string \<Rightarrow> nat \<Rightarrow> whenall_match \<Rightarrow> extraction \<Rightarrow> extraction" where
  "whenAllStep src lineOffset m ex =
     (let outputs = (case w_outputs m of None \<Rightarrow> [] | Some t \<Rightarrow> map trim (split t CHR '',''));
          nodeId = ''parallel-join-'' @ showNat (x_index ex);
          i1 = fold (\<lambda>outputVar. registerOutput (orUndefined (Some outputVar)) nodeId) outputs (x_inst ex);
          i2 = fold (mapTask nodeId) (w_tasks m) i1;
          node = createNode nodeId Parallel ''Join''
                   ([CHR 0xE2, CHR 0xAB, CHR 0xB4] @ '' Join ('' @ showNat (length (w_tasks m)) @ '' tasks)'')
                   (Some (getLineNumber src (w_index m) + lineOffset)) False
      in \<lparr>x_inst = i2, x_nodes = x_nodes ex @ [node], x_index = x_index ex + 1\<rparr>)"

definition parseWith ::
  "('m \<Rightarrow> extraction \<Rightarrow> extraction) \<Rightarrow> 'm list \<Rightarrow> parser_object \<Rightarrow> WorkflowNode list \<times> parser_object" where
  "parseWith step ms i0 =
     (let e = fold step ms \<lparr>x_inst = i0, x_nodes = [], x_index = 0\<rparr> in (x_nodes e, x_inst e))"

section \<open>Return information (extractReturnInfo in the three parsers)\<close>

record Metadata =
  description :: "string option"
  inputType :: "string option"
  outputType :: "string option"
  md_inputProperties :: "string list option"
  outputFields :: "string list option"
  returnExpression :: "string option"

text \<open>
  The field patterns of \<open>parseReturnExpression\<close>. Each is tried at every position from
  left to right and the search goes on where a match ended; \<open>matchesOf\<close> is that search
  for a pattern given as a function from the text at a position to the captured group
  and the length of the match. The three patterns have one way to match at a position:
  a run of word characters is taken whole, white space is taken whole.
\<close>

fun matchesOf :: "(string \<Rightarrow> (string \<times> nat) option) \<Rightarrow> nat \<Rightarrow> string \<Rightarrow> string list" where
  "matchesOf pat k [] = []"
| "matchesOf pat (Suc k) (c # t) = matchesOf pat k t"
| "matchesOf pat 0 (c # t) =
     (case pat (c # t) of
        None \<Rightarrow> matchesOf pat 0 t
      | Some (g, l) \<Rightarrow> g # matchesOf pat (l - 1) t)"

definition wordThen :: "char \<Rightarrow> string \<Rightarrow> (string \<times> nat) option" where
  "wordThen d t =
     (let w = takeWhile is_word t; r = dropWhile is_space (dropWhile is_word t)
      in if w \<noteq> [] \<and> r \<noteq> [] \<and> hd r = d then Some (w, Suc (length t - length r)) else None)"

definition quotedKey :: "string \<Rightarrow> (string \<times> nat) option" where
  "quotedKey t =
     (case t of
        [] \<Rightarrow> None
      | q # t1 \<Rightarrow>
          if q = dquote \<or> q = squote then
            (let w = takeWhile is_word t1; t2 = dropWhile is_word t1
             in case t2 of
                  [] \<Rightarrow> None
                | q2 # t3 \<Rightarrow>
                    if w \<noteq> [] \<and> (q2 = dquote \<or> q2 = squote) then
                      (let r = dropWhile is_space t3
                       in if r \<noteq> [] \<and> hd r = CHR '':''
                          then Some (w, Suc (length t - length r)) else None)
                    else None)
          else None)"

definition isConstructorCall :: "string \<Rightarrow> bool" where
  "isConstructorCall e =
     (takeWhile is_word e \<noteq> []
      \<and> startsWith (dropWhile is_space (dropWhile is_word e)) ''('')"

definition py_parseReturnExpression :: "string \<Rightarrow> string list" where
  "py_parseReturnExpression e =
     (if startsWith e ''{'' then matchesOf quotedKey 0 e
      else if isConstructorCall e then matchesOf (wordThen CHR ''='') 0 e
      else [])"

definition cs_parseReturnExpression :: "string \<Rightarrow> string list" where
  "cs_parseReturnExpression e = matchesOf (wordThen CHR ''='') 0 e"

definition js_parseReturnExpression :: "string \<Rightarrow> string list" where
  "js_parseReturnExpression e =
     (if startsWith e ''{'' then matchesOf (wordThen CHR '':'') 0 e else [])"

definition collectFields :: "(string \<Rightarrow> string list) \<Rightarrow> string list \<Rightarrow> string list" where
  "collectFields parseExpr rets =
     fold (\<lambda>f allFields. if f \<in> set allFields then allFields else allFields @ [f])
          (concat (map parseExpr rets)) []"

text \<open>
  \<open>extractReturnInfo\<close> gets the first group of every match of the language's return
  pattern. The Python and the JavaScript parser store the field names and the last
  return expression; the C# parser stores the field names.
\<close>

definition py_extractReturnInfo :: "string list \<Rightarrow> Metadata \<Rightarrow> Metadata" where
  "py_extractReturnInfo captures md =
     (let rets = map trim captures
      in if rets = [] then md
         else md\<lparr>outputFields := Some (collectFields py_parseReturnExpression rets),
                 returnExpression := Some (last rets)\<rparr>)"

definition js_extractReturnInfo :: "string list \<Rightarrow> Metadata \<Rightarrow> Metadata" where
  "js_extractReturnInfo captures md =
     (let rets = map trim captures
      in if rets = [] then md
         else md\<lparr>outputFields := Some (collectFields js_parseReturnExpression rets),
                 returnExpression := Some (last rets)\<rparr>)"

definition cs_extractReturnInfo :: "string list \<Rightarrow> Metadata \<Rightarrow> Metadata" where
  "cs_extractReturnInfo captures md =
     (let rets = map trim captures
      in if rets = [] then md
         else md\<lparr>outputFields := Some (collectFields cs_parseReturnExpression rets)\<rparr>)"

text \<open>
  \<open>extractMetadata\<close> starts from a record that has only \<open>inputProperties\<close>, an empty
  list, and fills in the description, the type names and the property names its
  patterns find; no parser's \<open>extractMetadata\<close> writes \<open>outputFields\<close> or
  \<open>returnExpression\<close>. \<open>foundMetadata\<close> builds its result from what the patterns found.
\<close>

definition foundMetadata ::
  "string option \<Rightarrow> string option \<Rightarrow> string option \<Rightarrow> string list \<Rightarrow> Metadata" where
  "foundMetadata descr inT outT props =
     \<lparr>description = descr, inputType = inT, outputType = outT,
      md_inputProperties = Some props, outputFields = None, returnExpression = None\<rparr>"

section \<open>The parse call of the Python parser\<close>

record ActivityDataFlow =
  ad_nodeId :: string
  ad_name :: string
  ad_type :: WorkflowNodeType
  ad_inputs :: "DataSource list"
  ad_output :: "string option"
  ad_lineNumber :: "nat option"

record DataFlowMetadata =
  df_workflow :: string
  df_inputType :: "string option"
  df_properties :: "string list"
  parameterName :: string
  activities :: "ActivityDataFlow list"
  df_outputVariableMap :: strmap

record DebugInfo =
  dbg_parallelTaskMap :: strmap
  dbg_parallelGroupMap :: strmap
  nodeCount :: nat
  edgeCount :: nat

record WorkflowDefinition =
  wf_id :: string
  wf_name :: string
  wf_language :: SupportedLanguage
  filePath :: string
  wf_nodes :: "WorkflowNode list"
  wf_edges :: "WorkflowEdge list"
  dataFlow :: "DataFlowMetadata option"
  metadata :: "Metadata option"
  debug :: "DebugInfo option"

record ParseError =
  message :: string

record ParseResult =
  success :: bool
  workflow :: "WorkflowDefinition option"
  errors :: "ParseError list option"

text \<open>
  A value thrown inside the \<open>try\<close> block is an \<open>Error\<close> object with its message, or
  any other value. The catch clause is \<open>caught\<close>.
\<close>

datatype thrown = ErrorObject string | OtherValue

definition caught :: "thrown \<Rightarrow> ParseResult" where
  "caught e =
     \<lparr>success = False, workflow = None,
      errors = Some [\<lparr>message = (case e of ErrorObject m \<Rightarrow> m
                                   | OtherValue \<Rightarrow> ''Unknown parsing error'')\<rparr>]\<rparr>"

definition returned :: "WorkflowDefinition \<Rightarrow> ParseResult" where
  "returned w = \<lparr>success = True, workflow = Some w, errors = None\<rparr>"

text \<open>
  The statements of the \<open>try\<close> block of \<open>parse\<close> that call into the JavaScript runtime
  (regular expressions, string methods, the clock and the random generator), in the
  order of the Python parser. The C# and the JavaScript parser call
  \<open>parseSubOrchestrations\<close> where the Python parser calls \<open>parseChildWorkflows\<close>, and have
  no \<open>parseRetryPolicies\<close>.
\<close>

datatype statement =
  FindAllWorkflows | ExtractWorkflowName | CreateEmptyWorkflow | ExtractMetadata
  | ExtractWorkflowInputInfo | ExtractReturnInfo
  | ParseActivities | ParseChildWorkflows | ParseSubOrchestrations | ParseTimers
  | ParseExternalEvents | ParseDecisions | ParseRetryPolicies | ParseParallelBlocks
  | BuildDataFlowMetadata | BuildEdgesWithDataFlow

definition py_statements :: "statement list" where
  "py_statements =
     [FindAllWorkflows, ExtractWorkflowName, CreateEmptyWorkflow, ExtractMetadata,
      ExtractWorkflowInputInfo, ExtractReturnInfo, ParseActivities, ParseChildWorkflows,
      ParseTimers, ParseExternalEvents, ParseDecisions, ParseRetryPolicies,
      ParseParallelBlocks, BuildDataFlowMetadata, BuildEdgesWithDataFlow]"

definition cs_statements :: "statement list" where
  "cs_statements =
     [FindAllWorkflows, ExtractWorkflowName, CreateEmptyWorkflow, ExtractMetadata,
      ExtractWorkflowInputInfo, ExtractReturnInfo, ParseActivities, ParseSubOrchestrations,
      ParseTimers, ParseExternalEvents, ParseDecisions, ParseParallelBlocks,
      BuildDataFlowMetadata, BuildEdgesWithDataFlow]"

definition js_statements :: "statement list" where
  "js_statements = cs_statements"

text \<open>
  One call of \<open>parse\<close>, as far as the text of the call determines it through the
  JavaScript runtime: the file path; what workflow discovery and scoping give (the
  scoped text, its line offset, the workflow name); the id \<open>generateId\<close> makes from the
  clock and the random generator; what the metadata and signature patterns find; the
  groups of the return pattern; the matches of every step pattern. The three parsers
  take the same record and each reads the matches of its own patterns.

  The code has no \<open>throw\<close> of its own: an exception inside the \<open>try\<close> block comes from
  the runtime (a stack or memory limit hit by a call or by the regular-expression
  engine). \<open>raised\<close> says whether the runtime throws, in which statement of the block,
  and what. The record lists what the runtime delivered up to there: the statement in
  which the exception is raised has handled the matches listed for it, the statements
  after it are not reached. \<open>throwing\<close> is the check at the end of a group of
  statements: the exception leaves the block with the parser object as it is at that
  point, nothing is rolled back.
\<close>

record var_match =
  v_index :: nat
  v_name :: string

record promise_match =
  p_index :: nat
  p_destructured :: "string option"
  p_single :: "string option"
  p_tasks :: "string list"

record parse_call =
  call_filePath :: string
  scopedSourceCode :: string
  call_lineOffset :: nat
  workflowName :: string
  generatedId :: string
  foundDescription :: "string option"
  foundInputType :: "string option"
  foundOutputType :: "string option"
  foundInputProperties :: "string list"
  signatureParam :: "string option"
  dataclassProps :: "string list"
  returnCaptures :: "string list"
  taskMatches :: "task_match list"
  awaitedMatches :: "act_match list"
  stringMatches :: "act_match list"
  varActivityMatches :: "var_match list"
  childMatches :: "child_match list"
  timerMatches :: "timer_match list"
  eventMatches :: "event_match list"
  decisionMatches :: "decision_match list"
  retryMatches :: "nat list"
  whenAllMatches :: "whenall_match list"
  promiseMatches :: "promise_match list"
  raised :: "(statement \<times> thrown) option"

definition throwing ::
  "parse_call \<Rightarrow> statement list \<Rightarrow> parser_object \<Rightarrow> (thrown + 'a) \<times> parser_object
   \<Rightarrow> (thrown + 'a) \<times> parser_object" where
  "throwing c statements i rest =
     (case raised c of
        None \<Rightarrow> rest
      | Some (s, e) \<Rightarrow> if s \<in> set statements then (Inl e, i) else rest)"

definition resetState :: "parser_object \<Rightarrow> parser_object" where
  "resetState i = i\<lparr>outputVariableMap := [], parallelTaskMap := [], parallelGroupMap := []\<rparr>"

definition extractWorkflowInputInfo :: "parse_call \<Rightarrow> parser_object \<Rightarrow> parser_object" where
  "extractWorkflowInputInfo c i =
     (let i1 = (case signatureParam c of
                  None \<Rightarrow> i
                | Some p \<Rightarrow> i\<lparr>workflowInputParam := p\<rparr>)
      in i1\<lparr>inputProperties := inputProperties i1 @ dataclassProps c\<rparr>)"

definition activityDataFlow :: "WorkflowNode \<Rightarrow> ActivityDataFlow" where
  "activityDataFlow node =
     \<lparr>ad_nodeId = node_id node, ad_name = name node, ad_type = node_type node,
      ad_inputs = dataSources node, ad_output = orUndefined (node_output node),
      ad_lineNumber = lineNumber node\<rparr>"

definition buildDataFlowMetadata ::
  "parser_object \<Rightarrow> string \<Rightarrow> Metadata option \<Rightarrow> WorkflowNode list \<Rightarrow> DataFlowMetadata" where
  "buildDataFlowMetadata i wfName md ns =
     \<lparr>df_workflow = wfName,
      df_inputType = (case md of None \<Rightarrow> None | Some m \<Rightarrow> inputType m),
      df_properties = (case md of
                         None \<Rightarrow> inputProperties i
                       | Some m \<Rightarrow> (case md_inputProperties m of
                                      None \<Rightarrow> inputProperties i
                                    | Some ps \<Rightarrow> ps)),
      parameterName = workflowInputParam i,
      activities = map activityDataFlow
        (filter (\<lambda>n. node_type n = Activity \<or> node_type n = SubOrchestration \<or> node_type n = Event) ns),
      df_outputVariableMap = outputVariableMap i\<rparr>"

text \<open>
  The seven \<open>parse...\<close> calls of the Python parser, each followed by the point at which
  an exception raised in it leaves the block.
\<close>

definition py_extract ::
  "parse_call \<Rightarrow> parser_object \<Rightarrow> (thrown + WorkflowNode list) \<times> parser_object" where
  "py_extract c i0 =
     (let src = scopedSourceCode c; off = call_lineOffset c;
          (activities, i1) = parseActivities src off (taskMatches c) (awaitedMatches c) (stringMatches c) i0
      in throwing c [ParseActivities] i1
     (let (childWorkflows, i2) = parseWith (childStep src off) (childMatches c) i1
      in throwing c [ParseChildWorkflows] i2
     (let (timers, i3) = parseWith (timerStep src off) (timerMatches c) i2
      in throwing c [ParseTimers] i3
     (let (events, i4) = parseWith (eventStep src off) (eventMatches c) i3
      in throwing c [ParseExternalEvents] i4
     (let (decisions, i5) = parseWith (decisionStep src off) (decisionMatches c) i4
      in throwing c [ParseDecisions] i5
     (let (retries, i6) = parseWith (retryStep src off) (retryMatches c) i5
      in throwing c [ParseRetryPolicies] i6
     (let (parallelBlocks, i7) = parseWith (whenAllStep src off) (whenAllMatches c) i6
      in throwing c [ParseParallelBlocks] i7
     (Inr (activities @ childWorkflows @ timers @ events @ decisions @ retries @ parallelBlocks),
      i7))))))))"

text \<open>
  The \<open>try\<close> block of the Python \<open>parse\<close> after the three maps are reset. Workflow
  discovery, scoping, \<open>createEmptyWorkflow\<close> and \<open>extractMetadata\<close> write nothing into
  the parser object; \<open>extractWorkflowInputInfo\<close> writes the parameter name and the
  property names; the \<open>parse...\<close> calls write the maps.
\<close>

definition py_try ::
  "parse_call \<Rightarrow> parser_object \<Rightarrow> (thrown + WorkflowDefinition) \<times> parser_object" where
  "py_try c i0 =
     throwing c [FindAllWorkflows, ExtractWorkflowName, CreateEmptyWorkflow, ExtractMetadata] i0
     (let md0 = foundMetadata (foundDescription c) (foundInputType c) (foundOutputType c)
                  (foundInputProperties c);
          i1 = extractWorkflowInputInfo c i0
      in throwing c [ExtractWorkflowInputInfo, ExtractReturnInfo] i1
     (let md1 = py_extractReturnInfo (returnCaptures c) md0
      in case py_extract c i1 of
           (Inl e, i2) \<Rightarrow> (Inl e, i2)
         | (Inr steps, i2) \<Rightarrow>
             (let ns = addStartEndNodes steps;
                  df = buildDataFlowMetadata i2 (workflowName c) (Some md1) ns;
                  es = buildEdgesWithDataFlow (parallelGroupMap i2) ns
              in throwing c [BuildDataFlowMetadata, BuildEdgesWithDataFlow] i2
                 (Inr \<lparr>wf_id = generatedId c, wf_name = workflowName c, wf_language = Python,
                       filePath = call_filePath c, wf_nodes = ns, wf_edges = es,
                       dataFlow = Some df, metadata = Some md1,
                       debug = Some \<lparr>dbg_parallelTaskMap = parallelTaskMap i2,
                                     dbg_parallelGroupMap = parallelGroupMap i2,
                                     nodeCount = length ns, edgeCount = length es\<rparr>\<rparr>, i2))))"

definition py_parse :: "parse_call \<Rightarrow> parser_object \<Rightarrow> ParseResult \<times> parser_object" where
  "py_parse c i =
     (case py_try c (resetState i) of
        (Inl e, i1) \<Rightarrow> (caught e, i1)
      | (Inr w, i1) \<Rightarrow> (returned w, i1))"

section \<open>The C# parser (csharpParser.ts)\<close>

text \<open>
  The C# parser class declares the same five fields as the Python one, and its
  \<open>analyzeConditionSources\<close>, \<open>buildDataFlowMetadata\<close>, \<open>buildEdgesWithDataFlow\<close> and
  \<open>getLineNumber\<close> are the Python ones statement for statement (the type of a step's
  output, which only the C# parser fills in, is not part of the model). What differs is
  modelled here. A string literal is a text in double quotes, plain, verbatim or
  interpolated; the variable test is \<^verbatim>\<open>/^\w+(\.\w+)*$/\<close>.
\<close>

definition cs_isQuoted :: "string \<Rightarrow> bool" where
  "cs_isQuoted expr =
     ((startsWith expr [dquote] \<and> endsWith expr [dquote])
      \<or> (startsWith expr [CHR ''@'', dquote] \<and> endsWith expr [dquote])
      \<or> (startsWith expr [CHR ''$'', dquote] \<and> endsWith expr [dquote]))"

fun dottedTail :: "nat \<Rightarrow> string \<Rightarrow> bool" where
  "dottedTail (Suc k) (c # r) = dottedTail k r"
| "dottedTail (Suc k) [] = False"
| "dottedTail 0 [] = True"
| "dottedTail 0 (c # r) =
     (c = CHR ''.'' \<and> (let w = takeWhile is_word r in w \<noteq> [] \<and> dottedTail (length w) r))"

definition cs_isVariableReference :: "string \<Rightarrow> bool" where
  "cs_isVariableReference expr =
     (takeWhile is_word expr \<noteq> [] \<and> dottedTail 0 (dropWhile is_word expr))"

definition cs_classifyExpression :: "parser_object \<Rightarrow> string \<Rightarrow> string option \<Rightarrow> DataSource" where
  "cs_classifyExpression inst expr tp =
     (if rootedAt expr (workflowInputParam inst) then
        \<lparr>sourceType = Workflow_input, sourcePath = expr, targetProperty = tp, sourceActivityId = None\<rparr>
      else case find (\<lambda>(varName, producer). rootedAt expr varName) (outputVariableMap inst) of
        Some (varName, producer) \<Rightarrow>
          \<lparr>sourceType = Activity_output, sourcePath = expr, targetProperty = tp,
           sourceActivityId = Some producer\<rparr>
      | None \<Rightarrow>
          if cs_isQuoted expr then
            \<lparr>sourceType = Literal, sourcePath = expr, targetProperty = tp, sourceActivityId = None\<rparr>
          else if cs_isVariableReference expr then
            \<lparr>sourceType = Workflow_input, sourcePath = expr, targetProperty = tp, sourceActivityId = None\<rparr>
          else
            \<lparr>sourceType = Literal, sourcePath = expr, targetProperty = tp, sourceActivityId = None\<rparr>)"

definition parseCSharpAssignment :: "string \<Rightarrow> (string \<times> string) option" where
  "parseCSharpAssignment str =
     (case indexOf str ''='' 0 of
        None \<Rightarrow> None
      | Some eqIdx \<Rightarrow> Some (trim (take eqIdx str), trim (drop (eqIdx + 1) str)))"

definition pushAssignment :: "string \<Rightarrow> (string \<times> string) list \<Rightarrow> (string \<times> string) list" where
  "pushAssignment current entries =
     (case parseCSharpAssignment (trim current) of None \<Rightarrow> entries | Some e \<Rightarrow> entries @ [e])"

fun initializerLoop :: "string \<Rightarrow> int \<Rightarrow> string \<Rightarrow> (string \<times> string) list \<Rightarrow> (string \<times> string) list" where
  "initializerLoop [] depth current entries =
     (if trim current \<noteq> [] then pushAssignment current entries else entries)"
| "initializerLoop (c # cs) depth current entries =
     (let d1 = (if isOpener c then depth + 1 else depth);
          d2 = (if isCloser c then d1 - 1 else d1)
      in if c = CHR '','' \<and> d2 = 0
         then initializerLoop cs d2 [] (pushAssignment current entries)
         else initializerLoop cs d2 (current @ [c]) entries)"

definition lastIndexOf :: "string \<Rightarrow> char \<Rightarrow> nat option" where
  "lastIndexOf s c =
     (if c \<in> set s then Some (length s - 1 - length (takeWhile (\<lambda>x. x \<noteq> c) (rev s))) else None)"

definition slice :: "string \<Rightarrow> nat \<Rightarrow> nat \<Rightarrow> string" where
  "slice s a b = take (b - a) (drop a s)"

definition parseObjectInitializer :: "string \<Rightarrow> (string \<times> string) list" where
  "parseObjectInitializer content =
     (case (indexOf content ''{'' 0, lastIndexOf content CHR ''}'') of
        (Some braceStart, Some braceEnd) \<Rightarrow>
          initializerLoop (slice content (braceStart + 1) braceEnd) 0 [] []
      | _ \<Rightarrow> [])"

definition cs_analyzeDataSource :: "parser_object \<Rightarrow> string option \<Rightarrow> DataSource list" where
  "cs_analyzeDataSource inst inputExpr =
     (case inputExpr of
        None \<Rightarrow> []
      | Some e \<Rightarrow>
          if e = [] then []
          else if CHR ''{'' \<in> set e \<and> CHR ''}'' \<in> set e then
            map (\<lambda>(k, v). cs_classifyExpression inst v (Some k)) (parseObjectInitializer e)
          else [cs_classifyExpression inst e None])"

text \<open>
  \<open>extractInputExpression\<close> of the C# parser scans the argument list of the call for the
  first comma at depth one. \<open>cs_scanStep\<close> is the body of its loop for the character
  \<open>char\<close> at index \<open>i\<close> with \<open>prevChar\<close> before it, and \<open>cs_scanArgs\<close> the loop over the
  rest of the text from \<open>i\<close> on, which ends with the text or with depth zero.
\<close>

record cs_scan =
  cs_i :: nat
  cs_depth :: nat
  cs_argStart :: "nat option"
  cs_argCount :: nat
  cs_inString :: bool
  cs_stringChar :: string

definition cs_countArgument :: "char \<Rightarrow> cs_scan \<Rightarrow> cs_scan" where
  "cs_countArgument char st =
     (let d1 = (if isOpener char then cs_depth st + 1 else cs_depth st);
          d2 = (if isCloser char then d1 - 1 else d1)
      in if char = CHR '','' \<and> d2 = 1
         then st\<lparr>cs_depth := d2, cs_argCount := cs_argCount st + 1,
                 cs_argStart := (if cs_argCount st + 1 = 1 then Some (cs_i st + 1)
                                 else cs_argStart st)\<rparr>
         else st\<lparr>cs_depth := d2\<rparr>)"

definition cs_scanStep :: "char option \<Rightarrow> char \<Rightarrow> cs_scan \<Rightarrow> cs_scan" where
  "cs_scanStep prevChar char st =
     (let st1 = (if char = dquote \<and> prevChar \<noteq> Some backslash \<and> \<not> cs_inString st
                 then st\<lparr>cs_inString := True, cs_stringChar := [char]\<rparr>
                 else if [char] = cs_stringChar st \<and> prevChar \<noteq> Some backslash \<and> cs_inString st
                 then st\<lparr>cs_inString := False\<rparr>
                 else st);
          st2 = (if cs_inString st1 then st1 else cs_countArgument char st1)
      in st2\<lparr>cs_i := cs_i st + 1\<rparr>)"

fun cs_scanArgs :: "char option \<Rightarrow> string \<Rightarrow> cs_scan \<Rightarrow> cs_scan" where
  "cs_scanArgs prevChar [] st = st"
| "cs_scanArgs prevChar (char # rest) st =
     (if 0 < cs_depth st then cs_scanArgs (Some char) rest (cs_scanStep prevChar char st) else st)"

definition cs_extractInputExpression :: "string \<Rightarrow> nat \<Rightarrow> string option" where
  "cs_extractInputExpression s matchIndex =
     (case indexOf s ''CallActivityAsync'' matchIndex of
        None \<Rightarrow> None
      | Some callStart \<Rightarrow>
          (case indexOf s ''('' callStart of
             None \<Rightarrow> None
           | Some parenStart \<Rightarrow>
               (let st = cs_scanArgs (charAt s parenStart) (drop (parenStart + 1) s)
                           \<lparr>cs_i = parenStart + 1, cs_depth = 1, cs_argStart = None,
                            cs_argCount = 0, cs_inString = False, cs_stringChar = []\<rparr>
                in case cs_argStart st of
                     None \<Rightarrow> None
                   | Some argStart \<Rightarrow> Some (trim (substring s argStart (cs_i st - 1))))))"

text \<open>
  The two loops of the C# \<open>parseActivities\<close> share the node counter and the set
  \<open>seenLines\<close>. A match of the task pattern is a parallel task unless the twenty
  characters before it contain \<open>await\<close>; a task that is not parallel is registered as
  producer after its input is analysed, an awaited step before.
\<close>

record seen_extraction = extraction +
  seenLines :: "nat list"

definition cs_taskStep :: "string \<Rightarrow> nat \<Rightarrow> task_match \<Rightarrow> seen_extraction \<Rightarrow> seen_extraction" where
  "cs_taskStep src lineOffset m ex =
     (let lineNum = getLineNumber src (t_index m) + lineOffset
      in if lineNum \<in> set (seenLines ex) then ex
         else
           (let inputExpr = cs_extractInputExpression src (t_index m);
                nodeId = activityId (x_index ex);
                isParallel = (find_sub ''await'' (substring src (t_index m - 20) (t_index m)) = None);
                i1 = (if isParallel
                      then (x_inst ex)\<lparr>parallelTaskMap :=
                             AList.update (t_var m) nodeId (parallelTaskMap (x_inst ex))\<rparr>
                      else x_inst ex);
                ds = cs_analyzeDataSource i1 inputExpr;
                node = (createNode nodeId Activity (t_name m) (t_name m) (Some lineNum) isParallel)
                       \<lparr>node_output := Some (t_var m), node_input := inputExpr, dataSources := ds\<rparr>;
                i2 = (if isParallel then i1
                      else i1\<lparr>outputVariableMap :=
                             AList.update (t_var m) nodeId (outputVariableMap i1)\<rparr>)
            in ex\<lparr>x_inst := i2, x_nodes := x_nodes ex @ [node], x_index := x_index ex + 1,
                  seenLines := seenLines ex @ [lineNum]\<rparr>))"

definition cs_awaitedStep :: "string \<Rightarrow> nat \<Rightarrow> act_match \<Rightarrow> seen_extraction \<Rightarrow> seen_extraction" where
  "cs_awaitedStep src lineOffset m ex =
     (let outputVar = orUndefined (a_var m);
          lineNum = getLineNumber src (a_index m) + lineOffset
      in if lineNum \<in> set (seenLines ex) then ex
         else
           (let inputExpr = cs_extractInputExpression src (a_index m);
                nodeId = activityId (x_index ex);
                i1 = registerOutput outputVar nodeId (x_inst ex);
                ds = cs_analyzeDataSource i1 inputExpr;
                node = (createNode nodeId Activity (a_name m) (a_name m) (Some lineNum) False)
                       \<lparr>node_output := outputVar, node_input := inputExpr, dataSources := ds\<rparr>
            in ex\<lparr>x_inst := i1, x_nodes := x_nodes ex @ [node], x_index := x_index ex + 1,
                  seenLines := seenLines ex @ [lineNum]\<rparr>))"

definition cs_parseActivities ::
  "string \<Rightarrow> nat \<Rightarrow> task_match list \<Rightarrow> act_match list \<Rightarrow> parser_object
   \<Rightarrow> WorkflowNode list \<times> parser_object" where
  "cs_parseActivities src lineOffset tasks awaited i0 =
     (let e0 = \<lparr>x_inst = i0, x_nodes = [], x_index = 0, seenLines = []\<rparr>;
          e1 = fold (cs_taskStep src lineOffset) tasks e0;
          e2 = fold (cs_awaitedStep src lineOffset) awaited e1
      in (x_nodes e2, x_inst e2))"

text \<open>
  A sub-orchestration step keeps the name as the pattern captured it; the label of a
  timer shows twenty-five characters of the duration. A match of the \<open>WhenAll\<close> pattern
  carries its start index, the variable on the left of the assignment in \<open>w_outputs\<close>,
  and the names the second pattern finds between the parentheses. The label of a join
  node starts with the three characters U+00E2, U+00AB, U+00B4. Events and decisions
  are handled as in the Python parser (\<open>eventStep\<close>, \<open>decisionStep\<close>).
\<close>

definition subOrchStep :: "string \<Rightarrow> nat \<Rightarrow> child_match \<Rightarrow> extraction \<Rightarrow> extraction" where
  "subOrchStep src lineOffset m ex =
     (let outputVar = orUndefined (c_var m);
          orchName = c_name m;
          inputExpr = map_option trim (c_input m);
          nodeId = ''suborch-'' @ showNat (x_index ex);
          i1 = registerOutput outputVar nodeId (x_inst ex);
          ds = cs_analyzeDataSource i1 inputExpr;
          node = (createNode nodeId SubOrchestration orchName (''Child: '' @ orchName)
                    (Some (getLineNumber src (c_index m) + lineOffset)) False)
                 \<lparr>node_output := outputVar, node_input := inputExpr, dataSources := ds\<rparr>
      in \<lparr>x_inst = i1, x_nodes = x_nodes ex @ [node], x_index = x_index ex + 1\<rparr>)"

definition cs_timerStep :: "string \<Rightarrow> nat \<Rightarrow> timer_match \<Rightarrow> extraction \<Rightarrow> extraction" where
  "cs_timerStep src lineOffset m ex =
     (let outputVar = orUndefined (tm_var m);
          duration = trim (tm_duration m);
          nodeId = ''timer-'' @ showNat (x_index ex);
          i1 = registerOutput outputVar nodeId (x_inst ex);
          node = (createNode nodeId Timer ''Timer''
                    (if duration \<noteq> [] then ''Wait: '' @ substring duration 0 25 else ''Wait Timer'')
                    (Some (getLineNumber src (tm_index m) + lineOffset)) False)
                 \<lparr>node_output := outputVar\<rparr>
      in \<lparr>x_inst = i1, x_nodes = x_nodes ex @ [node], x_index = x_index ex + 1\<rparr>)"

definition cs_parallelStep :: "string \<Rightarrow> nat \<Rightarrow> whenall_match \<Rightarrow> extraction \<Rightarrow> extraction" where
  "cs_parallelStep src lineOffset m ex =
     (let nodeId = ''parallel-join-'' @ showNat (x_index ex);
          i1 = registerOutput (orUndefined (w_outputs m)) nodeId (x_inst ex);
          i2 = fold (mapTask nodeId) (w_tasks m) i1;
          node = createNode nodeId Parallel ''Join''
                   ([CHR 0xE2, CHR 0xAB, CHR 0xB4] @ '' Join ('' @ showNat (length (w_tasks m)) @ '' tasks)'')
                   (Some (getLineNumber src (w_index m) + lineOffset)) False
      in \<lparr>x_inst = i2, x_nodes = x_nodes ex @ [node], x_index = x_index ex + 1\<rparr>)"

definition cs_extractWorkflowInputInfo :: "parse_call \<Rightarrow> parser_object \<Rightarrow> parser_object" where
  "cs_extractWorkflowInputInfo c i =
     (case signatureParam c of
        None \<Rightarrow> i
      | Some p \<Rightarrow> i\<lparr>workflowInputParam := p\<rparr>)"

definition cs_extract ::
  "parse_call \<Rightarrow> parser_object \<Rightarrow> (thrown + WorkflowNode list) \<times> parser_object" where
  "cs_extract c i0 =
     (let src = scopedSourceCode c; off = call_lineOffset c;
          (activities, i1) = cs_parseActivities src off (taskMatches c) (awaitedMatches c) i0
      in throwing c [ParseActivities] i1
     (let (subOrchestrations, i2) = parseWith (subOrchStep src off) (childMatches c) i1
      in throwing c [ParseSubOrchestrations] i2
     (let (timers, i3) = parseWith (cs_timerStep src off) (timerMatches c) i2
      in throwing c [ParseTimers] i3
     (let (events, i4) = parseWith (eventStep src off) (eventMatches c) i3
      in throwing c [ParseExternalEvents] i4
     (let (decisions, i5) = parseWith (decisionStep src off) (decisionMatches c) i4
      in throwing c [ParseDecisions] i5
     (let (parallelBlocks, i6) = parseWith (cs_parallelStep src off) (whenAllMatches c) i5
      in throwing c [ParseParallelBlocks] i6
     (Inr (activities @ subOrchestrations @ timers @ events @ decisions @ parallelBlocks),
      i6)))))))"

definition cs_try ::
  "parse_call \<Rightarrow> parser_object \<Rightarrow> (thrown + WorkflowDefinition) \<times> parser_object" where
  "cs_try c i0 =
     throwing c [FindAllWorkflows, ExtractWorkflowName, CreateEmptyWorkflow, ExtractMetadata] i0
     (let md0 = foundMetadata (foundDescription c) (foundInputType c) (foundOutputType c)
                  (foundInputProperties c);
          i1 = cs_extractWorkflowInputInfo c i0
      in throwing c [ExtractWorkflowInputInfo, ExtractReturnInfo] i1
     (let md1 = cs_extractReturnInfo (returnCaptures c) md0
      in case cs_extract c i1 of
           (Inl e, i2) \<Rightarrow> (Inl e, i2)
         | (Inr steps, i2) \<Rightarrow>
             (let ns = addStartEndNodes steps;
                  df = buildDataFlowMetadata i2 (workflowName c) (Some md1) ns;
                  es = buildEdgesWithDataFlow (parallelGroupMap i2) ns
              in throwing c [BuildDataFlowMetadata, BuildEdgesWithDataFlow] i2
                 (Inr \<lparr>wf_id = generatedId c, wf_name = workflowName c, wf_language = Csharp,
                       filePath = call_filePath c, wf_nodes = ns, wf_edges = es,
                       dataFlow = Some df, metadata = Some md1, debug = None\<rparr>, i2))))"

definition cs_parse :: "parse_call \<Rightarrow> parser_object \<Rightarrow> ParseResult \<times> parser_object" where
  "cs_parse c i =
     (case cs_try c (resetState i) of
        (Inl e, i1) \<Rightarrow> (caught e, i1)
      | (Inr w, i1) \<Rightarrow> (returned w, i1))"

section \<open>The JavaScript parser (javascriptParser.ts)\<close>

text \<open>
  One class serves JavaScript and TypeScript; the language it was constructed with goes
  into the workflow it returns. Fields, \<open>analyzeConditionSources\<close>,
  \<open>buildDataFlowMetadata\<close>, \<open>buildEdgesWithDataFlow\<close>, \<open>parseTimers\<close>,
  \<open>parseExternalEvents\<close> and \<open>parseDecisions\<close> are as in the Python parser. A string
  literal is a text in double quotes, single quotes or backticks; the variable test is
  \<^verbatim>\<open>/^\w+(\.\w+|\[\w+\])*$/\<close>; a property without colon in an object literal is a
  shorthand for itself.
\<close>

definition backtick :: char where
  "backtick = CHR 0x60"

definition js_isQuoted :: "string \<Rightarrow> bool" where
  "js_isQuoted expr =
     ((startsWith expr [dquote] \<and> endsWith expr [dquote])
      \<or> (startsWith expr [squote] \<and> endsWith expr [squote])
      \<or> (startsWith expr [backtick] \<and> endsWith expr [backtick]))"

fun js_accessTail :: "nat \<Rightarrow> string \<Rightarrow> bool" where
  "js_accessTail (Suc k) (c # r) = js_accessTail k r"
| "js_accessTail (Suc k) [] = False"
| "js_accessTail 0 [] = True"
| "js_accessTail 0 (c # r) =
     (if c = CHR ''.'' then
        (let w = takeWhile is_word r in w \<noteq> [] \<and> js_accessTail (length w) r)
      else if c = CHR ''['' then
        (let w = takeWhile is_word r
         in w \<noteq> [] \<and> (case dropWhile is_word r of
                          [] \<Rightarrow> False
                        | d # r3 \<Rightarrow> d = CHR '']'' \<and> js_accessTail (length w + 1) r))
      else False)"

definition js_isVariableReference :: "string \<Rightarrow> bool" where
  "js_isVariableReference expr =
     (takeWhile is_word expr \<noteq> [] \<and> js_accessTail 0 (dropWhile is_word expr))"

definition js_classifyExpression :: "parser_object \<Rightarrow> string \<Rightarrow> string option \<Rightarrow> DataSource" where
  "js_classifyExpression inst expr tp =
     (if rootedAt expr (workflowInputParam inst) then
        \<lparr>sourceType = Workflow_input, sourcePath = expr, targetProperty = tp, sourceActivityId = None\<rparr>
      else case find (\<lambda>(varName, producer). rootedAt expr varName) (outputVariableMap inst) of
        Some (varName, producer) \<Rightarrow>
          \<lparr>sourceType = Activity_output, sourcePath = expr, targetProperty = tp,
           sourceActivityId = Some producer\<rparr>
      | None \<Rightarrow>
          if js_isQuoted expr then
            \<lparr>sourceType = Literal, sourcePath = expr, targetProperty = tp, sourceActivityId = None\<rparr>
          else if js_isVariableReference expr then
            \<lparr>sourceType = Workflow_input, sourcePath = expr, targetProperty = tp, sourceActivityId = None\<rparr>
          else
            \<lparr>sourceType = Literal, sourcePath = expr, targetProperty = tp, sourceActivityId = None\<rparr>)"

definition js_parseKeyValue :: "string \<Rightarrow> string \<times> string" where
  "js_parseKeyValue str =
     (case indexOf str '':'' 0 of
        None \<Rightarrow> (trim str, trim str)
      | Some colonIdx \<Rightarrow>
          (filter (\<lambda>c. c \<noteq> dquote \<and> c \<noteq> squote) (trim (take colonIdx str)),
           trim (drop (colonIdx + 1) str)))"

fun objectEntriesLoop :: "string \<Rightarrow> int \<Rightarrow> string \<Rightarrow> (string \<times> string) list \<Rightarrow> (string \<times> string) list" where
  "objectEntriesLoop [] depth current entries =
     (if trim current \<noteq> [] then entries @ [js_parseKeyValue (trim current)] else entries)"
| "objectEntriesLoop (c # cs) depth current entries =
     (let d1 = (if isOpener c then depth + 1 else depth);
          d2 = (if isCloser c then d1 - 1 else d1)
      in if c = CHR '','' \<and> d2 = 0
         then objectEntriesLoop cs d2 [] (entries @ [js_parseKeyValue (trim current)])
         else objectEntriesLoop cs d2 (current @ [c]) entries)"

definition parseObjectEntries :: "string \<Rightarrow> (string \<times> string) list" where
  "parseObjectEntries content = objectEntriesLoop content 0 [] []"

definition js_analyzeDataSource :: "parser_object \<Rightarrow> string option \<Rightarrow> DataSource list" where
  "js_analyzeDataSource inst inputExpr =
     (case inputExpr of
        None \<Rightarrow> []
      | Some e \<Rightarrow>
          if e = [] then []
          else if startsWith e ''{'' \<and> endsWith e ''}'' then
            map (\<lambda>(k, v). js_classifyExpression inst v (Some k)) (parseObjectEntries (butlast (tl e)))
          else [js_classifyExpression inst e None])"

text \<open>
  The argument scan of the JavaScript \<open>extractInputExpression\<close>: as in the C# parser,
  with three quote characters and the open quote remembered.
\<close>

record js_scan =
  js_i :: nat
  js_depth :: nat
  js_argStart :: "nat option"
  js_argCount :: nat
  js_inString :: "char option"

definition js_countArgument :: "char \<Rightarrow> js_scan \<Rightarrow> js_scan" where
  "js_countArgument char st =
     (let d1 = (if isOpener char then js_depth st + 1 else js_depth st);
          d2 = (if isCloser char then d1 - 1 else d1)
      in if char = CHR '','' \<and> d2 = 1
         then st\<lparr>js_depth := d2, js_argCount := js_argCount st + 1,
                 js_argStart := (if js_argCount st + 1 = 1 then Some (js_i st + 1)
                                 else js_argStart st)\<rparr>
         else st\<lparr>js_depth := d2\<rparr>)"

definition js_scanStep :: "char option \<Rightarrow> char \<Rightarrow> js_scan \<Rightarrow> js_scan" where
  "js_scanStep prevChar char st =
     (let st1 = (if (char = dquote \<or> char = squote \<or> char = backtick) \<and> prevChar \<noteq> Some backslash
                 then (case js_inString st of
                         None \<Rightarrow> st\<lparr>js_inString := Some char\<rparr>
                       | Some q \<Rightarrow> if q = char then st\<lparr>js_inString := None\<rparr> else st)
                 else st);
          st2 = (if js_inString st1 = None then js_countArgument char st1 else st1)
      in st2\<lparr>js_i := js_i st + 1\<rparr>)"

fun js_scanArgs :: "char option \<Rightarrow> string \<Rightarrow> js_scan \<Rightarrow> js_scan" where
  "js_scanArgs prevChar [] st = st"
| "js_scanArgs prevChar (char # rest) st =
     (if 0 < js_depth st then js_scanArgs (Some char) rest (js_scanStep prevChar char st) else st)"

definition js_extractInputExpression :: "string \<Rightarrow> nat \<Rightarrow> string option" where
  "js_extractInputExpression s matchIndex =
     (case indexOf s ''callActivity'' matchIndex of
        None \<Rightarrow> None
      | Some callStart \<Rightarrow>
          (case indexOf s ''('' callStart of
             None \<Rightarrow> None
           | Some parenStart \<Rightarrow>
               (let st = js_scanArgs (charAt s parenStart) (drop (parenStart + 1) s)
                           \<lparr>js_i = parenStart + 1, js_depth = 1, js_argStart = None,
                            js_argCount = 0, js_inString = None\<rparr>
                in case js_argStart st of
                     None \<Rightarrow> None
                   | Some argStart \<Rightarrow> Some (trim (substring s argStart (js_i st - 1))))))"

text \<open>
  The three loops of the JavaScript \<open>parseActivities\<close>: task assignments (parallel
  unless the twenty characters before contain \<open>yield\<close> or \<open>await\<close>), awaited calls with
  a quoted name, and awaited calls with a variable for the name, which give a node
  without input, output or data sources.
\<close>

definition js_taskStep :: "string \<Rightarrow> nat \<Rightarrow> task_match \<Rightarrow> seen_extraction \<Rightarrow> seen_extraction" where
  "js_taskStep src lineOffset m ex =
     (let lineNum = getLineNumber src (t_index m) + lineOffset
      in if lineNum \<in> set (seenLines ex) then ex
         else
           (let inputExpr = js_extractInputExpression src (t_index m);
                nodeId = activityId (x_index ex);
                before = substring src (t_index m - 20) (t_index m);
                isParallel = (find_sub ''yield'' before = None \<and> find_sub ''await'' before = None);
                i1 = (if isParallel
                      then (x_inst ex)\<lparr>parallelTaskMap :=
                             AList.update (t_var m) nodeId (parallelTaskMap (x_inst ex))\<rparr>
                      else x_inst ex);
                ds = js_analyzeDataSource i1 inputExpr;
                node = (createNode nodeId Activity (t_name m) (t_name m) (Some lineNum) isParallel)
                       \<lparr>node_output := Some (t_var m), node_input := inputExpr, dataSources := ds\<rparr>;
                i2 = (if isParallel then i1
                      else i1\<lparr>outputVariableMap :=
                             AList.update (t_var m) nodeId (outputVariableMap i1)\<rparr>)
            in ex\<lparr>x_inst := i2, x_nodes := x_nodes ex @ [node], x_index := x_index ex + 1,
                  seenLines := seenLines ex @ [lineNum]\<rparr>))"

definition js_awaitedStep :: "string \<Rightarrow> nat \<Rightarrow> act_match \<Rightarrow> seen_extraction \<Rightarrow> seen_extraction" where
  "js_awaitedStep src lineOffset m ex =
     (let outputVar = orUndefined (a_var m);
          lineNum = getLineNumber src (a_index m) + lineOffset
      in if lineNum \<in> set (seenLines ex) then ex
         else
           (let inputExpr = js_extractInputExpression src (a_index m);
                nodeId = activityId (x_index ex);
                i1 = registerOutput outputVar nodeId (x_inst ex);
                ds = js_analyzeDataSource i1 inputExpr;
                node = (createNode nodeId Activity (a_name m) (a_name m) (Some lineNum) False)
                       \<lparr>node_output := outputVar, node_input := inputExpr, dataSources := ds\<rparr>
            in ex\<lparr>x_inst := i1, x_nodes := x_nodes ex @ [node], x_index := x_index ex + 1,
                  seenLines := seenLines ex @ [lineNum]\<rparr>))"

definition js_varStep :: "string \<Rightarrow> nat \<Rightarrow> var_match \<Rightarrow> seen_extraction \<Rightarrow> seen_extraction" where
  "js_varStep src lineOffset m ex =
     (let activityName = v_name m;
          lineNum = getLineNumber src (v_index m) + lineOffset
      in if lineNum \<in> set (seenLines ex) then ex
         else if \<not> startsWith activityName [dquote] \<and> \<not> startsWith activityName [squote] then
           ex\<lparr>x_nodes := x_nodes ex @
                 [createNode (activityId (x_index ex)) Activity activityName
                    (activityName @ '' (var)'') (Some lineNum) False],
              x_index := x_index ex + 1, seenLines := seenLines ex @ [lineNum]\<rparr>
         else ex\<lparr>seenLines := seenLines ex @ [lineNum]\<rparr>)"

definition js_parseActivities ::
  "string \<Rightarrow> nat \<Rightarrow> task_match list \<Rightarrow> act_match list \<Rightarrow> var_match list \<Rightarrow> parser_object
   \<Rightarrow> WorkflowNode list \<times> parser_object" where
  "js_parseActivities src lineOffset tasks awaited vars i0 =
     (let e0 = \<lparr>x_inst = i0, x_nodes = [], x_index = 0, seenLines = []\<rparr>;
          e1 = fold (js_taskStep src lineOffset) tasks e0;
          e2 = fold (js_awaitedStep src lineOffset) awaited e1;
          e3 = fold (js_varStep src lineOffset) vars e2
      in (x_nodes e3, x_inst e3))"

text \<open>
  A match of the \<open>Promise.all\<close> pattern carries its start index, the text between the
  square brackets of a destructuring assignment, the single variable of a plain
  assignment, and the names the second pattern finds in the task list.
\<close>

definition js_subOrchStep :: "string \<Rightarrow> nat \<Rightarrow> child_match \<Rightarrow> extraction \<Rightarrow> extraction" where
  "js_subOrchStep src lineOffset m ex =
     (let outputVar = orUndefined (c_var m);
          orchName = c_name m;
          inputExpr = map_option trim (c_input m);
          nodeId = ''suborch-'' @ showNat (x_index ex);
          i1 = registerOutput outputVar nodeId (x_inst ex);
          ds = js_analyzeDataSource i1 inputExpr;
          node = (createNode nodeId SubOrchestration orchName (''Child: '' @ orchName)
                    (Some (getLineNumber src (c_index m) + lineOffset)) False)
                 \<lparr>node_output := outputVar, node_input := inputExpr, dataSources := ds\<rparr>
      in \<lparr>x_inst = i1, x_nodes = x_nodes ex @ [node], x_index = x_index ex + 1\<rparr>)"

definition js_parallelStep :: "string \<Rightarrow> nat \<Rightarrow> promise_match \<Rightarrow> extraction \<Rightarrow> extraction" where
  "js_parallelStep src lineOffset m ex =
     (let destructuredVars = (case p_destructured m of
                                None \<Rightarrow> []
                              | Some t \<Rightarrow> map trim (split t CHR '',''));
          outputs = (case orUndefined (p_single m) of
                       Some singleVar \<Rightarrow> [singleVar]
                     | None \<Rightarrow> destructuredVars);
          nodeId = ''parallel-join-'' @ showNat (x_index ex);
          i1 = fold (\<lambda>outputVar. registerOutput (orUndefined (Some outputVar)) nodeId) outputs (x_inst ex);
          i2 = fold (mapTask nodeId) (p_tasks m) i1;
          node = createNode nodeId Parallel ''Join''
                   ([CHR 0xE2, CHR 0xAB, CHR 0xB4] @ '' Join ('' @ showNat (length (p_tasks m)) @ '' tasks)'')
                   (Some (getLineNumber src (p_index m) + lineOffset)) False
      in \<lparr>x_inst = i2, x_nodes = x_nodes ex @ [node], x_index = x_index ex + 1\<rparr>)"

definition js_extractWorkflowInputInfo :: "parse_call \<Rightarrow> parser_object \<Rightarrow> parser_object" where
  "js_extractWorkflowInputInfo c i =
     (case signatureParam c of
        None \<Rightarrow> i
      | Some p \<Rightarrow> i\<lparr>workflowInputParam := p\<rparr>)"

definition js_extract ::
  "parse_call \<Rightarrow> parser_object \<Rightarrow> (thrown + WorkflowNode list) \<times> parser_object" where
  "js_extract c i0 =
     (let src = scopedSourceCode c; off = call_lineOffset c;
          (activities, i1) = js_parseActivities src off (taskMatches c) (awaitedMatches c)
                               (varActivityMatches c) i0
      in throwing c [ParseActivities] i1
     (let (subOrchestrations, i2) = parseWith (js_subOrchStep src off) (childMatches c) i1
      in throwing c [ParseSubOrchestrations] i2
     (let (timers, i3) = parseWith (timerStep src off) (timerMatches c) i2
      in throwing c [ParseTimers] i3
     (let (events, i4) = parseWith (eventStep src off) (eventMatches c) i3
      in throwing c [ParseExternalEvents] i4
     (let (decisions, i5) = parseWith (decisionStep src off) (decisionMatches c) i4
      in throwing c [ParseDecisions] i5
     (let (parallelBlocks, i6) = parseWith (js_parallelStep src off) (promiseMatches c) i5
      in throwing c [ParseParallelBlocks] i6
     (Inr (activities @ subOrchestrations @ timers @ events @ decisions @ parallelBlocks),
      i6)))))))"

definition js_try ::
  "SupportedLanguage \<Rightarrow> parse_call \<Rightarrow> parser_object
   \<Rightarrow> (thrown + WorkflowDefinition) \<times> parser_object" where
  "js_try lang c i0 =
     throwing c [FindAllWorkflows, ExtractWorkflowName, CreateEmptyWorkflow, ExtractMetadata] i0
     (let md0 = foundMetadata (foundDescription c) (foundInputType c) (foundOutputType c)
                  (foundInputProperties c);
          i1 = js_extractWorkflowInputInfo c i0
      in throwing c [ExtractWorkflowInputInfo, ExtractReturnInfo] i1
     (let md1 = js_extractReturnInfo (returnCaptures c) md0
      in case js_extract c i1 of
           (Inl e, i2) \<Rightarrow> (Inl e, i2)
         | (Inr steps, i2) \<Rightarrow>
             (let ns = addStartEndNodes steps;
                  df = buildDataFlowMetadata i2 (workflowName c) (Some md1) ns;
                  es = buildEdgesWithDataFlow (parallelGroupMap i2) ns
              in throwing c [BuildDataFlowMetadata, BuildEdgesWithDataFlow] i2
                 (Inr \<lparr>wf_id = generatedId c, wf_name = workflowName c, wf_language = lang,
                       filePath = call_filePath c, wf_nodes = ns, wf_edges = es,
                       dataFlow = Some df, metadata = Some md1, debug = None\<rparr>, i2))))"

definition js_parse ::
  "SupportedLanguage \<Rightarrow> parse_call \<Rightarrow> parser_object \<Rightarrow> ParseResult \<times> parser_object" where
  "js_parse lang c i =
     (case js_try lang c (resetState i) of
        (Inl e, i1) \<Rightarrow> (caught e, i1)
      | (Inr w, i1) \<Rightarrow> (returned w, i1))"

section \<open>Sample inputs\<close>

text \<open>
  The texts and calls at which the theorems below evaluate the parsers. \<open>emptyCall\<close> is a
  call on a text in which no pattern finds anything.
\<close>

definition emptyCall :: parse_call where
  "emptyCall =
     \<lparr>call_filePath = ''wf.py'', scopedSourceCode = [], call_lineOffset = 0,
      workflowName = ''wf'', generatedId = ''wf-0-a'', foundDescription = None,
      foundInputType = None, foundOutputType = None, foundInputProperties = [],
      signatureParam = None, dataclassProps = [], returnCaptures = [],
      taskMatches = [], awaitedMatches = [], stringMatches = [],
      varActivityMatches = [], childMatches = [], timerMatches = [], eventMatches = [],
      decisionMatches = [], retryMatches = [], whenAllMatches = [], promiseMatches = [],
      raised = None\<rparr>"

text \<open>
  A dictionary argument whose first value is a string holding one backslash, and whose
  second value is a string holding a closing brace:
  \<^verbatim>\<open>{"sep": "\\", "close": "}"}\<close>. The brace at index 0 is closed by the brace at
  index 26; the brace at index 24 stands inside the second string.
\<close>

definition escapedBackslashDict :: string where
  \<open>escapedBackslashDict = ''{"sep": "'' @ [backslash, backslash] @ ''", "close": "}"}''\<close>

text \<open>A call of an activity whose dictionary argument is never closed.\<close>

definition unclosedCall :: string where
  \<open>unclosedCall = ''x = yield ctx.call_activity(f, input={"a": 1''\<close>

text \<open>The state in which a \<open>parse...\<close> method of a new parser object starts its first loop.\<close>

definition firstExtraction :: extraction where
  "firstExtraction = \<lparr>x_inst = new_instance, x_nodes = [], x_index = 0\<rparr>"

definition unclosedCallMatches :: parse_call where
  "unclosedCallMatches =
     emptyCall\<lparr>scopedSourceCode := unclosedCall,
               awaitedMatches := [\<lparr>a_index = 0, a_var = Some ''x'', a_name = ''f''\<rparr>]\<rparr>"

text \<open>
  Two calls for one parser object. The first text declares the workflow function with
  the input parameter \<open>order\<close>; the second text has no declaration and one step,
  \<^verbatim>\<open>yield ctx.call_activity(bill, input=order.total * 2)\<close>.
\<close>

definition firstCall :: parse_call where
  "firstCall = emptyCall\<lparr>signatureParam := Some ''order''\<rparr>"

definition secondCall :: parse_call where
  "secondCall =
     emptyCall\<lparr>scopedSourceCode := ''yield ctx.call_activity(bill, input=order.total * 2)'',
               awaitedMatches := [\<lparr>a_index = 0, a_var = None, a_name = ''bill''\<rparr>]\<rparr>"

definition reportedParameterName :: "ParseResult \<Rightarrow> string option" where
  "reportedParameterName r =
     (case workflow r of
        None \<Rightarrow> None
      | Some w \<Rightarrow> map_option parameterName (dataFlow w))"

definition nodeInputs :: "ParseResult \<Rightarrow> (string \<times> string option) list" where
  "nodeInputs r =
     (case workflow r of
        None \<Rightarrow> []
      | Some w \<Rightarrow> map (\<lambda>n. (node_id n, node_input n)) (wf_nodes w))"

definition nodeLines :: "ParseResult \<Rightarrow> (string \<times> nat option) list" where
  "nodeLines r =
     (case workflow r of
        None \<Rightarrow> []
      | Some w \<Rightarrow> map (\<lambda>n. (node_id n, lineNumber n)) (wf_nodes w))"

definition noMatches :: "parse_call \<Rightarrow> bool" where
  "noMatches c =
     (taskMatches c = [] \<and> awaitedMatches c = [] \<and> stringMatches c = []
      \<and> varActivityMatches c = [] \<and> childMatches c = [] \<and> timerMatches c = []
      \<and> eventMatches c = [] \<and> decisionMatches c = [] \<and> retryMatches c = []
      \<and> whenAllMatches c = [] \<and> promiseMatches c = [])"

text \<open>
  \<open>startToEnd r\<close>: the result \<open>r\<close> is a success whose workflow has the two nodes start
  and end, in this order, and one edge, the default control edge from start to end.
  \<open>structuredFailure e\<close> is the failure result for a thrown value \<open>e\<close>: no workflow, one
  error with the message of an \<open>Error\<close> object or the fixed text.
\<close>

definition startToEnd :: "ParseResult \<Rightarrow> bool" where
  "startToEnd r =
     (success r
      \<and> errors r = None
      \<and> map_option wf_nodes (workflow r) =
          Some [\<lparr>node_id = ''start'', node_type = Start, name = ''Start'', label = ''Start'',
                  lineNumber = None, isParallelTask = False, node_input = None,
                  node_output = None, dataSources = []\<rparr>,
                \<lparr>node_id = ''end'', node_type = End, name = ''End'', label = ''End'',
                  lineNumber = None, isParallelTask = False, node_input = None,
                  node_output = None, dataSources = []\<rparr>]
      \<and> map_option wf_edges (workflow r) =
          Some [\<lparr>edge_id = ''start-end'', source = ''start'', target = ''end'',
                  edge_label = None, edge_type = Default_edge, dataFlow = None,
                  dataSourceType = None\<rparr>])"

definition structuredFailure :: "thrown \<Rightarrow> ParseResult" where
  "structuredFailure e =
     \<lparr>success = False, workflow = None,
      errors = Some [\<lparr>message = (case e of ErrorObject m \<Rightarrow> m
                                   | OtherValue \<Rightarrow> ''Unknown parsing error'')\<rparr>]\<rparr>"

text \<open>
  A step whose input expression is a chain of eight million property accesses, in the
  three languages. The Python text is \<^verbatim>\<open>@workflow\<close>, \<^verbatim>\<open>def wf(ctx, order: Order):\<close>,
  \<^verbatim>\<open>    r = yield ctx.call_activity(f, input=a.b.b.b ... .b)\<close>, one per line; the C#
  text is \<^verbatim>\<open>var r = await ctx.CallActivityAsync<int>("F", a.b.b.b ... .b);\<close> and the
  JavaScript text is \<^verbatim>\<open>const r = yield ctx.callActivity("f", a.b.b.b ... .b);\<close>. The
  test for a variable reference in \<open>classifyExpression\<close> of each parser is a regular
  expression with a repeated group; these are the calls in which the engine runs out
  of stack on it and throws a \<open>RangeError\<close>. That is inside \<open>parseActivities\<close>, after
  \<open>extractWorkflowInputInfo\<close> has run and the step has registered \<open>r\<close>.
\<close>

definition deepAccess :: string where
  "deepAccess = ''a'' @ concat (replicate 8000000 ''.b'')"

definition deepAccessCall :: parse_call where
  "deepAccessCall =
     emptyCall\<lparr>scopedSourceCode :=
       ''@workflow\<newline>def wf(ctx, order: Order):\<newline>    r = yield ctx.call_activity(f, input='' @ deepAccess @ '')\<newline>'',
               signatureParam := Some ''order'',
               awaitedMatches := [\<lparr>a_index = 41, a_var = Some ''r'', a_name = ''f''\<rparr>],
               raised := Some (ParseActivities, ErrorObject ''Maximum call stack size exceeded'')\<rparr>"

definition csDeepAccessCall :: parse_call where
  "csDeepAccessCall =
     emptyCall\<lparr>scopedSourceCode :=
       ''var r = await ctx.CallActivityAsync<int>('' @ [CHR 0x22] @ ''F'' @ [CHR 0x22] @ '', '' @ deepAccess @ '');'',
               awaitedMatches := [\<lparr>a_index = 0, a_var = Some ''r'', a_name = ''F''\<rparr>],
               raised := Some (ParseActivities, ErrorObject ''Maximum call stack size exceeded'')\<rparr>"

definition jsDeepAccessCall :: parse_call where
  "jsDeepAccessCall =
     emptyCall\<lparr>scopedSourceCode :=
       ''const r = yield ctx.callActivity('' @ [CHR 0x22] @ ''f'' @ [CHR 0x22] @ '', '' @ deepAccess @ '');'',
               awaitedMatches := [\<lparr>a_index = 0, a_var = Some ''r'', a_name = ''f''\<rparr>],
               raised := Some (ParseActivities, ErrorObject ''Maximum call stack size exceeded'')\<rparr>"

definition edgeTriples :: "ParseResult \<Rightarrow> (string \<times> string \<times> EdgeType) list" where
  "edgeTriples r =
     (case workflow r of
        None \<Rightarrow> []
      | Some w \<Rightarrow> map (\<lambda>e. (source e, target e, edge_type e)) (wf_edges w))"

section \<open>Notions used in the statements about the assembler\<close>

text \<open>
  \<open>parallelInto T es\<close> are the parallel control edges of \<open>es\<close> whose target is in \<open>T\<close>.
  \<open>wellGrouped\<close> is what the step recognition guarantees about the parallel-group map by
  the way it builds ids: a node whose id is a key of the map is a parallel task (an
  \<open>activity-\<close> node of the task pattern), and a value of the map (a \<open>parallel-join-\<close> id) is
  not empty and not a key.
\<close>

definition parallelInto :: "string set \<Rightarrow> WorkflowEdge list \<Rightarrow> WorkflowEdge list" where
  "parallelInto T es = filter (\<lambda>e. edge_type e = Parallel_edge \<and> target e \<in> T) es"

definition isTaskStep :: "WorkflowNode \<Rightarrow> bool" where
  "isTaskStep n = (isParallelTask n \<and> node_type n \<noteq> Start \<and> node_type n \<noteq> End)"

definition wellGrouped :: "strmap \<Rightarrow> WorkflowNode list \<Rightarrow> bool" where
  "wellGrouped gm ns =
     (list_all (\<lambda>n. map_of gm (node_id n) = None \<or> isTaskStep n) ns
      \<and> list_all (\<lambda>(k, j). j \<noteq> [] \<and> map_of gm j = None) gm)"













definition groupMapOf :: "ParseResult \<Rightarrow> strmap" where
  "groupMapOf r =
     (case workflow r of
        None \<Rightarrow> []
      | Some w \<Rightarrow> (case debug w of None \<Rightarrow> [] | Some d \<Rightarrow> dbg_parallelGroupMap d))"

text \<open>
  An identifier is what \<^verbatim>\<open>\w+\<close> captures: a non-empty run of word characters. Every
  variable name the step patterns capture, and the input parameter name, is one.
\<close>

definition isIdentifier :: "string \<Rightarrow> bool" where
  "isIdentifier v = (v \<noteq> [] \<and> list_all is_word v)"

text \<open>
  The step recognition as one run over the matches, in the order in which the parser
  handles them: \<open>runStep\<close> handles one match with the statements of its loop, and
  \<open>NextPattern\<close> stands for the start of the next \<open>parse...\<close> method, which counts its
  nodes from zero again. \<open>py_trace\<close> is the run of the Python parser on a call
  (\<open>py_extract_run\<close> below: it gives the nodes and the parser object of \<open>py_extract\<close>).
\<close>

datatype step_match =
  TaskMatch task_match | AwaitedMatch act_match | QuotedMatch act_match
  | ChildMatch child_match | TimerMatch timer_match | EventMatch event_match
  | DecisionMatch decision_match | RetryMatch nat | WhenAllMatch whenall_match
  | NextPattern

fun runStep :: "string \<Rightarrow> nat \<Rightarrow> step_match \<Rightarrow> extraction \<Rightarrow> extraction" where
  "runStep src off (TaskMatch m) ex = taskStep src off m ex"
| "runStep src off (AwaitedMatch m) ex = activityStep True src off m ex"
| "runStep src off (QuotedMatch m) ex = activityStep False src off m ex"
| "runStep src off (ChildMatch m) ex = childStep src off m ex"
| "runStep src off (TimerMatch m) ex = timerStep src off m ex"
| "runStep src off (EventMatch m) ex = eventStep src off m ex"
| "runStep src off (DecisionMatch m) ex = decisionStep src off m ex"
| "runStep src off (RetryMatch k) ex = retryStep src off k ex"
| "runStep src off (WhenAllMatch m) ex = whenAllStep src off m ex"
| "runStep src off NextPattern ex = ex\<lparr>x_index := 0\<rparr>"

definition runSteps :: "string \<Rightarrow> nat \<Rightarrow> step_match list \<Rightarrow> extraction \<Rightarrow> extraction" where
  "runSteps src off ms ex = fold (runStep src off) ms ex"

definition py_trace :: "parse_call \<Rightarrow> step_match list" where
  "py_trace c =
     map TaskMatch (taskMatches c) @ map AwaitedMatch (awaitedMatches c)
     @ map QuotedMatch (stringMatches c)
     @ NextPattern # map ChildMatch (childMatches c)
     @ NextPattern # map TimerMatch (timerMatches c)
     @ NextPattern # map EventMatch (eventMatches c)
     @ NextPattern # map DecisionMatch (decisionMatches c)
     @ NextPattern # map RetryMatch (retryMatches c)
     @ NextPattern # map WhenAllMatch (whenAllMatches c)"

text \<open>
  \<open>boundVars m\<close> are the variables the step of match \<open>m\<close> registers in the producer map
  (those of a \<open>when_all\<close> are the names on the left of its assignment). \<open>producedVar m\<close>
  is the variable that the step registers and also stores as the \<open>output\<close> of its node:
  an awaited activity, a child workflow, a timer and an event do both; a task stores its
  variable in the node without registering it, and a join registers without storing.
  \<open>inputOf src m\<close> is the input expression of a step that has one, and \<open>skippedStep\<close>
  holds when the loop skips the match. \<open>bindsOthers v m\<close>: the variables the step
  registers are identifiers other than \<open>v\<close>. \<open>identifierKeys\<close>: the input parameter name
  and all names in the producer map are identifiers, as the patterns that capture them
  guarantee. \<open>keeps v i i'\<close>: from \<open>i\<close> to \<open>i'\<close> the producer of \<open>v\<close> and the input
  parameter name are unchanged.
\<close>

definition whenAllOutputs :: "whenall_match \<Rightarrow> string list" where
  "whenAllOutputs m = (case w_outputs m of None \<Rightarrow> [] | Some t \<Rightarrow> map trim (split t CHR '',''))"

fun boundVars :: "step_match \<Rightarrow> string list" where
  "boundVars (AwaitedMatch m) = (case orUndefined (a_var m) of None \<Rightarrow> [] | Some w \<Rightarrow> [w])"
| "boundVars (QuotedMatch m) = (case orUndefined (a_var m) of None \<Rightarrow> [] | Some w \<Rightarrow> [w])"
| "boundVars (ChildMatch m) = (case orUndefined (c_var m) of None \<Rightarrow> [] | Some w \<Rightarrow> [w])"
| "boundVars (TimerMatch m) = (case orUndefined (tm_var m) of None \<Rightarrow> [] | Some w \<Rightarrow> [w])"
| "boundVars (EventMatch m) = (case orUndefined (e_var m) of None \<Rightarrow> [] | Some w \<Rightarrow> [w])"
| "boundVars (WhenAllMatch m) = filter (\<lambda>w. w \<noteq> []) (whenAllOutputs m)"
| "boundVars _ = []"

fun producedVar :: "step_match \<Rightarrow> string option" where
  "producedVar (AwaitedMatch m) = orUndefined (a_var m)"
| "producedVar (QuotedMatch m) = orUndefined (a_var m)"
| "producedVar (ChildMatch m) = orUndefined (c_var m)"
| "producedVar (TimerMatch m) = orUndefined (tm_var m)"
| "producedVar (EventMatch m) = orUndefined (e_var m)"
| "producedVar _ = None"

fun inputOf :: "string \<Rightarrow> step_match \<Rightarrow> string option" where
  "inputOf src (TaskMatch m) = extractInputExpression src (t_index m)"
| "inputOf src (AwaitedMatch m) = extractInputExpression src (a_index m)"
| "inputOf src (QuotedMatch m) = extractInputExpression src (a_index m)"
| "inputOf src (ChildMatch m) = map_option trim (c_input m)"
| "inputOf src _ = None"

fun skippedStep :: "string \<Rightarrow> nat \<Rightarrow> step_match \<Rightarrow> extraction \<Rightarrow> bool" where
  "skippedStep src off (AwaitedMatch m) ex = alreadyCaptured True src off m ex"
| "skippedStep src off _ ex = False"

definition bindsOthers :: "string \<Rightarrow> step_match \<Rightarrow> bool" where
  "bindsOthers v m = list_all (\<lambda>w. isIdentifier w \<and> w \<noteq> v) (boundVars m)"

definition identifierKeys :: "parser_object \<Rightarrow> bool" where
  "identifierKeys i =
     (isIdentifier (workflowInputParam i) \<and> list_all (\<lambda>(k, a). isIdentifier k) (outputVariableMap i))"

definition keeps :: "string \<Rightarrow> parser_object \<Rightarrow> parser_object \<Rightarrow> bool" where
  "keeps v i i' =
     (map_of (outputVariableMap i') v = map_of (outputVariableMap i) v
      \<and> workflowInputParam i' = workflowInputParam i
      \<and> (identifierKeys i \<longrightarrow> identifierKeys i'))"

text \<open>
  A workflow whose input parameter is \<open>order\<close> and which binds the result of a step to
  \<open>order\<close> before passing it on:
  \<^verbatim>\<open>@workflow\<close>, \<^verbatim>\<open>def wf(ctx, order: Order):\<close>,
  \<^verbatim>\<open>    order = yield ctx.call_activity(load, input=key)\<close>,
  \<^verbatim>\<open>    yield ctx.call_activity(ship, input=order)\<close>, one per line. The signature
  pattern finds the parameter name \<open>order\<close>; the awaited pattern matches at indices 41
  and 94.
\<close>

definition reboundInputCall :: parse_call where
  "reboundInputCall =
     emptyCall\<lparr>scopedSourceCode :=
       ''@workflow\<newline>def wf(ctx, order: Order):\<newline>    order = yield ctx.call_activity(load, input=key)\<newline>    yield ctx.call_activity(ship, input=order)\<newline>'',
       signatureParam := Some ''order'',
       awaitedMatches := [\<lparr>a_index = 41, a_var = Some ''order'', a_name = ''load''\<rparr>,
                          \<lparr>a_index = 94, a_var = None, a_name = ''ship''\<rparr>]\<rparr>"

text \<open>
  Three more workflows with the input parameter \<open>ctx_input\<close>. In the first a task
  variable is passed on: \<^verbatim>\<open>    a_task = ctx.call_activity(f, input=key)\<close>,
  \<^verbatim>\<open>    yield ctx.call_activity(g, input=a_task)\<close>. In the second a variable is bound
  twice and then read: \<^verbatim>\<open>    state = yield ctx.call_activity(first, input=key)\<close>,
  \<^verbatim>\<open>    state = yield ctx.call_activity(second, input=state)\<close>,
  \<^verbatim>\<open>    yield ctx.call_activity(third, input=state)\<close>. In the third a task reads
  the result of the step on the line before it:
  \<^verbatim>\<open>    r = yield ctx.call_activity(f, input=key)\<close>,
  \<^verbatim>\<open>    b_task = ctx.call_activity(g, input=r)\<close>. Each text starts with the lines
  \<^verbatim>\<open>@workflow\<close> and \<^verbatim>\<open>def wf(ctx, ctx_input: Order):\<close>.
\<close>

definition taskProducerCall :: parse_call where
  "taskProducerCall =
     emptyCall\<lparr>scopedSourceCode :=
       ''@workflow\<newline>def wf(ctx, ctx_input: Order):\<newline>    a_task = ctx.call_activity(f, input=key)\<newline>    yield ctx.call_activity(g, input=a_task)\<newline>'',
       signatureParam := Some ''ctx_input'',
       taskMatches := [\<lparr>t_index = 45, t_var = ''a_task'', t_name = ''f''\<rparr>],
       awaitedMatches := [\<lparr>a_index = 90, a_var = None, a_name = ''g''\<rparr>]\<rparr>"

definition reboundCall :: parse_call where
  "reboundCall =
     emptyCall\<lparr>scopedSourceCode :=
       ''@workflow\<newline>def wf(ctx, ctx_input: Order):\<newline>    state = yield ctx.call_activity(first, input=key)\<newline>    state = yield ctx.call_activity(second, input=state)\<newline>    yield ctx.call_activity(third, input=state)\<newline>'',
       signatureParam := Some ''ctx_input'',
       awaitedMatches := [\<lparr>a_index = 45, a_var = Some ''state'', a_name = ''first''\<rparr>,
                          \<lparr>a_index = 99, a_var = Some ''state'', a_name = ''second''\<rparr>,
                          \<lparr>a_index = 156, a_var = None, a_name = ''third''\<rparr>]\<rparr>"

definition lateTaskCall :: parse_call where
  "lateTaskCall =
     emptyCall\<lparr>scopedSourceCode :=
       ''@workflow\<newline>def wf(ctx, ctx_input: Order):\<newline>    r = yield ctx.call_activity(f, input=key)\<newline>    b_task = ctx.call_activity(g, input=r)\<newline>'',
       signatureParam := Some ''ctx_input'',
       taskMatches := [\<lparr>t_index = 91, t_var = ''b_task'', t_name = ''g''\<rparr>],
       awaitedMatches := [\<lparr>a_index = 45, a_var = Some ''r'', a_name = ''f''\<rparr>]\<rparr>"

text \<open>
  A workflow whose input parameter is \<open>ctx_input\<close>, with an activity that binds \<open>order\<close>,
  a timer, a child workflow that reads a field of \<open>order\<close>, and a second activity:
  \<^verbatim>\<open>@workflow\<close>, \<^verbatim>\<open>def wf(ctx, ctx_input: Order):\<close>,
  \<^verbatim>\<open>    order = yield ctx.call_activity(load, input=key)\<close>,
  \<^verbatim>\<open>    yield ctx.create_timer(delay)\<close>,
  \<^verbatim>\<open>    total = yield ctx.call_child_workflow(price, input=order.items)\<close>,
  \<^verbatim>\<open>    yield ctx.call_activity(ship, input=total)\<close>, one per line. The parser handles
  the two activities first (\<open>chainProducer\<close>, then the one of \<open>chainBetween\<close>) and the
  child workflow after them (\<open>chainConsumer\<close>).
\<close>

definition chainSource :: string where
  "chainSource =
     ''@workflow\<newline>def wf(ctx, ctx_input: Order):\<newline>    order = yield ctx.call_activity(load, input=key)\<newline>    yield ctx.create_timer(delay)\<newline>    total = yield ctx.call_child_workflow(price, input=order.items)\<newline>    yield ctx.call_activity(ship, input=total)\<newline>''"

definition chainProducer :: step_match where
  "chainProducer = AwaitedMatch \<lparr>a_index = 45, a_var = Some ''order'', a_name = ''load''\<rparr>"

definition chainBetween :: "step_match list" where
  "chainBetween = [AwaitedMatch \<lparr>a_index = 200, a_var = None, a_name = ''ship''\<rparr>, NextPattern]"

definition chainConsumer :: step_match where
  "chainConsumer =
     ChildMatch \<lparr>c_index = 132, c_var = Some ''total'', c_name = ''price'',
                 c_input = Some ''order.items''\<rparr>"

definition chainStart :: extraction where
  "chainStart = \<lparr>x_inst = new_instance\<lparr>workflowInputParam := ''ctx_input''\<rparr>, x_nodes = [], x_index = 0\<rparr>"

text \<open>A step that passes on the variable it binds: \<^verbatim>\<open>state = yield ctx.call_activity(step, input=state)\<close>.\<close>

definition selfInputCall :: parse_call where
  "selfInputCall =
     emptyCall\<lparr>scopedSourceCode := ''state = yield ctx.call_activity(step, input=state)\<newline>'',
       awaitedMatches := [\<lparr>a_index = 0, a_var = Some ''state'', a_name = ''step''\<rparr>]\<rparr>"

definition nodeSources ::
  "ParseResult \<Rightarrow> (string \<times> string option \<times> string option \<times> (DataSourceType \<times> string option) list) list" where
  "nodeSources r =
     (case workflow r of
        None \<Rightarrow> []
      | Some w \<Rightarrow> map (\<lambda>n. (node_id n, node_output n, node_input n,
                              map (\<lambda>s. (sourceType s, sourceActivityId s)) (dataSources n)))
                      (wf_nodes w))"

definition ungroupedCursor :: "strmap \<Rightarrow> walk_state \<Rightarrow> bool" where
  "ungroupedCursor gm st =
     (case lastSequentialNode st of
        None \<Rightarrow> True
      | Some c \<Rightarrow> map_of gm (node_id c) = None)"

definition noSelfLoop :: "WorkflowEdge list \<Rightarrow> bool" where
  "noSelfLoop es = list_all (\<lambda>e. source e \<noteq> target e) es"

text \<open>
  \<open>taskIdBelow T s\<close>: \<open>s\<close> is the id of one of the first \<open>T\<close> activity nodes, which are the
  nodes of the task pattern. \<open>taskOrOther T n\<close>: a node with such an id is a task step.
\<close>

definition taskIdBelow :: "nat \<Rightarrow> string \<Rightarrow> bool" where
  "taskIdBelow T s = (\<exists>k<T. s = activityId k)"

definition taskOrOther :: "nat \<Rightarrow> WorkflowNode \<Rightarrow> bool" where
  "taskOrOther T n = (isTaskStep n \<or> \<not> taskIdBelow T (node_id n))"

text \<open>
  \<open>tasksOnly\<close> holds while the task pattern runs: every node is a task step with an id
  below the counter, the task map holds such ids, and the group map is empty.
  \<open>afterTasks T ptm pgm\<close> holds while the later patterns run: the task pattern has made
  \<open>T\<close> nodes, the two maps are \<open>ptm\<close> and \<open>pgm\<close>, and every node is a task step or has an
  id that is not below \<open>T\<close>.
\<close>

definition tasksOnly :: "extraction \<Rightarrow> bool" where
  "tasksOnly e =
     (list_all (\<lambda>n. isTaskStep n \<and> taskIdBelow (x_index e) (node_id n)) (x_nodes e)
      \<and> list_all (\<lambda>(v, a). taskIdBelow (x_index e) a) (parallelTaskMap (x_inst e))
      \<and> parallelGroupMap (x_inst e) = [])"

definition afterTasks :: "nat \<Rightarrow> strmap \<Rightarrow> strmap \<Rightarrow> extraction \<Rightarrow> bool" where
  "afterTasks T ptm pgm e =
     (list_all (taskOrOther T) (x_nodes e)
      \<and> parallelTaskMap (x_inst e) = ptm \<and> parallelGroupMap (x_inst e) = pgm)"

definition groupEntries :: "strmap \<Rightarrow> strmap \<Rightarrow> bool" where
  "groupEntries ptm pgm =
     list_all (\<lambda>(k, j). k \<in> snd ` set ptm \<and> j \<noteq> [] \<and> hd j = CHR ''p'') pgm"

definition joinsOnly :: "nat \<Rightarrow> strmap \<Rightarrow> extraction \<Rightarrow> bool" where
  "joinsOnly T ptm e =
     (list_all (taskOrOther T) (x_nodes e)
      \<and> parallelTaskMap (x_inst e) = ptm
      \<and> groupEntries ptm (parallelGroupMap (x_inst e)))"

section \<open>Theorems\<close>

subsection \<open>C7: who claims a file extension\<close>

text \<open>
  C7. The registry holds two instances of the JavaScript parser class, tagged
  javascript and typescript, and \<open>canParse\<close> does not look at the tag. A path ending in
  \<open>.ts\<close> is therefore claimed by two registered parsers, first-match selection always
  returns the instance tagged javascript, and \<open>getLanguage\<close> answers typescript for the
  same path.
\<close>

theorem C7_ts_claimed_twice:
  "claimants ''workflow.ts'' = [JavaScriptWorkflowParser Javascript, JavaScriptWorkflowParser Typescript]
   \<and> map_option language (getParser ''workflow.ts'') = Some Javascript
   \<and> getLanguage ''workflow.ts'' = Some Typescript"
  by (simp add: claimants_def parsers_def getParser_def getLanguage_def endsWith_def)

subsection \<open>C4: a closing quote after an escaped backslash\<close>

text \<open>
  C4. The scanner takes a quote for escaped whenever the character before it is a
  backslash, also when that backslash is itself escaped. In the dictionary
  \<^verbatim>\<open>{"sep": "\\", "close": "}"}\<close> it therefore misses the end of the first string value,
  reads the rest with string regions and code exchanged, and returns index 24, a brace
  inside a string literal, for the opening brace at index 0, whose closer is at index 26.
\<close>

theorem C4_escaped_backslash:
  "findMatchingBracket escapedBackslashDict 0 = 24
   \<and> length escapedBackslashDict = 27
   \<and> charAt escapedBackslashDict 26 = Some CHR ''}''"
  by code_simp

subsection \<open>Helper lemmas\<close>

lemma substring_length:
  "length (substring s a b) = min (max a b) (length s) - min (min a b) (length s)"
  unfolding substring_def Let_def by (simp add: min_def max_def) arith

lemma substring_len3: "length (substring s i (i + 3)) = 3 \<Longrightarrow> i + 3 \<le> length s"
  unfolding substring_length by arith

lemma substring_to_end: "k \<le> length s \<Longrightarrow> length s \<le> b \<Longrightarrow> substring s k b = drop k s"
  by (simp add: substring_def Let_def min_def max_def)

lemma scanStep_within:
  assumes "scan_i st < length s"
  shows "scan_i (scanStep s oc cc st) \<le> length s"
proof -
  have t: "isTripleQuote (substring s (scan_i st) (scan_i st + 3)) \<Longrightarrow> scan_i st + 3 \<le> length s"
    by (rule substring_len3) (auto simp: isTripleQuote_def)
  have q: "\<And>q. length q = 3 \<Longrightarrow> substring s (scan_i st) (scan_i st + 3) = q \<Longrightarrow> scan_i st + 3 \<le> length s"
    by (rule substring_len3) simp
  have a: "Suc (scan_i st) \<le> length s" using assms by simp
  show ?thesis
    unfolding scanStep_def Let_def
    using a t q by (simp split: option.split) blast
qed

lemma scanBrackets_stop:
  "\<not> (scan_i st < length s \<and> 0 < scan_depth st) \<Longrightarrow> scanBrackets s oc cc st = st"
  by (subst scanBrackets.simps) auto

lemma scanBrackets_go:
  "scan_i st < length s \<Longrightarrow> 0 < scan_depth st \<Longrightarrow>
   scanBrackets s oc cc st = scanBrackets s oc cc (scanStep s oc cc st)"
  by (subst scanBrackets.simps) auto

lemma scanBrackets_exhausted:
  "scan_i st \<le> length s \<Longrightarrow> 0 < scan_depth (scanBrackets s oc cc st)
   \<Longrightarrow> scan_i (scanBrackets s oc cc st) = length s"
proof (induction s oc cc st rule: scanBrackets.induct)
  case (1 s openChar closeChar st)
  show ?case
  proof (cases "scan_i st < length s \<and> 0 < scan_depth st")
    case False
    then have "scanBrackets s openChar closeChar st = st"
      by (rule scanBrackets_stop)
    with "1.prems" False show ?thesis by auto
  next
    case True
    then have w: "scan_i (scanStep s openChar closeChar st) \<le> length s"
      by (simp add: scanStep_within)
    from True have e: "scanBrackets s openChar closeChar st
        = scanBrackets s openChar closeChar (scanStep s openChar closeChar st)"
      by (simp add: scanBrackets_go)
    from "1.IH"[OF True w] "1.prems"(2) e show ?thesis
      by simp
  qed
qed

lemma activityStep_skip:
  "alreadyCaptured chk src off m ex \<Longrightarrow> activityStep chk src off m ex = ex"
  by (simp add: activityStep_def Let_def)

lemma activityStep_emit:
  assumes "\<not> alreadyCaptured chk src off m ex"
  shows "x_inst (activityStep chk src off m ex)
       = registerOutput (orUndefined (a_var m)) (activityId (x_index ex)) (x_inst ex)"
    and "x_nodes (activityStep chk src off m ex) = x_nodes ex @
       [(createNode (activityId (x_index ex)) Activity (a_name m) (a_name m)
           (Some (getLineNumber src (a_index m) + off)) False)
        \<lparr>node_output := orUndefined (a_var m),
         node_input := extractInputExpression src (a_index m),
         dataSources := analyzeDataSource
           (registerOutput (orUndefined (a_var m)) (activityId (x_index ex)) (x_inst ex))
           (extractInputExpression src (a_index m))\<rparr>]"
  using assms by (simp_all add: activityStep_def Let_def)

lemma taskStep_emit:
  "x_nodes (taskStep src off m ex) = x_nodes ex @
     [(createNode (activityId (x_index ex)) Activity (t_name m) (t_name m)
         (Some (getLineNumber src (t_index m) + off)) True)
      \<lparr>node_output := Some (t_var m),
       node_input := extractInputExpression src (t_index m),
       dataSources := analyzeDataSource
         ((x_inst ex)\<lparr>parallelTaskMap :=
             AList.update (t_var m) (activityId (x_index ex)) (parallelTaskMap (x_inst ex))\<rparr>)
         (extractInputExpression src (t_index m))\<rparr>]"
  by (simp add: taskStep_def Let_def)

lemma throwing_Inr: "throwing c statements i rest = (Inr x, j) \<Longrightarrow> rest = (Inr x, j)"
  by (auto simp: throwing_def split: option.splits if_splits)

lemma py_extract_parts:
  assumes "py_extract c i0 = (Inr steps, i)"
  shows "(steps, i) =
     (let src = scopedSourceCode c; off = call_lineOffset c;
          r1 = parseActivities src off (taskMatches c) (awaitedMatches c) (stringMatches c) i0;
          r2 = parseWith (childStep src off) (childMatches c) (snd r1);
          r3 = parseWith (timerStep src off) (timerMatches c) (snd r2);
          r4 = parseWith (eventStep src off) (eventMatches c) (snd r3);
          r5 = parseWith (decisionStep src off) (decisionMatches c) (snd r4);
          r6 = parseWith (retryStep src off) (retryMatches c) (snd r5);
          r7 = parseWith (whenAllStep src off) (whenAllMatches c) (snd r6)
      in (fst r1 @ fst r2 @ fst r3 @ fst r4 @ fst r5 @ fst r6 @ fst r7, snd r7))"
  using assms
  by (auto simp: py_extract_def Let_def split: prod.splits dest!: throwing_Inr)

lemma edges_no_steps:
  "buildEdgesWithDataFlow gm (addStartEndNodes []) = [controlEdge ''start'' ''end'' Default_edge]"
  by (simp add: addStartEndNodes_def buildEdgesWithDataFlow_def
      buildControlFlowEdges_def sortedNodes_def lineOf_def startNode_def endNode_def
      createNode_def visit_def connectEnd_def initial_walk_def dataFlowEdges_def)

lemma throwing_None [simp]: "raised c = None \<Longrightarrow> throwing c statements i rest = rest"
  by (simp add: throwing_def)

lemma throwing_Some:
  "raised c = Some (s, e) \<Longrightarrow>
   throwing c statements i rest = (if s \<in> set statements then (Inl e, i) else rest)"
  by (simp add: throwing_def)

lemma py_extract_noMatches:
  "raised c = None \<Longrightarrow> noMatches c \<Longrightarrow> py_extract c i = (Inr [], i)"
  by (simp add: noMatches_def py_extract_def parseActivities_def parseWith_def)

subsection \<open>C2: a workflow without steps\<close>

lemma cs_extract_noMatches:
  "raised c = None \<Longrightarrow> noMatches c \<Longrightarrow> cs_extract c i = (Inr [], i)"
  by (simp add: noMatches_def cs_extract_def cs_parseActivities_def parseWith_def)

lemma js_extract_noMatches:
  "raised c = None \<Longrightarrow> noMatches c \<Longrightarrow> js_extract c i = (Inr [], i)"
  by (simp add: noMatches_def js_extract_def js_parseActivities_def parseWith_def)

lemma start_end_nodes:
  "addStartEndNodes [] =
     [\<lparr>node_id = ''start'', node_type = Start, name = ''Start'', label = ''Start'',
       lineNumber = None, isParallelTask = False, node_input = None,
       node_output = None, dataSources = []\<rparr>,
      \<lparr>node_id = ''end'', node_type = End, name = ''End'', label = ''End'',
       lineNumber = None, isParallelTask = False, node_input = None,
       node_output = None, dataSources = []\<rparr>]"
  by (simp add: addStartEndNodes_def startNode_def endNode_def createNode_def)

lemma start_end_edges:
  "buildEdgesWithDataFlow gm
     [\<lparr>node_id = ''start'', node_type = Start, name = ''Start'', label = ''Start'',
       lineNumber = None, isParallelTask = False, node_input = None,
       node_output = None, dataSources = []\<rparr>,
      \<lparr>node_id = ''end'', node_type = End, name = ''End'', label = ''End'',
       lineNumber = None, isParallelTask = False, node_input = None,
       node_output = None, dataSources = []\<rparr>] =
     [\<lparr>edge_id = ''start-end'', source = ''start'', target = ''end'',
       edge_label = None, edge_type = Default_edge, dataFlow = None,
       dataSourceType = None\<rparr>]"
  unfolding start_end_nodes [symmetric] by (simp add: edges_no_steps controlEdge_def)

text \<open>
  C2. When the runtime raises nothing and no step pattern finds a match, \<open>parse\<close> of each
  of the three parser classes (the JavaScript one with either language) succeeds, and
  the workflow it returns has the two nodes start and end, in this order, and one edge,
  the default control edge with source start and target end.
\<close>

theorem C2_no_steps:
  assumes "raised c = None" and "noMatches c"
  shows "startToEnd (fst (py_parse c i))
    \<and> startToEnd (fst (cs_parse c i))
    \<and> startToEnd (fst (js_parse lang c i))"
proof (intro conjI)
  show "startToEnd (fst (py_parse c i))"
    using assms
    by (simp add: py_parse_def py_try_def py_extract_noMatches returned_def Let_def
        startToEnd_def start_end_nodes start_end_edges)
  show "startToEnd (fst (cs_parse c i))"
    using assms
    by (simp add: cs_parse_def cs_try_def cs_extract_noMatches returned_def Let_def
        startToEnd_def start_end_nodes start_end_edges)
  show "startToEnd (fst (js_parse lang c i))"
    using assms
    by (simp add: js_parse_def js_try_def js_extract_noMatches returned_def Let_def
        startToEnd_def start_end_nodes start_end_edges)
qed

theorem C2_no_steps_witness:
  "startToEnd (fst (py_parse emptyCall new_instance))
    \<and> startToEnd (fst (cs_parse emptyCall new_instance))
    \<and> startToEnd (fst (js_parse Typescript emptyCall new_instance))"
proof -
  have "raised emptyCall = None" and "noMatches emptyCall"
    by (simp_all add: emptyCall_def noMatches_def)
  then show ?thesis
    by (rule C2_no_steps)
qed

subsection \<open>C5: a bracket that is never closed\<close>

text \<open>
  C5 as stated fails. For the text \<^verbatim>\<open>x = yield ctx.call_activity(f, input={"a": 1\<close> the
  opening brace at index 37 has no closer; the scan ends at the end of the text with
  depth 1, the scanner returns 43, the index of the last character of the text (no
  sentinel, no exception), and the caller takes the rest of the text as the input
  expression of a step it emits.
\<close>

theorem C5_counterexample:
  \<open>inputStartOf unclosedCall 0 = Some 37
   \<and> scan_depth (scanFrom unclosedCall 37) = 1
   \<and> findMatchingBracket unclosedCall 37 = 43
   \<and> length unclosedCall = 44
   \<and> extractInputExpression unclosedCall 0 = Some ''{"a": 1''
   \<and> nodeInputs (fst (py_parse unclosedCallMatches new_instance))
       = [(''start'', None), (''activity-0'', Some ''{"a": 1''), (''end'', None)]\<close>
  by code_simp

text \<open>
  C5, amended. When the text is exhausted before the depth is back at zero, the scanner
  raises nothing and returns the index of the last character of the text; and when the
  opening bracket is the start of an input expression, \<open>extractInputExpression\<close> returns
  the text from the bracket to the end of the text, trimmed. Every match of the task
  pattern at that call is emitted as a step with that input. A match of the awaited or of
  the quoted-name pattern is emitted as a step with that input, unless the check for a
  node of the same name on the same line applies, which skips the match whatever its
  brackets are: of two awaited calls of one activity on one line, the second is skipped
  also when its argument is never closed.
\<close>

theorem C5_unclosed_bracket:
  assumes "k < length s" and "0 < scan_depth (scanFrom s k)"
  shows "findMatchingBracket s k = length s - 1
    \<and> (inputStartOf s m = Some k \<and> isOpenBracket (charAt s k) \<longrightarrow>
         extractInputExpression s m = Some (trim (drop k s))
         \<and> (\<forall>off tm ex. t_index tm = m \<longrightarrow>
               (\<exists>n. x_nodes (taskStep s off tm ex) = x_nodes ex @ [n]
                    \<and> node_input n = Some (trim (drop k s))))
         \<and> (\<forall>chk off am ex. a_index am = m \<longrightarrow>
               (if alreadyCaptured chk s off am ex
                then activityStep chk s off am ex = ex
                else \<exists>n. x_nodes (activityStep chk s off am ex) = x_nodes ex @ [n]
                       \<and> node_input n = Some (trim (drop k s)))))"
proof -
  from assms have e: "scan_i (scanFrom s k) = length s"
    unfolding scanFrom_def by (intro scanBrackets_exhausted) simp_all
  then have f: "findMatchingBracket s k = length s - 1"
    by (simp add: findMatchingBracket_def)
  with assms(1) have sub: "substring s k (findMatchingBracket s k + 1) = drop k s"
    by (simp add: substring_to_end)
  have x: "extractInputExpression s m = Some (trim (drop k s))"
    if "inputStartOf s m = Some k" and "isOpenBracket (charAt s k)"
    using that sub by (simp add: extractInputExpression_def)
  have t: "\<exists>n. x_nodes (taskStep s off tm ex) = x_nodes ex @ [n]
               \<and> node_input n = Some (trim (drop k s))"
    if "extractInputExpression s m = Some (trim (drop k s))" and "t_index tm = m" for off tm ex
    using that by (simp add: taskStep_emit)
  have a: "if alreadyCaptured chk s off am ex
           then activityStep chk s off am ex = ex
           else \<exists>n. x_nodes (activityStep chk s off am ex) = x_nodes ex @ [n]
                  \<and> node_input n = Some (trim (drop k s))"
    if "extractInputExpression s m = Some (trim (drop k s))" and "a_index am = m" for chk off am ex
    using that by (simp add: activityStep_skip activityStep_emit)
  from f x t a show ?thesis by blast
qed

theorem C5_unclosed_bracket_witness:
  \<open>findMatchingBracket unclosedCall 37 = length unclosedCall - 1
   \<and> extractInputExpression unclosedCall 0 = Some ''{"a": 1''
   \<and> (\<exists>n. x_nodes (activityStep True unclosedCall 0
                      \<lparr>a_index = 0, a_var = Some ''x'', a_name = ''f''\<rparr> firstExtraction) = [n]
          \<and> node_input n = Some ''{"a": 1'')\<close>
proof -
  have a: "37 < length unclosedCall" by (simp add: unclosedCall_def)
  have b: "0 < scan_depth (scanFrom unclosedCall 37)" by code_simp
  have c: "inputStartOf unclosedCall 0 = Some 37" by code_simp
  have d: "isOpenBracket (charAt unclosedCall 37)" by code_simp
  have t: \<open>trim (drop 37 unclosedCall) = ''{"a": 1''\<close> by code_simp
  have n: "\<not> alreadyCaptured True unclosedCall 0 \<lparr>a_index = 0, a_var = Some ''x'', a_name = ''f''\<rparr> firstExtraction"
    by (simp add: alreadyCaptured_def firstExtraction_def)
  have x: "x_nodes firstExtraction = []" by (simp add: firstExtraction_def)
  from C5_unclosed_bracket [OF a b, of 0] c d have
    "findMatchingBracket unclosedCall 37 = length unclosedCall - 1
     \<and> extractInputExpression unclosedCall 0 = Some (trim (drop 37 unclosedCall))
     \<and> (if alreadyCaptured True unclosedCall 0 \<lparr>a_index = 0, a_var = Some ''x'', a_name = ''f''\<rparr> firstExtraction
         then activityStep True unclosedCall 0 \<lparr>a_index = 0, a_var = Some ''x'', a_name = ''f''\<rparr> firstExtraction = firstExtraction
         else \<exists>n. x_nodes (activityStep True unclosedCall 0 \<lparr>a_index = 0, a_var = Some ''x'', a_name = ''f''\<rparr> firstExtraction)
                     = x_nodes firstExtraction @ [n]
               \<and> node_input n = Some (trim (drop 37 unclosedCall)))"
    by simp
  with n t x show ?thesis by simp
qed

subsection \<open>C6: an exception inside parse\<close>

text \<open>
  C6. When the runtime raises an exception in any statement of the \<open>try\<close> block,
  whatever the statements before it have found and written, \<open>parse\<close> of each parser
  returns a result with \<open>success\<close> false, without a workflow, and with one error: its
  message is the message of the exception when the thrown value is an \<open>Error\<close> object,
  and the text \<open>Unknown parsing error\<close> otherwise. (The parser object keeps what was
  written before the exception.)
\<close>

theorem C6_exception_is_failure:
  assumes "raised c = Some (s, e)"
  shows "(s \<in> set py_statements \<longrightarrow> fst (py_parse c i) = structuredFailure e)
    \<and> (s \<in> set cs_statements \<longrightarrow> fst (cs_parse c i) = structuredFailure e)
    \<and> (s \<in> set js_statements \<longrightarrow> fst (js_parse lang c i) = structuredFailure e)"
proof (intro conjI impI)
  assume "s \<in> set py_statements"
  with assms show "fst (py_parse c i) = structuredFailure e"
    by (auto simp: py_parse_def py_try_def py_extract_def throwing_Some caught_def Let_def
        py_statements_def structuredFailure_def split: prod.split)
next
  assume "s \<in> set cs_statements"
  with assms show "fst (cs_parse c i) = structuredFailure e"
    by (auto simp: cs_parse_def cs_try_def cs_extract_def throwing_Some caught_def Let_def
        cs_statements_def structuredFailure_def split: prod.split)
next
  assume "s \<in> set js_statements"
  with assms show "fst (js_parse lang c i) = structuredFailure e"
    by (auto simp: js_parse_def js_try_def js_extract_def throwing_Some caught_def Let_def
        js_statements_def cs_statements_def structuredFailure_def split: prod.split)
qed

theorem C6_exception_is_failure_witness:
  "fst (py_parse deepAccessCall new_instance)
     = \<lparr>success = False, workflow = None,
        errors = Some [\<lparr>message = ''Maximum call stack size exceeded''\<rparr>]\<rparr>
   \<and> fst (cs_parse csDeepAccessCall new_instance)
     = \<lparr>success = False, workflow = None,
        errors = Some [\<lparr>message = ''Maximum call stack size exceeded''\<rparr>]\<rparr>
   \<and> fst (js_parse Typescript jsDeepAccessCall new_instance)
     = \<lparr>success = False, workflow = None,
        errors = Some [\<lparr>message = ''Maximum call stack size exceeded''\<rparr>]\<rparr>"
  using C6_exception_is_failure
    [of deepAccessCall ParseActivities "ErrorObject ''Maximum call stack size exceeded''"
        new_instance Typescript]
    C6_exception_is_failure
    [of csDeepAccessCall ParseActivities "ErrorObject ''Maximum call stack size exceeded''"
        new_instance Typescript]
    C6_exception_is_failure
    [of jsDeepAccessCall ParseActivities "ErrorObject ''Maximum call stack size exceeded''"
        new_instance Typescript]
  by (simp add: deepAccessCall_def csDeepAccessCall_def jsDeepAccessCall_def py_statements_def
      cs_statements_def js_statements_def structuredFailure_def)

text \<open>
  The parser object after a failed call: an exception in workflow discovery leaves it
  with the three maps reset, an exception after \<open>extractWorkflowInputInfo\<close> leaves it
  with the parameter name and the property names of the failed call as well.
\<close>

lemma py_parse_after_exception:
  "raised c = Some (FindAllWorkflows, e) \<Longrightarrow> snd (py_parse c i) = resetState i"
  "raised c = Some (ExtractReturnInfo, e)
   \<Longrightarrow> snd (py_parse c i) = extractWorkflowInputInfo c (resetState i)"
  by (simp_all add: py_parse_def py_try_def throwing_Some Let_def)

subsection \<open>C8: what a parser object keeps between calls\<close>

text \<open>
  C8. \<open>parse\<close> resets the three maps and leaves \<open>workflowInputParam\<close> (and
  \<open>inputProperties\<close>) as the call before left them. After a call on a text that declares
  the input parameter \<open>order\<close>, a call on a text without declaration reports \<open>order\<close> as
  the parameter name and classifies \<^verbatim>\<open>order.total * 2\<close> as workflow input, with a data
  edge from start; the same call on a new parser object reports \<open>input\<close> and has no data
  edge.
\<close>

theorem C8_second_call_differs:
  "reportedParameterName (fst (py_parse secondCall (snd (py_parse firstCall new_instance))))
     = Some ''order''
   \<and> reportedParameterName (fst (py_parse secondCall new_instance)) = Some ''input''
   \<and> edgeTriples (fst (py_parse secondCall (snd (py_parse firstCall new_instance))))
     = [(''start'', ''activity-0'', Default_edge), (''activity-0'', ''end'', Default_edge),
        (''start'', ''activity-0'', Data_workflow_input)]
   \<and> edgeTriples (fst (py_parse secondCall new_instance))
     = [(''start'', ''activity-0'', Default_edge), (''activity-0'', ''end'', Default_edge)]"
  by code_simp

subsection \<open>C9: the last return expression\<close>

text \<open>
  C9. For the C# statement \<^verbatim>\<open>return new OrderResult { Success = true, Total = total };\<close>
  the return pattern captures the text between the braces, and the C# parser records
  the field names and no return expression. The Python parser records both for
  \<^verbatim>\<open>return {"ok": True}\<close>, and so does the JavaScript parser for
  \<^verbatim>\<open>return { ok: true }\<close>.
\<close>

theorem C9_csharp_no_returnExpression:
  \<open>cs_extractReturnInfo ['' Success = true, Total = total ''] (foundMetadata None None None [])
     = (foundMetadata None None None [])\<lparr>outputFields := Some [''Success'', ''Total'']\<rparr>
   \<and> returnExpression
        (cs_extractReturnInfo ['' Success = true, Total = total ''] (foundMetadata None None None []))
     = None
   \<and> returnExpression (py_extractReturnInfo [''{"ok": True}''] (foundMetadata None None None []))
     = Some ''{"ok": True}''
   \<and> returnExpression (js_extractReturnInfo [''{ ok: true }''] (foundMetadata None None None []))
     = Some ''{ ok: true }''\<close>
  by code_simp

subsection \<open>The walk of the assembler\<close>


lemma parallelInto_append [simp]: "parallelInto T (xs @ ys) = parallelInto T xs @ parallelInto T ys"
  by (simp add: parallelInto_def)

lemma parallelInto_Nil [simp]: "parallelInto T [] = []"
  by (simp add: parallelInto_def)

lemma parallelInto_default [simp]: "parallelInto T [controlEdge a b Default_edge] = []"
  by (simp add: parallelInto_def controlEdge_def)




lemma wellGrouped_value:
  assumes "wellGrouped gm ns" and "map_of gm k = Some j"
  shows "j \<noteq> []" and "map_of gm j = None"
proof -
  from assms(2) have "(k, j) \<in> set gm" by (rule map_of_SomeD)
  with assms(1) show "j \<noteq> []" and "map_of gm j = None"
    by (auto simp: wellGrouped_def list_all_iff)
qed



lemma find_id: "find (\<lambda>n. node_id n = j) srt = Some jn \<Longrightarrow> node_id jn = j"
  by (auto simp: find_Some_iff)


lemma groupStep_edges:
  "edges (groupStep gm srt j st) =
     edges st
     @ (case lastSequentialNode st of None \<Rightarrow> []
        | Some l \<Rightarrow> map (\<lambda>p. controlEdge (node_id l) (node_id p) Parallel_edge) (parallelGroup gm srt j))
     @ (case find (\<lambda>n. node_id n = j) srt of None \<Rightarrow> []
        | Some jn \<Rightarrow> map (\<lambda>p. controlEdge (node_id p) j Parallel_edge) (parallelGroup gm srt j))"
proof (cases "find (\<lambda>n. node_id n = j) srt")
  case None
  then show ?thesis by (simp add: groupStep_def Let_def)
next
  case (Some jn)
  then have "node_id jn = j" by (rule find_id)
  with Some show ?thesis by (simp add: groupStep_def Let_def)
qed

lemma group_member: "p \<in> set (parallelGroup gm srt j) \<Longrightarrow> map_of gm (node_id p) = Some j"
  by (simp add: parallelGroup_def)

lemma visit_cases:
  obtains (cursor) "visit gm srt node st = st\<lparr>lastSequentialNode := Some node\<rparr>"
  | (skip) "visit gm srt node st = st"
  | (seq) "visit gm srt node st = sequentialStep node st"
  | (grp) j where "map_of gm (node_id node) = Some j" and "j \<noteq> []"
      and "j \<notin> set (processedParallelGroups st)"
      and "visit gm srt node st = groupStep gm srt j st"
proof (cases "node_type node = Start")
  case True
  then have "visit gm srt node st = st\<lparr>lastSequentialNode := Some node\<rparr>"
    by (simp add: visit_def)
  then show ?thesis by (rule cursor)
next
  case ns: False
  show ?thesis
  proof (cases "node_type node = End")
    case True
    with ns have "visit gm srt node st = st"
      by (simp add: visit_def)
    then show ?thesis by (rule skip)
  next
    case ne: False
    show ?thesis
    proof (cases "node_id node \<in> set (parallelTaskNodeIds srt)")
      case True
      show ?thesis
      proof (cases "map_of gm (node_id node)")
        case None
        with ns ne True have "visit gm srt node st = sequentialStep node st"
          by (simp add: visit_def)
        then show ?thesis by (rule seq)
      next
        case (Some j)
        show ?thesis
        proof (cases "j = []")
          case True
          with ns ne \<open>node_id node \<in> set (parallelTaskNodeIds srt)\<close> Some
          have "visit gm srt node st = sequentialStep node st"
            by (simp add: visit_def)
          then show ?thesis by (rule seq)
        next
          case False
          show ?thesis
          proof (cases "j \<in> set (processedParallelGroups st)")
            case True
            with ns ne \<open>node_id node \<in> set (parallelTaskNodeIds srt)\<close> Some False
            have "visit gm srt node st = st"
              by (simp add: visit_def)
            then show ?thesis by (rule skip)
          next
            case nproc: False
            with ns ne \<open>node_id node \<in> set (parallelTaskNodeIds srt)\<close> Some False
            have "visit gm srt node st = groupStep gm srt j st"
              by (simp add: visit_def)
            with Some False nproc show ?thesis by (rule grp)
          qed
        qed
      qed
    next
      case nt: False
      show ?thesis
      proof (cases "node_id node \<in> set (joinNodeIds srt)")
        case False
        with ns ne nt have "visit gm srt node st = sequentialStep node st"
          by (simp add: visit_def)
        then show ?thesis by (rule seq)
      next
        case True
        show ?thesis
        proof (cases "lastSequentialNode st")
          case None
          with ns ne nt True have "visit gm srt node st = st\<lparr>lastSequentialNode := Some node\<rparr>"
            by (simp add: visit_def)
          then show ?thesis by (rule cursor)
        next
          case (Some l)
          show ?thesis
          proof (cases "node_id l = node_id node")
            case True
            with ns ne nt \<open>node_id node \<in> set (joinNodeIds srt)\<close> Some
            have "visit gm srt node st = st"
              by (simp add: visit_def)
            then show ?thesis by (rule skip)
          next
            case False
            with ns ne nt \<open>node_id node \<in> set (joinNodeIds srt)\<close> Some
            have "visit gm srt node st = st\<lparr>lastSequentialNode := Some node\<rparr>"
              by (simp add: visit_def)
            then show ?thesis by (rule cursor)
          qed
        qed
      qed
    qed
  qed
qed

















lemma task_in_ids:
  "n \<in> set srt \<Longrightarrow> isTaskStep n \<Longrightarrow> node_id n \<in> set (parallelTaskNodeIds srt)"
  by (auto simp: parallelTaskNodeIds_def isTaskStep_def)









lemma wellGrouped_sorted: "wellGrouped gm ns \<Longrightarrow> wellGrouped gm (sortedNodes ns)"
  by (simp add: wellGrouped_def sortedNodes_def list_all_iff)






subsection \<open>C1: fan-out and fan-in of a parallel group\<close>
















subsection \<open>Classification of an expression rooted at a registered variable\<close>

text \<open>
  Lemmas about \<open>classifyExpression\<close> and \<open>analyzeDataSource\<close> on an expression that is a
  variable or an access rooted at it, and about what an \<open>activityStep\<close> changes in the
  parser object.
\<close>

lemma startsWith_append: "startsWith e p \<Longrightarrow> \<exists>r. e = p @ r"
  unfolding startsWith_def by (metis append_take_drop_id)

lemma not_word_dot: "\<not> is_word CHR ''.''" and not_word_bracket: "\<not> is_word CHR ''[''"
  and not_word_brace: "\<not> is_word CHR ''{''"
  by (simp_all add: is_word_def)

lemma rooted_takeWhile:
  assumes "isIdentifier v" and "rootedAt e v"
  shows "takeWhile is_word e = v"
proof -
  from assms(1) have w: "\<And>x. x \<in> set v \<Longrightarrow> is_word x"
    by (simp add: isIdentifier_def list_all_iff)
  from assms(2) consider "e = v" | r where "e = v @ ''.'' @ r" | r where "e = v @ ''['' @ r"
    unfolding rootedAt_def using startsWith_append by (metis append.assoc)
  then show ?thesis
  proof cases
    case 1
    with w show ?thesis by simp
  next
    case 2
    with w show ?thesis by (simp add: not_word_dot)
  next
    case 3
    with w show ?thesis by (simp add: not_word_bracket)
  qed
qed

lemma rooted_unique:
  "isIdentifier v \<Longrightarrow> isIdentifier k \<Longrightarrow> rootedAt e v \<Longrightarrow> rootedAt e k \<Longrightarrow> k = v"
  using rooted_takeWhile by metis

lemma find_rooted:
  assumes "isIdentifier v" and "rootedAt e v"
  shows "list_all (\<lambda>(k, a). isIdentifier k) m \<Longrightarrow> map_of m v = Some a
         \<Longrightarrow> find (\<lambda>(k, a). rootedAt e k) m = Some (v, a)"
proof (induction m)
  case Nil
  then show ?case by simp
next
  case (Cons ka m)
  obtain k b where ka: "ka = (k, b)" by (cases ka)
  show ?case
  proof (cases "rootedAt e k")
    case True
    from Cons.prems(1) ka have "isIdentifier k" by simp
    with assms True have "k = v" by (metis rooted_unique)
    with Cons.prems(2) ka True show ?thesis by simp
  next
    case False
    with assms(2) have "k \<noteq> v" by auto
    with Cons ka False show ?thesis by simp
  qed
qed


lemma classify_rooted:
  assumes "isIdentifier v" and "rootedAt e v"
    and "isIdentifier (workflowInputParam i)" and "v \<noteq> workflowInputParam i"
    and "list_all (\<lambda>(k, a). isIdentifier k) (outputVariableMap i)"
    and "map_of (outputVariableMap i) v = Some a"
  shows "classifyExpression i e tp =
     \<lparr>sourceType = Activity_output, sourcePath = e, targetProperty = tp, sourceActivityId = Some a\<rparr>"
proof -
  from assms(1-4) have "\<not> rootedAt e (workflowInputParam i)"
    by (metis rooted_unique)
  with find_rooted [OF assms(1,2,5,6)] show ?thesis
    by (simp add: classifyExpression_def)
qed

lemma rooted_not_dict:
  assumes "isIdentifier v" and "rootedAt e v"
  shows "e \<noteq> []" and "\<not> startsWith e ''{''"
proof -
  from rooted_takeWhile [OF assms] assms(1) have t: "takeWhile is_word e \<noteq> []"
    by (simp add: isIdentifier_def)
  then show "e \<noteq> []" by auto
  from t show "\<not> startsWith e ''{''"
    by (cases e) (auto simp: startsWith_def not_word_brace)
qed

lemma analyze_rooted:
  assumes "isIdentifier v" and "rootedAt e v"
    and "isIdentifier (workflowInputParam i)" and "v \<noteq> workflowInputParam i"
    and "list_all (\<lambda>(k, a). isIdentifier k) (outputVariableMap i)"
    and "map_of (outputVariableMap i) v = Some a"
  shows "analyzeDataSource i (Some e) =
     [\<lparr>sourceType = Activity_output, sourcePath = e, targetProperty = None, sourceActivityId = Some a\<rparr>]"
  using rooted_not_dict [OF assms(1,2)] classify_rooted [OF assms]
  by (simp add: analyzeDataSource_def)

lemma registerOutput_param [simp]:
  "workflowInputParam (registerOutput ov nid i) = workflowInputParam i"
  by (simp add: registerOutput_def split: option.split)

lemma registerOutput_other:
  "(case ov of None \<Rightarrow> True | Some w \<Rightarrow> w \<noteq> v)
   \<Longrightarrow> map_of (outputVariableMap (registerOutput ov nid i)) v = map_of (outputVariableMap i) v"
  by (simp add: registerOutput_def update_conv' split: option.splits)

lemma registerOutput_same:
  "map_of (outputVariableMap (registerOutput (Some v) nid i)) v = Some nid"
  by (simp add: registerOutput_def update_conv')

lemma update_identifiers:
  "isIdentifier w \<Longrightarrow> list_all (\<lambda>(k, a). isIdentifier k) m
   \<Longrightarrow> list_all (\<lambda>(k, a). isIdentifier k) (AList.update w nid m)"
  by (induction m) (auto simp: )

lemma registerOutput_keys:
  "(case ov of None \<Rightarrow> True | Some w \<Rightarrow> isIdentifier w)
   \<Longrightarrow> list_all (\<lambda>(k, a). isIdentifier k) (outputVariableMap i)
   \<Longrightarrow> list_all (\<lambda>(k, a). isIdentifier k) (outputVariableMap (registerOutput ov nid i))"
  by (simp add: registerOutput_def update_identifiers split: option.splits)

lemma keeps_refl: "keeps v i i"
  by (simp add: keeps_def)

lemma keeps_trans: "keeps v i i' \<Longrightarrow> keeps v i' i'' \<Longrightarrow> keeps v i i''"
  by (simp add: keeps_def)

lemma registerOutput_keepsI:
  assumes "case ov of None \<Rightarrow> True | Some w \<Rightarrow> isIdentifier w \<and> w \<noteq> v"
  shows "keeps v i (registerOutput ov nid i)"
proof -
  from assms have o: "case ov of None \<Rightarrow> True | Some w \<Rightarrow> w \<noteq> v"
    and k: "case ov of None \<Rightarrow> True | Some w \<Rightarrow> isIdentifier w"
    by (auto split: option.splits)
  show ?thesis
    using registerOutput_other [OF o, of nid i] registerOutput_keys [OF k, of i nid]
    by (simp add: keeps_def identifierKeys_def)
qed

lemma mapTask_keeps: "keeps v i (mapTask nid t i)"
  by (simp add: keeps_def mapTask_def identifierKeys_def split: option.split)

lemma mapTasks_keeps: "keeps v i (fold (mapTask nid) ts i)"
proof (induction ts arbitrary: i)
  case Nil
  show ?case by (simp add: keeps_refl)
next
  case (Cons t ts)
  from keeps_trans [OF mapTask_keeps Cons] show ?case by simp
qed

lemma registerOutputs_keeps:
  "list_all (\<lambda>w. isIdentifier w \<and> w \<noteq> v) (filter (\<lambda>w. w \<noteq> []) outs)
   \<Longrightarrow> keeps v i (fold (\<lambda>outputVar. registerOutput (orUndefined (Some outputVar)) nid) outs i)"
proof (induction outs arbitrary: i)
  case Nil
  show ?case by (simp add: keeps_refl)
next
  case (Cons w outs)
  from Cons.prems have "case orUndefined (Some w) of None \<Rightarrow> True | Some w \<Rightarrow> isIdentifier w \<and> w \<noteq> v"
    by (auto simp: orUndefined_def split: if_splits)
  then have a: "keeps v i (registerOutput (orUndefined (Some w)) nid i)"
    by (rule registerOutput_keepsI)
  from Cons.prems have "list_all (\<lambda>w. isIdentifier w \<and> w \<noteq> v) (filter (\<lambda>w. w \<noteq> []) outs)"
    by (simp split: if_splits)
  from keeps_trans [OF a Cons.IH [OF this]] show ?case by simp
qed

lemma runStep_keeps:
  assumes "bindsOthers v m"
  shows "keeps v (x_inst ex) (x_inst (runStep src off m ex))"
proof (cases m)
  case (TaskMatch t)
  then show ?thesis
    by (simp add: taskStep_def Let_def keeps_def identifierKeys_def)
next
  case (AwaitedMatch a)
  with assms have "case orUndefined (a_var a) of None \<Rightarrow> True | Some w \<Rightarrow> isIdentifier w \<and> w \<noteq> v"
    by (simp add: bindsOthers_def split: option.splits)
  from registerOutput_keepsI [OF this] AwaitedMatch show ?thesis
    by (cases "alreadyCaptured True src off a ex")
       (simp_all add: activityStep_skip activityStep_emit keeps_refl)
next
  case (QuotedMatch a)
  with assms have "case orUndefined (a_var a) of None \<Rightarrow> True | Some w \<Rightarrow> isIdentifier w \<and> w \<noteq> v"
    by (simp add: bindsOthers_def split: option.splits)
  from registerOutput_keepsI [OF this] QuotedMatch show ?thesis
    by (simp add: activityStep_emit alreadyCaptured_def)
next
  case (ChildMatch a)
  with assms have "case orUndefined (c_var a) of None \<Rightarrow> True | Some w \<Rightarrow> isIdentifier w \<and> w \<noteq> v"
    by (simp add: bindsOthers_def split: option.splits)
  from registerOutput_keepsI [OF this] ChildMatch show ?thesis
    by (simp add: childStep_def Let_def)
next
  case (TimerMatch a)
  with assms have "case orUndefined (tm_var a) of None \<Rightarrow> True | Some w \<Rightarrow> isIdentifier w \<and> w \<noteq> v"
    by (simp add: bindsOthers_def split: option.splits)
  from registerOutput_keepsI [OF this] TimerMatch show ?thesis
    by (simp add: timerStep_def Let_def)
next
  case (EventMatch a)
  with assms have "case orUndefined (e_var a) of None \<Rightarrow> True | Some w \<Rightarrow> isIdentifier w \<and> w \<noteq> v"
    by (simp add: bindsOthers_def split: option.splits)
  from registerOutput_keepsI [OF this] EventMatch show ?thesis
    by (simp add: eventStep_def Let_def)
next
  case (DecisionMatch a)
  then show ?thesis by (simp add: decisionStep_def Let_def keeps_refl)
next
  case (RetryMatch k)
  then show ?thesis by (simp add: retryStep_def keeps_refl)
next
  case (WhenAllMatch a)
  with assms have "list_all (\<lambda>w. isIdentifier w \<and> w \<noteq> v) (filter (\<lambda>w. w \<noteq> []) (whenAllOutputs a))"
    by (simp add: bindsOthers_def)
  from keeps_trans [OF registerOutputs_keeps [OF this] mapTasks_keeps] WhenAllMatch show ?thesis
    by (simp add: whenAllStep_def Let_def whenAllOutputs_def)
next
  case NextPattern
  then show ?thesis by (simp add: keeps_refl)
qed

lemma runSteps_keeps:
  "list_all (bindsOthers v) ms \<Longrightarrow> keeps v (x_inst ex) (x_inst (runSteps src off ms ex))"
proof (induction ms arbitrary: ex)
  case Nil
  show ?case by (simp add: runSteps_def keeps_refl)
next
  case (Cons m ms)
  from Cons.prems have a: "bindsOthers v m" and b: "list_all (bindsOthers v) ms" by simp_all
  from keeps_trans [OF runStep_keeps [OF a] Cons.IH [OF b]] show ?case
    by (simp add: runSteps_def)
qed

lemma producer_step:
  assumes "producedVar m = Some v" and "\<not> skippedStep src off m ex"
  shows "\<exists>n. x_nodes (runStep src off m ex) = x_nodes ex @ [n]
           \<and> node_output n = Some v
           \<and> x_inst (runStep src off m ex) = registerOutput (Some v) (node_id n) (x_inst ex)"
proof (cases m)
  case (AwaitedMatch a)
  with assms show ?thesis by (simp add: activityStep_emit createNode_def)
next
  case (QuotedMatch a)
  with assms show ?thesis by (simp add: activityStep_emit alreadyCaptured_def createNode_def)
next
  case (ChildMatch a)
  with assms show ?thesis by (simp add: childStep_def Let_def createNode_def)
next
  case (TimerMatch a)
  with assms show ?thesis by (simp add: timerStep_def Let_def createNode_def)
next
  case (EventMatch a)
  with assms show ?thesis by (simp add: eventStep_def Let_def createNode_def)
qed (use assms in simp_all)

lemma consumer_step:
  assumes idv: "isIdentifier v" and rooted: "rootedAt e v"
    and ids: "identifierKeys (x_inst ex)" and notInput: "v \<noteq> workflowInputParam (x_inst ex)"
    and reg: "map_of (outputVariableMap (x_inst ex)) v = Some a"
    and other: "bindsOthers v m"
    and reads: "inputOf src m = Some e"
    and emitted: "\<not> skippedStep src off m ex"
  shows "\<exists>n. x_nodes (runStep src off m ex) = x_nodes ex @ [n]
           \<and> node_input n = Some e
           \<and> dataSources n =
               [\<lparr>sourceType = Activity_output, sourcePath = e, targetProperty = None,
                 sourceActivityId = Some a\<rparr>]"
proof -
  have an: "analyzeDataSource i (Some e) =
     [\<lparr>sourceType = Activity_output, sourcePath = e, targetProperty = None, sourceActivityId = Some a\<rparr>]"
    if "keeps v (x_inst ex) i" for i
  proof -
    from that ids reg notInput
    have "isIdentifier (workflowInputParam i)" "v \<noteq> workflowInputParam i"
      "list_all (\<lambda>(k, a). isIdentifier k) (outputVariableMap i)"
      "map_of (outputVariableMap i) v = Some a"
      by (simp_all add: keeps_def identifierKeys_def)
    with idv rooted show ?thesis by (intro analyze_rooted)
  qed
  show ?thesis
  proof (cases m)
    case (TaskMatch t)
    have "keeps v (x_inst ex)
            ((x_inst ex)\<lparr>parallelTaskMap :=
               AList.update (t_var t) (activityId (x_index ex)) (parallelTaskMap (x_inst ex))\<rparr>)"
      by (simp add: keeps_def identifierKeys_def)
    from an [OF this] TaskMatch reads show ?thesis
      by (simp add: taskStep_emit)
  next
    case (AwaitedMatch a')
    with other have "case orUndefined (a_var a') of None \<Rightarrow> True | Some w \<Rightarrow> isIdentifier w \<and> w \<noteq> v"
      by (simp add: bindsOthers_def split: option.splits)
    from an [OF registerOutput_keepsI [OF this]] AwaitedMatch reads emitted show ?thesis
      by (simp add: activityStep_emit)
  next
    case (QuotedMatch a')
    with other have "case orUndefined (a_var a') of None \<Rightarrow> True | Some w \<Rightarrow> isIdentifier w \<and> w \<noteq> v"
      by (simp add: bindsOthers_def split: option.splits)
    from an [OF registerOutput_keepsI [OF this]] QuotedMatch reads show ?thesis
      by (simp add: activityStep_emit alreadyCaptured_def)
  next
    case (ChildMatch c')
    with other have "case orUndefined (c_var c') of None \<Rightarrow> True | Some w \<Rightarrow> isIdentifier w \<and> w \<noteq> v"
      by (simp add: bindsOthers_def split: option.splits)
    note a = an [OF registerOutput_keepsI [OF this]]
    from reads ChildMatch have r: "map_option trim (c_input c') = Some e" by simp
    show ?thesis
      by (simp add: ChildMatch childStep_def Let_def r a)
  qed (use reads in simp_all)
qed

lemma fold_prefix:
  assumes "\<And>m P ex. step m (ex\<lparr>x_nodes := P @ x_nodes ex\<rparr>) = (step m ex)\<lparr>x_nodes := P @ x_nodes (step m ex)\<rparr>"
  shows "fold step ms (ex\<lparr>x_nodes := P @ x_nodes ex\<rparr>)
       = (fold step ms ex)\<lparr>x_nodes := P @ x_nodes (fold step ms ex)\<rparr>"
  by (induction ms arbitrary: ex) (simp_all add: assms)

lemma run_pass:
  assumes "\<And>m P ex. step m (ex\<lparr>x_nodes := P @ x_nodes ex\<rparr>) = (step m ex)\<lparr>x_nodes := P @ x_nodes (step m ex)\<rparr>"
  shows "x_nodes (fold step ms (ex\<lparr>x_index := 0\<rparr>)) = x_nodes ex @ fst (parseWith step ms (x_inst ex))"
    and "x_inst (fold step ms (ex\<lparr>x_index := 0\<rparr>)) = snd (parseWith step ms (x_inst ex))"
proof -
  let ?e0 = "\<lparr>x_inst = x_inst ex, x_nodes = [], x_index = 0\<rparr>"
  have "ex\<lparr>x_index := 0\<rparr> = ?e0\<lparr>x_nodes := x_nodes ex @ x_nodes ?e0\<rparr>"
    by simp
  then have "fold step ms (ex\<lparr>x_index := 0\<rparr>)
      = (fold step ms ?e0)\<lparr>x_nodes := x_nodes ex @ x_nodes (fold step ms ?e0)\<rparr>"
    by (simp only: fold_prefix [of step, OF assms])
  then show "x_nodes (fold step ms (ex\<lparr>x_index := 0\<rparr>)) = x_nodes ex @ fst (parseWith step ms (x_inst ex))"
    and "x_inst (fold step ms (ex\<lparr>x_index := 0\<rparr>)) = snd (parseWith step ms (x_inst ex))"
    by (simp_all add: parseWith_def Let_def)
qed

lemma childStep_prefix:
  "childStep src off m (ex\<lparr>x_nodes := P @ x_nodes ex\<rparr>)
     = (childStep src off m ex)\<lparr>x_nodes := P @ x_nodes (childStep src off m ex)\<rparr>"
  by (simp add: childStep_def Let_def)

lemma timerStep_prefix:
  "timerStep src off m (ex\<lparr>x_nodes := P @ x_nodes ex\<rparr>)
     = (timerStep src off m ex)\<lparr>x_nodes := P @ x_nodes (timerStep src off m ex)\<rparr>"
  by (simp add: timerStep_def Let_def)

lemma eventStep_prefix:
  "eventStep src off m (ex\<lparr>x_nodes := P @ x_nodes ex\<rparr>)
     = (eventStep src off m ex)\<lparr>x_nodes := P @ x_nodes (eventStep src off m ex)\<rparr>"
  by (simp add: eventStep_def Let_def)

lemma decisionStep_prefix:
  "decisionStep src off m (ex\<lparr>x_nodes := P @ x_nodes ex\<rparr>)
     = (decisionStep src off m ex)\<lparr>x_nodes := P @ x_nodes (decisionStep src off m ex)\<rparr>"
  by (simp add: decisionStep_def Let_def)

lemma retryStep_prefix:
  "retryStep src off m (ex\<lparr>x_nodes := P @ x_nodes ex\<rparr>)
     = (retryStep src off m ex)\<lparr>x_nodes := P @ x_nodes (retryStep src off m ex)\<rparr>"
  by (simp add: retryStep_def)

lemma whenAllStep_prefix:
  "whenAllStep src off m (ex\<lparr>x_nodes := P @ x_nodes ex\<rparr>)
     = (whenAllStep src off m ex)\<lparr>x_nodes := P @ x_nodes (whenAllStep src off m ex)\<rparr>"
  by (simp add: whenAllStep_def Let_def)

lemma runSteps_append: "runSteps src off (xs @ ys) ex = runSteps src off ys (runSteps src off xs ex)"
  by (simp add: runSteps_def)

lemma runSteps_pass:
  assumes "\<And>m P ex. step m (ex\<lparr>x_nodes := P @ x_nodes ex\<rparr>) = (step m ex)\<lparr>x_nodes := P @ x_nodes (step m ex)\<rparr>"
    and "\<And>m ex. runStep src off (K m) ex = step m ex"
  shows "x_nodes (runSteps src off (NextPattern # map K ms) ex)
           = x_nodes ex @ fst (parseWith step ms (x_inst ex))"
    and "x_inst (runSteps src off (NextPattern # map K ms) ex) = snd (parseWith step ms (x_inst ex))"
proof -
  have "fold (runStep src off) (map K ms) e = fold step ms e" for e
    by (induction ms arbitrary: e) (simp_all add: assms(2))
  then have "runSteps src off (NextPattern # map K ms) ex = fold step ms (ex\<lparr>x_index := 0\<rparr>)"
    by (simp add: runSteps_def)
  with run_pass [of step, OF assms(1)]
  show "x_nodes (runSteps src off (NextPattern # map K ms) ex)
           = x_nodes ex @ fst (parseWith step ms (x_inst ex))"
    and "x_inst (runSteps src off (NextPattern # map K ms) ex) = snd (parseWith step ms (x_inst ex))"
    by simp_all
qed

lemma fold_runStep:
  assumes "\<And>m ex. runStep src off (K m) ex = step m ex"
  shows "fold (runStep src off) (map K ms) e = fold step ms e"
  by (induction ms arbitrary: e) (simp_all add: assms)

lemma runSteps_activities:
  "runSteps src off (map TaskMatch tasks @ map AwaitedMatch awaited @ map QuotedMatch strings)
       \<lparr>x_inst = i0, x_nodes = [], x_index = 0\<rparr> = e
   \<Longrightarrow> parseActivities src off tasks awaited strings i0 = (x_nodes e, x_inst e)"
  by (auto simp: runSteps_def parseActivities_def Let_def
      fold_runStep [of src off TaskMatch "taskStep src off"]
      fold_runStep [of src off AwaitedMatch "activityStep True src off"]
      fold_runStep [of src off QuotedMatch "activityStep False src off"])

lemma py_extract_run:
  assumes "py_extract c i0 = (Inr steps, i)"
  shows "steps = x_nodes (runSteps (scopedSourceCode c) (call_lineOffset c) (py_trace c)
                            \<lparr>x_inst = i0, x_nodes = [], x_index = 0\<rparr>)"
    and "i = x_inst (runSteps (scopedSourceCode c) (call_lineOffset c) (py_trace c)
                            \<lparr>x_inst = i0, x_nodes = [], x_index = 0\<rparr>)"
proof -
  let ?src = "scopedSourceCode c" and ?off = "call_lineOffset c"
  let ?e0 = "\<lparr>x_inst = i0, x_nodes = [], x_index = 0\<rparr>"
  define e1 where "e1 = runSteps ?src ?off
     (map TaskMatch (taskMatches c) @ map AwaitedMatch (awaitedMatches c) @ map QuotedMatch (stringMatches c)) ?e0"
  define e2 where "e2 = runSteps ?src ?off (NextPattern # map ChildMatch (childMatches c)) e1"
  define e3 where "e3 = runSteps ?src ?off (NextPattern # map TimerMatch (timerMatches c)) e2"
  define e4 where "e4 = runSteps ?src ?off (NextPattern # map EventMatch (eventMatches c)) e3"
  define e5 where "e5 = runSteps ?src ?off (NextPattern # map DecisionMatch (decisionMatches c)) e4"
  define e6 where "e6 = runSteps ?src ?off (NextPattern # map RetryMatch (retryMatches c)) e5"
  define e7 where "e7 = runSteps ?src ?off (NextPattern # map WhenAllMatch (whenAllMatches c)) e6"
  have whole: "runSteps ?src ?off (py_trace c) ?e0 = e7"
    unfolding py_trace_def e7_def e6_def e5_def e4_def e3_def e2_def e1_def
    by (simp add: runSteps_def)
  have r1: "parseActivities ?src ?off (taskMatches c) (awaitedMatches c) (stringMatches c) i0
              = (x_nodes e1, x_inst e1)"
    by (rule runSteps_activities) (simp add: e1_def)
  note p2 = runSteps_pass [of "childStep ?src ?off" ?src ?off ChildMatch "childMatches c" e1,
      OF childStep_prefix, folded e2_def]
  note p3 = runSteps_pass [of "timerStep ?src ?off" ?src ?off TimerMatch "timerMatches c" e2,
      OF timerStep_prefix, folded e3_def]
  note p4 = runSteps_pass [of "eventStep ?src ?off" ?src ?off EventMatch "eventMatches c" e3,
      OF eventStep_prefix, folded e4_def]
  note p5 = runSteps_pass [of "decisionStep ?src ?off" ?src ?off DecisionMatch "decisionMatches c" e4,
      OF decisionStep_prefix, folded e5_def]
  note p6 = runSteps_pass [of "retryStep ?src ?off" ?src ?off RetryMatch "retryMatches c" e5,
      OF retryStep_prefix, folded e6_def]
  note p7 = runSteps_pass [of "whenAllStep ?src ?off" ?src ?off WhenAllMatch "whenAllMatches c" e6,
      OF whenAllStep_prefix, folded e7_def]
  from py_extract_parts [OF assms]
  have "steps = x_nodes e7 \<and> i = x_inst e7"
    by (simp add: Let_def r1 p2 p3 p4 p5 p6 p7)
  with whole show "steps = x_nodes (runSteps ?src ?off (py_trace c) ?e0)"
    and "i = x_inst (runSteps ?src ?off (py_trace c) ?e0)"
    by simp_all
qed

subsection \<open>C3: a later reference to a step's output variable\<close>

text \<open>
  C3 as stated fails, in four ways. In \<open>reboundInputCall\<close> the workflow's input
  parameter is \<open>order\<close>, the first step binds its result to \<open>order\<close> (the node
  \<open>activity-0\<close> has this output variable), and the second step's input expression is
  \<open>order\<close>: the test for the input parameter comes first, so the second step's source is
  classified as workflow input, without a producer. In \<open>taskProducerCall\<close> the node of
  the task has the output variable \<open>a_task\<close>, but a task is not registered as producer,
  and the step that reads \<open>a_task\<close> gets a workflow-input source. In \<open>reboundCall\<close> the
  second step binds \<open>state\<close> again before its input is classified, so its source names
  the step itself, not the first step, and so does the source of the third step, which
  reads \<open>state\<close> after both. In \<open>lateTaskCall\<close> the task on line 4 reads the
  result \<open>r\<close> of the step on line 3, but tasks are handled before awaited steps, when
  \<open>r\<close> is not registered yet.
\<close>

theorem C3_counterexample:
  "nodeSources (fst (py_parse reboundInputCall new_instance))
     = [(''start'', None, None, []),
        (''activity-0'', Some ''order'', Some ''key'', [(Workflow_input, None)]),
        (''activity-1'', None, Some ''order'', [(Workflow_input, None)]),
        (''end'', None, None, [])]
   \<and> nodeSources (fst (py_parse taskProducerCall new_instance))
     = [(''start'', None, None, []),
        (''activity-0'', Some ''a_task'', Some ''key'', [(Workflow_input, None)]),
        (''activity-1'', None, Some ''a_task'', [(Workflow_input, None)]),
        (''end'', None, None, [])]
   \<and> nodeSources (fst (py_parse reboundCall new_instance))
     = [(''start'', None, None, []),
        (''activity-0'', Some ''state'', Some ''key'', [(Workflow_input, None)]),
        (''activity-1'', Some ''state'', Some ''state'', [(Activity_output, Some ''activity-1'')]),
        (''activity-2'', None, Some ''state'', [(Activity_output, Some ''activity-1'')]),
        (''end'', None, None, [])]
   \<and> nodeSources (fst (py_parse lateTaskCall new_instance))
     = [(''start'', None, None, []),
        (''activity-0'', Some ''b_task'', Some ''r'', [(Workflow_input, None)]),
        (''activity-1'', Some ''r'', Some ''key'', [(Workflow_input, None)]),
        (''end'', None, None, [])]
   \<and> nodeLines (fst (py_parse lateTaskCall new_instance))
     = [(''start'', None), (''activity-0'', Some 4), (''activity-1'', Some 3), (''end'', None)]"
  by code_simp

text \<open>
  C3, amended. Let a step that registers its output variable (an awaited activity, a
  child workflow, a timer or an event) be emitted as node \<open>n\<close> and bind the identifier
  \<open>v\<close>, which is not the name of the workflow input parameter. Let the steps the parser
  handles after it, of whatever kind, register other variables or none, and let a step
  handled later (a task, an activity or a child workflow) that registers another
  variable or none be emitted with an input expression that is \<open>v\<close> or starts with \<open>v.\<close>
  or \<open>v[\<close>. Then the data sources of that later node are one source of type
  \<open>activity_output\<close> whose path is the expression and whose \<open>sourceActivityId\<close> is the
  id of \<open>n\<close>. "Later" is the order in which the parser handles the matches (all
  activities, then all child workflows, and so on), not the order of the lines.
\<close>

theorem C3_later_reference:
  assumes idv: "isIdentifier v"
    and ids: "identifierKeys (x_inst ex0)"
    and notInput: "v \<noteq> workflowInputParam (x_inst ex0)"
    and binds: "producedVar mp = Some v"
    and emitted: "\<not> skippedStep src off mp ex0"
    and between: "list_all (bindsOthers v) mid"
    and other: "bindsOthers v mc"
    and reads: "inputOf src mc = Some e" "rootedAt e v"
    and emitted': "\<not> skippedStep src off mc (runSteps src off mid (runStep src off mp ex0))"
  shows "\<exists>n n'. x_nodes (runStep src off mp ex0) = x_nodes ex0 @ [n]
      \<and> node_output n = Some v
      \<and> x_nodes (runStep src off mc (runSteps src off mid (runStep src off mp ex0)))
          = x_nodes (runSteps src off mid (runStep src off mp ex0)) @ [n']
      \<and> node_input n' = Some e
      \<and> dataSources n' =
          [\<lparr>sourceType = Activity_output, sourcePath = e, targetProperty = None,
            sourceActivityId = Some (node_id n)\<rparr>]"
proof -
  let ?ex1 = "runStep src off mp ex0"
  let ?ex2 = "runSteps src off mid ?ex1"
  from producer_step [OF binds emitted] obtain n
    where n: "x_nodes ?ex1 = x_nodes ex0 @ [n]" and out: "node_output n = Some v"
      and i1: "x_inst ?ex1 = registerOutput (Some v) (node_id n) (x_inst ex0)"
    by blast
  from ids idv have k1: "identifierKeys (x_inst ?ex1)"
    unfolding i1 identifierKeys_def by (simp add: registerOutput_keys)
  have m1: "map_of (outputVariableMap (x_inst ?ex1)) v = Some (node_id n)"
    by (simp add: i1 registerOutput_same)
  have p1: "workflowInputParam (x_inst ?ex1) = workflowInputParam (x_inst ex0)"
    by (simp add: i1)
  from runSteps_keeps [OF between, of ?ex1 src off] k1 m1 p1
  have k2: "identifierKeys (x_inst ?ex2)"
    and m2: "map_of (outputVariableMap (x_inst ?ex2)) v = Some (node_id n)"
    and p2: "v \<noteq> workflowInputParam (x_inst ?ex2)"
    using notInput by (simp_all add: keeps_def)
  from consumer_step [OF idv reads(2) k2 p2 m2 other reads(1) emitted'] n out
  show ?thesis by blast
qed

theorem C3_later_reference_witness:
  "\<exists>n n'. x_nodes (runStep chainSource 0 chainProducer chainStart) = x_nodes chainStart @ [n]
      \<and> node_output n = Some ''order''
      \<and> x_nodes (runStep chainSource 0 chainConsumer
                    (runSteps chainSource 0 chainBetween (runStep chainSource 0 chainProducer chainStart)))
          = x_nodes (runSteps chainSource 0 chainBetween (runStep chainSource 0 chainProducer chainStart)) @ [n']
      \<and> node_input n' = Some ''order.items''
      \<and> dataSources n' =
          [\<lparr>sourceType = Activity_output, sourcePath = ''order.items'', targetProperty = None,
            sourceActivityId = Some (node_id n)\<rparr>]"
proof (rule C3_later_reference)
  show "isIdentifier ''order''" by code_simp
  show "identifierKeys (x_inst chainStart)" by code_simp
  show "''order'' \<noteq> workflowInputParam (x_inst chainStart)" by code_simp
  show "producedVar chainProducer = Some ''order''" by code_simp
  show "\<not> skippedStep chainSource 0 chainProducer chainStart" by code_simp
  show "list_all (bindsOthers ''order'') chainBetween" by code_simp
  show "bindsOthers ''order'' chainConsumer" by code_simp
  show "inputOf chainSource chainConsumer = Some ''order.items''" by code_simp
  show "rootedAt ''order.items'' ''order''" by code_simp
  show "\<not> skippedStep chainSource 0 chainConsumer
          (runSteps chainSource 0 chainBetween (runStep chainSource 0 chainProducer chainStart))"
    by code_simp
qed

subsection \<open>Control edges have two ends\<close>

text \<open>
  Over a well-grouped map the cursor of the walk is never a task that the map sends to
  a join, and no control edge, default or parallel, goes from a node to itself.
\<close>

lemma wellGrouped_ungrouped:
  assumes "wellGrouped gm srt" and "n \<in> set srt" and "\<not> isTaskStep n"
  shows "map_of gm (node_id n) = None"
  using assms by (auto simp: wellGrouped_def list_all_iff)

lemma noSelfLoop_append [simp]: "noSelfLoop (xs @ ys) = (noSelfLoop xs \<and> noSelfLoop ys)"
  by (simp add: noSelfLoop_def)

lemma noSelfLoop_Nil [simp]: "noSelfLoop []"
  by (simp add: noSelfLoop_def)

lemma sequentialStep_inv:
  assumes "map_of gm (node_id node) = None" and "noSelfLoop (edges st)"
  shows "ungroupedCursor gm (sequentialStep node st)" and "noSelfLoop (edges (sequentialStep node st))"
  using assms
  by (simp_all add: sequentialStep_def ungroupedCursor_def noSelfLoop_def controlEdge_def
      split: option.split)

lemma groupStep_inv:
  assumes wg: "wellGrouped gm srt" and k: "map_of gm k = Some j"
    and c: "ungroupedCursor gm st" and e: "noSelfLoop (edges st)"
  shows "ungroupedCursor gm (groupStep gm srt j st)" and "noSelfLoop (edges (groupStep gm srt j st))"
proof -
  from wg k have jn: "map_of gm j = None" by (rule wellGrouped_value(2))
  have m: "map_of gm (node_id p) = Some j" if "p \<in> set (parallelGroup gm srt j)" for p
    using that by (rule group_member)
  have out: "noSelfLoop (map (\<lambda>p. controlEdge (node_id l) (node_id p) Parallel_edge)
                            (parallelGroup gm srt j))"
    if "lastSequentialNode st = Some l" for l
  proof -
    from c that have "map_of gm (node_id l) = None" by (simp add: ungroupedCursor_def)
    with m have "node_id l \<noteq> node_id p" if "p \<in> set (parallelGroup gm srt j)" for p
      using that by fastforce
    then show ?thesis
      by (simp add: noSelfLoop_def list_all_iff controlEdge_def)
  qed
  have inn: "noSelfLoop (map (\<lambda>p. controlEdge (node_id p) j Parallel_edge) (parallelGroup gm srt j))"
  proof -
    from m jn have "node_id p \<noteq> j" if "p \<in> set (parallelGroup gm srt j)" for p
      using that by fastforce
    then show ?thesis
      by (simp add: noSelfLoop_def list_all_iff controlEdge_def)
  qed
  from e out inn show "noSelfLoop (edges (groupStep gm srt j st))"
    by (simp add: groupStep_edges split: option.split)
  show "ungroupedCursor gm (groupStep gm srt j st)"
  proof (cases "find (\<lambda>n. node_id n = j) srt")
    case None
    with c show ?thesis by (simp add: groupStep_def Let_def ungroupedCursor_def)
  next
    case (Some jn')
    then have "node_id jn' = j" by (rule find_id)
    with Some jn show ?thesis by (simp add: groupStep_def Let_def ungroupedCursor_def)
  qed
qed

lemma visit_inv:
  assumes wg: "wellGrouped gm srt" and n: "node \<in> set srt"
    and c: "ungroupedCursor gm st" and e: "noSelfLoop (edges st)"
  shows "ungroupedCursor gm (visit gm srt node st) \<and> noSelfLoop (edges (visit gm srt node st))"
proof (cases "isTaskStep node")
  case False
  with wg n have u: "map_of gm (node_id node) = None" by (rule wellGrouped_ungrouped)
  show ?thesis
  proof (cases rule: visit_cases [of gm srt node st])
    case cursor
    with u e show ?thesis by (simp add: ungroupedCursor_def)
  next
    case skip
    with c e show ?thesis by simp
  next
    case seq
    with sequentialStep_inv [OF u e] show ?thesis by simp
  next
    case (grp j)
    with u show ?thesis by simp
  qed
next
  case True
  then have t: "node_type node \<noteq> Start" "node_type node \<noteq> End"
    by (simp_all add: isTaskStep_def)
  from n True have i: "node_id node \<in> set (parallelTaskNodeIds srt)" by (rule task_in_ids)
  show ?thesis
  proof (cases "map_of gm (node_id node)")
    case None
    with t i have "visit gm srt node st = sequentialStep node st" by (simp add: visit_def)
    with sequentialStep_inv [OF None e] show ?thesis by simp
  next
    case (Some j)
    from wg Some have "j \<noteq> []" by (rule wellGrouped_value(1))
    with t i Some have "visit gm srt node st =
        (if j \<in> set (processedParallelGroups st) then st else groupStep gm srt j st)"
      by (simp add: visit_def)
    with groupStep_inv [OF wg Some c e] c e show ?thesis by simp
  qed
qed

lemma walk_inv:
  assumes wg: "wellGrouped gm srt"
  shows "set ns \<subseteq> set srt \<Longrightarrow> ungroupedCursor gm st \<Longrightarrow> noSelfLoop (edges st)
         \<Longrightarrow> noSelfLoop (edges (walk gm srt ns st))"
proof (induction ns arbitrary: st)
  case Nil
  then show ?case by simp
next
  case (Cons n ns)
  from Cons.prems(1) have n: "n \<in> set srt" and r: "set ns \<subseteq> set srt" by simp_all
  from visit_inv [OF wg n Cons.prems(2,3)] Cons.IH [OF r] show ?case by simp
qed

lemma control_edges_no_self_loop:
  assumes "wellGrouped gm ns"
  shows "noSelfLoop (buildControlFlowEdges gm ns)"
proof -
  from assms have wg: "wellGrouped gm (sortedNodes ns)" by (rule wellGrouped_sorted)
  have "noSelfLoop (edges (walk gm (sortedNodes ns) (sortedNodes ns) initial_walk))"
    by (rule walk_inv [OF wg]) (simp_all add: initial_walk_def ungroupedCursor_def noSelfLoop_def)
  then show ?thesis
    by (simp add: buildControlFlowEdges_def connectEnd_def Let_def noSelfLoop_def controlEdge_def
        split: option.split)
qed

subsection \<open>The group map the step recognition builds\<close>

text \<open>
  The assembler lemmas above ask for a well-grouped map: every key of
  \<open>parallelGroupMap\<close> is the id of a task node and every value is the id of a join
  node that is no key.  The step recognition of the Python parser always builds such a
  map.  Task nodes are created first and numbered from 0, so their ids are
  \<open>activity-k\<close> with \<open>k\<close> below the count \<open>T\<close> of task nodes; every later node either
  has another prefix or a number from \<open>T\<close> on; \<open>when_all\<close> only maps ids found in
  \<open>parallelTaskMap\<close> to ids that start with \<open>parallel-join-\<close>.
\<close>

lemma showNat_nonempty: "showNat n \<noteq> []"
  by (subst showNat.simps) simp

lemma showNat_small: "n < 10 \<Longrightarrow> showNat n = [char_of (48 + n)]"
  by (subst showNat.simps) simp

lemma showNat_big: "\<not> n < 10 \<Longrightarrow> showNat n = showNat (n div 10) @ [char_of (48 + n mod 10)]"
  by (subst showNat.simps) simp

lemma digit_inj:
  assumes "a < 10" and "b < 10" and "(char_of (48 + a) :: char) = char_of (48 + b)"
  shows "a = (b::nat)"
proof -
  from assms(1,2) have "48 + a \<in> {0..<256}" and "48 + b \<in> {0..<256}" by simp_all
  with inj_on_char_of_nat assms(3) have "48 + a = 48 + b" by (rule inj_onD)
  then show ?thesis by simp
qed

lemma showNat_inj: "showNat m = showNat n \<Longrightarrow> m = n"
proof (induction m arbitrary: n rule: showNat.induct)
  case (1 m)
  show ?case
  proof (cases "m < 10")
    case True
    show ?thesis
    proof (cases "n < 10")
      case n: True
      with True "1.prems" show ?thesis
        by (simp add: showNat_small digit_inj)
    next
      case False
      with True "1.prems" showNat_nonempty [of "n div 10"] show ?thesis
        by (simp add: showNat_small showNat_big)
    qed
  next
    case False
    show ?thesis
    proof (cases "n < 10")
      case True
      with False "1.prems" showNat_nonempty [of "m div 10"] show ?thesis
        by (simp add: showNat_small showNat_big)
    next
      case n: False
      with False "1.prems" have a: "showNat (m div 10) = showNat (n div 10)"
        and b: "(char_of (48 + m mod 10) :: char) = char_of (48 + n mod 10)"
        by (simp_all add: showNat_big)
      from "1.IH" [OF False a] have "m div 10 = n div 10" .
      moreover from b have "m mod 10 = n mod 10"
        by (intro digit_inj) simp_all
      ultimately show ?thesis by (metis div_mult_mod_eq)
    qed
  qed
qed


lemma activityId_inj: "activityId m = activityId n \<Longrightarrow> m = n"
  by (simp add: activityId_def showNat_inj)

lemma activityId_hd: "hd (activityId k) = CHR ''a''"
  by (simp add: activityId_def)

lemma update_entries:
  "(a, b) \<in> set (AList.update k v al) \<Longrightarrow> (a, b) = (k, v) \<or> (a, b) \<in> set al"
  by (induction al) (auto split: if_splits)

lemma taskIdBelow_mono:
  assumes "taskIdBelow T s" and "T \<le> T'"
  shows "taskIdBelow T' s"
proof -
  from assms(1) obtain k where "k < T" and "s = activityId k"
    by (auto simp: taskIdBelow_def)
  with assms(2) have "k < T' \<and> s = activityId k" by simp
  then show ?thesis unfolding taskIdBelow_def by blast
qed

lemma taskIdBelow_hd: "taskIdBelow T s \<Longrightarrow> hd s = CHR ''a''"
  by (auto simp: taskIdBelow_def activityId_hd)

lemma taskIdBelow_activity: "taskIdBelow T (activityId k) = (k < T)"
  unfolding taskIdBelow_def using activityId_inj by blast

lemma taskOrOther_hd: "hd (node_id n) \<noteq> CHR ''a'' \<Longrightarrow> taskOrOther T n"
  by (auto simp: taskOrOther_def dest: taskIdBelow_hd)

lemma fold_invariant:
  assumes "\<And>m e. P e \<Longrightarrow> P (step m e)"
  shows "P e \<Longrightarrow> P (fold step ms e)"
  by (induction ms arbitrary: e) (simp_all add: assms)

lemma taskStep_tasksOnly:
  assumes "tasksOnly e"
  shows "tasksOnly (taskStep src off m e)"
proof -
  let ?nid = "activityId (x_index e)"
  have new: "taskIdBelow (Suc (x_index e)) ?nid"
    by (simp add: taskIdBelow_activity)
  have old: "taskIdBelow (Suc (x_index e)) s" if "taskIdBelow (x_index e) s" for s
    using that by (rule taskIdBelow_mono) simp
  have m: "list_all (\<lambda>(v, a). taskIdBelow (Suc (x_index e)) a)
             (AList.update (t_var m) ?nid (parallelTaskMap (x_inst e)))"
    unfolding list_all_iff
  proof (clarify)
    fix v a
    assume "(v, a) \<in> set (AList.update (t_var m) ?nid (parallelTaskMap (x_inst e)))"
    then have "(v, a) = (t_var m, ?nid) \<or> (v, a) \<in> set (parallelTaskMap (x_inst e))"
      by (rule update_entries)
    with assms new old show "taskIdBelow (Suc (x_index e)) a"
      by (auto simp: tasksOnly_def list_all_iff)
  qed
  from assms old have n: "list_all (\<lambda>n. isTaskStep n \<and> taskIdBelow (Suc (x_index e)) (node_id n)) (x_nodes e)"
    by (auto simp: tasksOnly_def list_all_iff)
  from assms have g: "parallelGroupMap (x_inst e) = []"
    by (simp add: tasksOnly_def)
  show ?thesis
    using m n g new
    by (simp add: tasksOnly_def taskStep_def Let_def createNode_def isTaskStep_def)
qed

lemma taskFold_tasksOnly:
  "tasksOnly e \<Longrightarrow> tasksOnly (fold (taskStep src off) tasks e)"
  by (rule fold_invariant) (rule taskStep_tasksOnly)

lemma registerOutput_maps [simp]:
  "parallelTaskMap (registerOutput ov nid i) = parallelTaskMap i"
  "parallelGroupMap (registerOutput ov nid i) = parallelGroupMap i"
  by (simp_all add: registerOutput_def split: option.split)

lemma activityStep_afterTasks:
  assumes "afterTasks T ptm pgm e \<and> T \<le> x_index e"
  shows "afterTasks T ptm pgm (activityStep chk src off m e) \<and> T \<le> x_index (activityStep chk src off m e)"
proof (cases "alreadyCaptured chk src off m e")
  case True
  with assms show ?thesis by (simp add: activityStep_skip)
next
  case False
  from assms have "\<not> taskIdBelow T (activityId (x_index e))"
    by (simp add: taskIdBelow_activity)
  with assms False show ?thesis
    by (simp add: afterTasks_def activityStep_def Let_def taskOrOther_def createNode_def)
qed

lemma childStep_afterTasks:
  "afterTasks T ptm pgm e \<Longrightarrow> afterTasks T ptm pgm (childStep src off m e)"
  by (simp add: afterTasks_def childStep_def Let_def taskOrOther_hd createNode_def)

lemma timerStep_afterTasks:
  "afterTasks T ptm pgm e \<Longrightarrow> afterTasks T ptm pgm (timerStep src off m e)"
  by (simp add: afterTasks_def timerStep_def Let_def taskOrOther_hd createNode_def)

lemma eventStep_afterTasks:
  "afterTasks T ptm pgm e \<Longrightarrow> afterTasks T ptm pgm (eventStep src off m e)"
  by (simp add: afterTasks_def eventStep_def Let_def taskOrOther_hd createNode_def)

lemma decisionStep_afterTasks:
  "afterTasks T ptm pgm e \<Longrightarrow> afterTasks T ptm pgm (decisionStep src off m e)"
  by (simp add: afterTasks_def decisionStep_def Let_def taskOrOther_hd createNode_def)

lemma retryStep_afterTasks:
  "afterTasks T ptm pgm e \<Longrightarrow> afterTasks T ptm pgm (retryStep src off m e)"
  by (simp add: afterTasks_def retryStep_def Let_def taskOrOther_hd createNode_def)


lemma mapTask_groupEntries:
  assumes "parallelTaskMap i = ptm" and "groupEntries ptm (parallelGroupMap i)"
    and "nid \<noteq> []" and "hd nid = CHR ''p''"
  shows "parallelTaskMap (mapTask nid tv i) = ptm \<and> groupEntries ptm (parallelGroupMap (mapTask nid tv i))"
proof (cases "map_of (parallelTaskMap i) tv")
  case None
  with assms show ?thesis by (simp add: mapTask_def)
next
  case (Some a)
  then have "(tv, a) \<in> set (parallelTaskMap i)" by (rule map_of_SomeD)
  with assms(1) have a: "a \<in> snd ` set ptm" by force
  have "groupEntries ptm (AList.update a nid (parallelGroupMap i))"
    unfolding groupEntries_def list_all_iff
  proof (clarify)
    fix k j
    assume "(k, j) \<in> set (AList.update a nid (parallelGroupMap i))"
    then have "(k, j) = (a, nid) \<or> (k, j) \<in> set (parallelGroupMap i)"
      by (rule update_entries)
    with assms(2-4) a show "k \<in> snd ` set ptm \<and> j \<noteq> [] \<and> hd j = CHR ''p''"
      by (auto simp: groupEntries_def list_all_iff)
  qed
  with assms Some show ?thesis by (simp add: mapTask_def)
qed

lemma mapTasks_groupEntries:
  assumes "nid \<noteq> []" and "hd nid = CHR ''p''"
  shows "parallelTaskMap i = ptm \<and> groupEntries ptm (parallelGroupMap i)
     \<Longrightarrow> parallelTaskMap (fold (mapTask nid) tvs i) = ptm
         \<and> groupEntries ptm (parallelGroupMap (fold (mapTask nid) tvs i))"
  by (rule fold_invariant) (simp add: mapTask_groupEntries [OF _ _ assms])

lemma registerOutputs_maps:
  "parallelTaskMap i = ptm \<and> parallelGroupMap i = pgm
   \<Longrightarrow> parallelTaskMap (fold (\<lambda>ov. registerOutput (orUndefined (Some ov)) nid) outs i) = ptm
     \<and> parallelGroupMap (fold (\<lambda>ov. registerOutput (orUndefined (Some ov)) nid) outs i) = pgm"
  by (rule fold_invariant) simp

lemma whenAllStep_joinsOnly:
  assumes "joinsOnly T ptm e"
  shows "joinsOnly T ptm (whenAllStep src off m e)"
proof -
  let ?nid = "''parallel-join-'' @ showNat (x_index e)"
  let ?outs = "case w_outputs m of None \<Rightarrow> [] | Some t \<Rightarrow> map trim (split t CHR '','')"
  let ?i1 = "fold (\<lambda>ov. registerOutput (orUndefined (Some ov)) ?nid) ?outs (x_inst e)"
  have n: "?nid \<noteq> []" and h: "hd ?nid = CHR ''p''" by simp_all
  from assms registerOutputs_maps [of "x_inst e" ptm "parallelGroupMap (x_inst e)" ?nid ?outs]
  have "parallelTaskMap ?i1 = ptm \<and> groupEntries ptm (parallelGroupMap ?i1)"
    by (simp add: joinsOnly_def)
  then have "parallelTaskMap (fold (mapTask ?nid) (w_tasks m) ?i1) = ptm
     \<and> groupEntries ptm (parallelGroupMap (fold (mapTask ?nid) (w_tasks m) ?i1))"
    by (rule mapTasks_groupEntries [OF n h])
  moreover have "taskOrOther T (createNode ?nid Parallel ''Join'' l ln False)" for l ln
    by (rule taskOrOther_hd) (simp add: createNode_def)
  ultimately show ?thesis
    using assms by (simp add: joinsOnly_def whenAllStep_def Let_def)
qed

lemma wellGrouped_from:
  assumes ns: "list_all (taskOrOther T) ns"
    and ptm: "list_all (\<lambda>(v, a). taskIdBelow T a) ptm"
    and gm: "groupEntries ptm gm"
  shows "wellGrouped gm ns"
proof -
  have key: "taskIdBelow T k" if "(k, j) \<in> set gm" for k j
  proof -
    from gm that have "k \<in> snd ` set ptm" by (auto simp: groupEntries_def list_all_iff)
    with ptm show ?thesis by (auto simp: list_all_iff)
  qed
  have val: "j \<noteq> [] \<and> map_of gm j = None" if "(k, j) \<in> set gm" for k j
  proof -
    from gm that have j: "j \<noteq> []" "hd j = CHR ''p''"
      by (auto simp: groupEntries_def list_all_iff)
    have "map_of gm j = None"
    proof (cases "map_of gm j")
      case (Some x)
      then have "(j, x) \<in> set gm" by (rule map_of_SomeD)
      then have "hd j = CHR ''a''" using key taskIdBelow_hd by blast
      with j show ?thesis by simp
    qed simp
    with j show ?thesis by simp
  qed
  have node: "map_of gm (node_id n) = None \<or> isTaskStep n" if "n \<in> set ns" for n
  proof (cases "map_of gm (node_id n)")
    case (Some j)
    then have "(node_id n, j) \<in> set gm" by (rule map_of_SomeD)
    then have "taskIdBelow T (node_id n)" by (rule key)
    moreover from ns that have "taskOrOther T n" by (simp add: list_all_iff)
    ultimately show ?thesis by (simp add: taskOrOther_def)
  qed simp
  from node val show ?thesis
    by (auto simp: wellGrouped_def list_all_iff)
qed


lemma parseWith_afterTasks:
  assumes step: "\<And>m e. afterTasks T ptm pgm e \<Longrightarrow> afterTasks T ptm pgm (step m e)"
    and maps: "parallelTaskMap i = ptm" "parallelGroupMap i = pgm"
  shows "list_all (taskOrOther T) (fst (parseWith step ms i))
    \<and> parallelTaskMap (snd (parseWith step ms i)) = ptm
    \<and> parallelGroupMap (snd (parseWith step ms i)) = pgm"
proof -
  from maps have "afterTasks T ptm pgm \<lparr>x_inst = i, x_nodes = [], x_index = 0\<rparr>"
    by (simp add: afterTasks_def)
  moreover have "afterTasks T ptm pgm e \<Longrightarrow> afterTasks T ptm pgm (fold step ms e)" for e
    by (rule fold_invariant) (rule step)
  ultimately have "afterTasks T ptm pgm (fold step ms \<lparr>x_inst = i, x_nodes = [], x_index = 0\<rparr>)"
    by blast
  then show ?thesis
    by (simp add: parseWith_def Let_def afterTasks_def)
qed

lemma parseWith_whenAll:
  assumes "parallelTaskMap i = ptm" and "parallelGroupMap i = []"
  shows "list_all (taskOrOther T) (fst (parseWith (whenAllStep src off) ms i))
    \<and> groupEntries ptm (parallelGroupMap (snd (parseWith (whenAllStep src off) ms i)))"
proof -
  from assms have "joinsOnly T ptm \<lparr>x_inst = i, x_nodes = [], x_index = 0\<rparr>"
    by (simp add: joinsOnly_def groupEntries_def)
  moreover have "joinsOnly T ptm e \<Longrightarrow> joinsOnly T ptm (fold (whenAllStep src off) ms e)" for e
    by (rule fold_invariant) (rule whenAllStep_joinsOnly)
  ultimately have "joinsOnly T ptm (fold (whenAllStep src off) ms \<lparr>x_inst = i, x_nodes = [], x_index = 0\<rparr>)"
    by blast
  then show ?thesis
    by (simp add: parseWith_def Let_def joinsOnly_def)
qed

lemma parseActivities_tasks:
  assumes "parallelTaskMap i0 = []" and "parallelGroupMap i0 = []"
  shows "\<exists>T. list_all (taskOrOther T) (fst (parseActivities src off tasks awaited strings i0))
    \<and> list_all (\<lambda>(v, a). taskIdBelow T a)
         (parallelTaskMap (snd (parseActivities src off tasks awaited strings i0)))
    \<and> parallelGroupMap (snd (parseActivities src off tasks awaited strings i0)) = []"
proof -
  let ?e0 = "\<lparr>x_inst = i0, x_nodes = [], x_index = 0\<rparr>"
  let ?e1 = "fold (taskStep src off) tasks ?e0"
  let ?T = "x_index ?e1"
  let ?ptm = "parallelTaskMap (x_inst ?e1)"
  let ?P = "\<lambda>e. afterTasks ?T ?ptm [] e \<and> ?T \<le> x_index e"
  let ?e2 = "fold (activityStep True src off) awaited ?e1"
  let ?e3 = "fold (activityStep False src off) strings ?e2"
  from assms have "tasksOnly ?e0" by (simp add: tasksOnly_def)
  then have t: "tasksOnly ?e1" by (rule taskFold_tasksOnly)
  then have "?P ?e1"
    by (simp add: tasksOnly_def afterTasks_def taskOrOther_def list_all_iff)
  moreover have f: "?P e \<Longrightarrow> ?P (fold (activityStep chk src off) ms e)" for e chk ms
    by (rule fold_invariant) (rule activityStep_afterTasks)
  ultimately have "?P ?e2"
    by blast
  then have "?P ?e3"
    by (rule f)
  with t have "list_all (taskOrOther ?T) (x_nodes ?e3)
    \<and> list_all (\<lambda>(v, a). taskIdBelow ?T a) (parallelTaskMap (x_inst ?e3))
    \<and> parallelGroupMap (x_inst ?e3) = []"
    by (simp add: afterTasks_def tasksOnly_def)
  then show ?thesis
    unfolding parseActivities_def Let_def by (intro exI [of _ ?T]) simp
qed

lemma py_extract_wellGrouped:
  assumes "parallelTaskMap i0 = []" and "parallelGroupMap i0 = []"
    and ok: "py_extract c i0 = (Inr steps, i)"
  shows "wellGrouped (parallelGroupMap i) (addStartEndNodes steps)"
proof -
  let ?src = "scopedSourceCode c" and ?off = "call_lineOffset c"
  define r1 where "r1 = parseActivities ?src ?off (taskMatches c) (awaitedMatches c) (stringMatches c) i0"
  define r2 where "r2 = parseWith (childStep ?src ?off) (childMatches c) (snd r1)"
  define r3 where "r3 = parseWith (timerStep ?src ?off) (timerMatches c) (snd r2)"
  define r4 where "r4 = parseWith (eventStep ?src ?off) (eventMatches c) (snd r3)"
  define r5 where "r5 = parseWith (decisionStep ?src ?off) (decisionMatches c) (snd r4)"
  define r6 where "r6 = parseWith (retryStep ?src ?off) (retryMatches c) (snd r5)"
  define r7 where "r7 = parseWith (whenAllStep ?src ?off) (whenAllMatches c) (snd r6)"
  from parseActivities_tasks [OF assms(1,2)] obtain T where
    n1: "list_all (taskOrOther T) (fst r1)"
    and t1: "list_all (\<lambda>(v, a). taskIdBelow T a) (parallelTaskMap (snd r1))"
    and g1: "parallelGroupMap (snd r1) = []"
    unfolding r1_def by blast
  let ?ptm = "parallelTaskMap (snd r1)"
  from parseWith_afterTasks [of T ?ptm "[]" "childStep ?src ?off" "snd r1" "childMatches c"] g1
  have s2: "list_all (taskOrOther T) (fst r2)" "parallelTaskMap (snd r2) = ?ptm" "parallelGroupMap (snd r2) = []"
    by (simp_all add: r2_def childStep_afterTasks)
  from parseWith_afterTasks [of T ?ptm "[]" "timerStep ?src ?off" "snd r2" "timerMatches c"] s2
  have s3: "list_all (taskOrOther T) (fst r3)" "parallelTaskMap (snd r3) = ?ptm" "parallelGroupMap (snd r3) = []"
    by (simp_all add: r3_def timerStep_afterTasks)
  from parseWith_afterTasks [of T ?ptm "[]" "eventStep ?src ?off" "snd r3" "eventMatches c"] s3
  have s4: "list_all (taskOrOther T) (fst r4)" "parallelTaskMap (snd r4) = ?ptm" "parallelGroupMap (snd r4) = []"
    by (simp_all add: r4_def eventStep_afterTasks)
  from parseWith_afterTasks [of T ?ptm "[]" "decisionStep ?src ?off" "snd r4" "decisionMatches c"] s4
  have s5: "list_all (taskOrOther T) (fst r5)" "parallelTaskMap (snd r5) = ?ptm" "parallelGroupMap (snd r5) = []"
    by (simp_all add: r5_def decisionStep_afterTasks)
  from parseWith_afterTasks [of T ?ptm "[]" "retryStep ?src ?off" "snd r5" "retryMatches c"] s5
  have s6: "list_all (taskOrOther T) (fst r6)" "parallelTaskMap (snd r6) = ?ptm" "parallelGroupMap (snd r6) = []"
    by (simp_all add: r6_def retryStep_afterTasks)
  from parseWith_whenAll [OF s6(2,3), of T ?src ?off "whenAllMatches c"]
  have s7: "list_all (taskOrOther T) (fst r7)" "groupEntries ?ptm (parallelGroupMap (snd r7))"
    by (simp_all add: r7_def)
  from py_extract_parts [OF ok]
  have e: "steps = fst r1 @ fst r2 @ fst r3 @ fst r4 @ fst r5 @ fst r6 @ fst r7" and i: "i = snd r7"
    by (simp_all add: Let_def r1_def r2_def r3_def r4_def r5_def r6_def r7_def)
  have se: "taskOrOther T startNode" "taskOrOther T endNode"
    by (rule taskOrOther_hd, simp add: startNode_def endNode_def createNode_def)+
  with n1 s2(1) s3(1) s4(1) s5(1) s6(1) s7(1)
  have "list_all (taskOrOther T) (addStartEndNodes steps)"
    by (simp add: e addStartEndNodes_def)
  from this t1 s7(2) show ?thesis
    unfolding i by (rule wellGrouped_from)
qed

lemma resetState_maps:
  "parallelTaskMap (resetState i) = []" "parallelGroupMap (resetState i) = []"
  by (simp_all add: resetState_def)

lemma extractWorkflowInputInfo_maps:
  "parallelTaskMap (extractWorkflowInputInfo c i) = parallelTaskMap i"
  "parallelGroupMap (extractWorkflowInputInfo c i) = parallelGroupMap i"
  by (simp_all add: extractWorkflowInputInfo_def Let_def split: option.split)

lemma py_parse_workflow:
  assumes "workflow (fst (py_parse c i)) = Some w"
  shows "\<exists>steps i2. py_extract c (extractWorkflowInputInfo c (resetState i)) = (Inr steps, i2)
     \<and> wf_nodes w = addStartEndNodes steps
     \<and> wf_edges w = buildEdgesWithDataFlow (parallelGroupMap i2) (addStartEndNodes steps)
     \<and> groupMapOf (fst (py_parse c i)) = parallelGroupMap i2"
proof -
  from assms obtain i1 where t: "py_try c (resetState i) = (Inr w, i1)"
    by (auto simp: py_parse_def caught_def returned_def split: prod.splits sum.splits)
  let ?x = "py_extract c (extractWorkflowInputInfo c (resetState i))"
  obtain r i2 where x: "?x = (r, i2)" by (cases ?x)
  from t have p: "fst (py_parse c i) = returned w"
    by (simp add: py_parse_def)
  show ?thesis
  proof (cases r)
    case (Inl e)
    with t x show ?thesis
      by (auto simp: py_try_def Let_def dest!: throwing_Inr)
  next
    case (Inr steps)
    with t x have "wf_nodes w = addStartEndNodes steps
      \<and> wf_edges w = buildEdgesWithDataFlow (parallelGroupMap i2) (addStartEndNodes steps)
      \<and> map_option dbg_parallelGroupMap (debug w) = Some (parallelGroupMap i2)"
      by (auto simp: py_try_def Let_def dest!: throwing_Inr)
    with x Inr p show ?thesis
      by (auto simp: groupMapOf_def returned_def)
  qed
qed

lemma py_parse_wellGrouped:
  assumes "workflow (fst (py_parse c i)) = Some w"
  shows "wellGrouped (groupMapOf (fst (py_parse c i))) (wf_nodes w)"
proof -
  from py_parse_workflow [OF assms] obtain steps i2
    where x: "py_extract c (extractWorkflowInputInfo c (resetState i)) = (Inr steps, i2)"
      and n: "wf_nodes w = addStartEndNodes steps"
      and g: "groupMapOf (fst (py_parse c i)) = parallelGroupMap i2"
    by blast
  have "wellGrouped (parallelGroupMap i2) (addStartEndNodes steps)"
    by (rule py_extract_wellGrouped [OF _ _ x])
       (simp_all add: extractWorkflowInputInfo_maps resetState_maps)
  with n g show ?thesis by simp
qed

lemma py_parse_control_edges:
  assumes "workflow (fst (py_parse c i)) = Some w"
  shows "wf_edges w = buildControlFlowEdges (groupMapOf (fst (py_parse c i))) (wf_nodes w)
                        @ dataFlowEdges (wf_nodes w)
    \<and> noSelfLoop (buildControlFlowEdges (groupMapOf (fst (py_parse c i))) (wf_nodes w))"
proof
  show "noSelfLoop (buildControlFlowEdges (groupMapOf (fst (py_parse c i))) (wf_nodes w))"
    by (rule control_edges_no_self_loop [OF py_parse_wellGrouped [OF assms]])
  from py_parse_workflow [OF assms]
  show "wf_edges w = buildControlFlowEdges (groupMapOf (fst (py_parse c i))) (wf_nodes w)
                       @ dataFlowEdges (wf_nodes w)"
    by (auto simp: buildEdgesWithDataFlow_def)
qed

subsection \<open>C10: self-loops\<close>

text \<open>
  C10. No control edge is a self-loop (\<open>control_edges_no_self_loop\<close>, and for every
  graph of the Python parser \<open>py_parse_control_edges\<close>), but a data edge of type
  \<open>data_activity_output\<close> can be one. The loop over the awaited matches registers the
  output variable of a step before it classifies the step's input expression; for
  \<^verbatim>\<open>state = yield ctx.call_activity(step, input=state)\<close> the step is therefore its own
  producer, and the graph has a step-output edge from \<open>activity-0\<close> to \<open>activity-0\<close>.
\<close>

theorem C10_step_output_self_loop:
  "nodeSources (fst (py_parse selfInputCall new_instance))
     = [(''start'', None, None, []),
        (''activity-0'', Some ''state'', Some ''state'', [(Activity_output, Some ''activity-0'')]),
        (''end'', None, None, [])]
   \<and> edgeTriples (fst (py_parse selfInputCall new_instance))
     = [(''start'', ''activity-0'', Default_edge),
        (''activity-0'', ''end'', Default_edge),
        (''activity-0'', ''activity-0'', Data_activity_output)]"
  by code_simp

end
